theory Spec2Isabelle
  imports Complex_Main
begin

section \<open>Tensors, errors and the tensor library\<close>

text \<open>
  The repository (\<^verbatim>\<open>model.py\<close>) defines network architectures on top of a tensor
  library. A tensor is a 4-dimensional array (batch, channels, height, width). Its shape
  is modelled exactly; its entries are real numbers indexed by position, so rounding,
  overflow and the NaN of floating-point arithmetic are not represented. What a layer
  with learned parameters computes on the entries depends on weights that are not part
  of the source, so every such layer carries its numeric action as a field.

  The library raises \<^verbatim>\<open>RuntimeError\<close> on a shape mismatch and \<^verbatim>\<open>ValueError\<close> when
  batch normalisation in training mode sees a single value per channel or when a
  dropout layer is constructed with a probability outside the interval from 0 to 1; both
  are values of the result type here. A module's mode (\<^verbatim>\<open>self.training\<close>, set by \<^verbatim>\<open>train()\<close> and
  \<^verbatim>\<open>eval()\<close>) is the first argument of every forward function.
\<close>

datatype error = RuntimeError | ValueError

type_synonym data = "nat \<Rightarrow> nat \<Rightarrow> nat \<Rightarrow> nat \<Rightarrow> real"

record tensor =
  tn :: nat
  tc :: nat
  th :: nat
  tw :: nat
  dat :: data

definition shape :: "tensor \<Rightarrow> nat \<times> nat \<times> nat \<times> nat" where
  "shape x = (tn x, tc x, th x, tw x)"

definition map_dat :: "(real \<Rightarrow> real) \<Rightarrow> tensor \<Rightarrow> tensor" where
  "map_dat f x = x\<lparr>dat := (\<lambda>n c i j. f (dat x n c i j))\<rparr>"

definition and_then :: "error + 'a \<Rightarrow> ('a \<Rightarrow> error + 'b) \<Rightarrow> error + 'b" where
  "and_then r f = (case r of Inl e \<Rightarrow> Inl e | Inr v \<Rightarrow> f v)"

definition result_shape :: "error + tensor \<Rightarrow> error + nat \<times> nat \<times> nat \<times> nat" where
  "result_shape r = (case r of Inl e \<Rightarrow> Inl e | Inr y \<Rightarrow> Inr (shape y))"

definition result_shapes :: "error + tensor list \<Rightarrow> error + (nat \<times> nat \<times> nat \<times> nat) list" where
  "result_shapes r = (case r of Inl e \<Rightarrow> Inl e | Inr ys \<Rightarrow> Inr (map shape ys))"

text \<open>\<^verbatim>\<open>torch.zeros(n, c, h, w)\<close>: the tensor of that shape with every entry 0.\<close>

definition torch_zeros :: "nat \<Rightarrow> nat \<Rightarrow> nat \<Rightarrow> nat \<Rightarrow> tensor" where
  "torch_zeros n c h w = \<lparr>tn = n, tc = c, th = h, tw = w, dat = (\<lambda>_ _ _ _. 0)\<rparr>"

subsection \<open>Parameters\<close>

text \<open>
  A learnable parameter, as far as \<^verbatim>\<open>count_parameters\<close> reads it: its number of
  elements and its \<^verbatim>\<open>requires_grad\<close> flag. A fresh parameter requires gradients.
\<close>

record param =
  numel :: nat
  requires_grad :: bool

definition Parameter :: "nat \<Rightarrow> param" where
  "Parameter k = \<lparr>numel = k, requires_grad = True\<rparr>"

text \<open>
  The numeric action of a layer under its current weights (and, for dropout, its random
  mask): from the mode flag and the input tensor to the entries of the output. The
  constructors draw these from a supply keyed by attribute path, as the library draws
  initial or pretrained weights.
\<close>

type_synonym numerics = "bool \<Rightarrow> tensor \<Rightarrow> data"

datatype key = Attr string | Idx nat

type_synonym weights = "key list \<Rightarrow> numerics"

definition sub :: "weights \<Rightarrow> key \<Rightarrow> weights" where
  "sub ws k = (\<lambda>p. ws (k # p))"

definition zero_weights :: weights where
  "zero_weights = (\<lambda>_ _ _ _ _ _ _. 0)"

subsection \<open>Library layers\<close>

text \<open>
  \<^verbatim>\<open>nn.Conv2d(in, out, kernel_size, padding, dilation)\<close>, stride 1. The input must
  have \<open>in\<close> channels, the kernel size and the dilation must be positive, the weight
  must have at least one output channel, and the padded input must be at least as large
  as the dilated kernel, which spans \<open>dilation * (kernel_size - 1) + 1\<close> rows; the
  output height is \<open>h + 2 * padding - dilation * (kernel_size - 1)\<close>. An input without
  channels (accepted when \<open>in\<close> is 0) gives an output without channels.
\<close>

record Conv2d =
  conv_in :: nat
  conv_out :: nat
  conv_kernel :: nat
  conv_padding :: nat
  conv_dilation :: nat
  conv_weight :: param
  conv_bias :: param
  conv_num :: numerics

definition Conv2d_init :: "weights \<Rightarrow> nat \<Rightarrow> nat \<Rightarrow> nat \<Rightarrow> nat \<Rightarrow> nat \<Rightarrow> Conv2d" where
  "Conv2d_init ws i out k pad dil =
     \<lparr>conv_in = i, conv_out = out, conv_kernel = k, conv_padding = pad, conv_dilation = dil,
      conv_weight = Parameter (out * i * k * k), conv_bias = Parameter out,
      conv_num = ws []\<rparr>"

definition Conv2d_forward :: "Conv2d \<Rightarrow> tensor \<Rightarrow> error + tensor" where
  "Conv2d_forward l x =
     (let k = conv_kernel l; p = conv_padding l; d = conv_dilation l in
      if tc x \<noteq> conv_in l then Inl RuntimeError
      else if k = 0 \<or> d = 0 \<or> conv_out l = 0 then Inl RuntimeError
      else if th x + 2 * p < d * (k - 1) + 1 \<or> tw x + 2 * p < d * (k - 1) + 1
        then Inl RuntimeError
      else Inr \<lparr>tn = tn x, tc = (if tc x = 0 then 0 else conv_out l),
                th = th x + 2 * p - d * (k - 1), tw = tw x + 2 * p - d * (k - 1),
                dat = conv_num l False x\<rparr>)"

text \<open>
  \<^verbatim>\<open>nn.BatchNorm2d(num_features)\<close>: keeps the shape. In training mode it first
  refuses an input with a single value per channel; a tensor without elements is then
  returned as it is, and any other input must have \<open>num_features\<close> channels.
\<close>

record BatchNorm2d =
  bn_features :: nat
  bn_weight :: param
  bn_bias :: param
  bn_num :: numerics

definition BatchNorm2d_init :: "weights \<Rightarrow> nat \<Rightarrow> BatchNorm2d" where
  "BatchNorm2d_init ws c =
     \<lparr>bn_features = c, bn_weight = Parameter c, bn_bias = Parameter c, bn_num = ws []\<rparr>"

definition BatchNorm2d_forward :: "bool \<Rightarrow> BatchNorm2d \<Rightarrow> tensor \<Rightarrow> error + tensor" where
  "BatchNorm2d_forward training l x =
     (if training \<and> tn x * th x * tw x = 1 then Inl ValueError
      else if tn x * tc x * th x * tw x = 0 then Inr (x\<lparr>dat := bn_num l training x\<rparr>)
      else if tc x \<noteq> bn_features l then Inl RuntimeError
      else Inr (x\<lparr>dat := bn_num l training x\<rparr>))"

text \<open>
  \<^verbatim>\<open>nn.Dropout2d(p)\<close>: the identity in inference mode, a random mask in training.
  The library accepts a probability between 0 and 1 and raises \<^verbatim>\<open>ValueError\<close> on any
  other: \<open>Dropout2d_new\<close> is the constructor call with this check, \<open>Dropout2d_init\<close>
  the layer it builds. The networks of this file build their dropout layers with the
  rates 0.1 and 0.2 only, which the library accepts; the check matters for the building
  blocks, whose dropout rate is an argument.
\<close>

record Dropout2d =
  dp_p :: real
  dp_num :: numerics

definition Dropout2d_init :: "weights \<Rightarrow> real \<Rightarrow> Dropout2d" where
  "Dropout2d_init ws p = \<lparr>dp_p = p, dp_num = ws []\<rparr>"

definition Dropout2d_new :: "weights \<Rightarrow> real \<Rightarrow> error + Dropout2d" where
  "Dropout2d_new ws p = (if p < 0 \<or> 1 < p then Inl ValueError else Inr (Dropout2d_init ws p))"

definition Dropout2d_forward :: "bool \<Rightarrow> Dropout2d \<Rightarrow> tensor \<Rightarrow> tensor" where
  "Dropout2d_forward training l x = (if training then x\<lparr>dat := dp_num l training x\<rparr> else x)"

text \<open>
  \<^verbatim>\<open>nn.MaxPool2d(kernel_size, stride)\<close> (the stride defaults to the kernel size): the
  output height is \<open>(h - kernel_size) div stride + 1\<close>, and an output without rows or
  columns is refused.
\<close>

record MaxPool2d =
  mp_kernel :: nat
  mp_stride :: nat

definition MaxPool2d_init :: "nat \<Rightarrow> nat \<Rightarrow> MaxPool2d" where
  "MaxPool2d_init k s = \<lparr>mp_kernel = k, mp_stride = s\<rparr>"

definition MaxPool2d_forward :: "MaxPool2d \<Rightarrow> tensor \<Rightarrow> error + tensor" where
  "MaxPool2d_forward l x =
     (let k = mp_kernel l; s = mp_stride l in
      if k = 0 \<or> s = 0 \<or> th x < k \<or> tw x < k then Inl RuntimeError
      else Inr \<lparr>tn = tn x, tc = tc x,
                th = (th x - k) div s + 1, tw = (tw x - k) div s + 1,
                dat = (\<lambda>n c i j. Max ((\<lambda>(a, b). dat x n c (i * s + a) (j * s + b)) `
                                       ({..<k} \<times> {..<k})))\<rparr>)"

text \<open>
  \<^verbatim>\<open>nn.ConvTranspose2d(in, out, kernel_size, stride)\<close>: the input must have \<open>in\<close>
  channels and at least one row and column; the output height is
  \<open>(h - 1) * stride + kernel_size\<close>.
\<close>

record ConvTranspose2d =
  up_in :: nat
  up_out :: nat
  up_kernel :: nat
  up_stride :: nat
  up_weight :: param
  up_bias :: param
  up_num :: numerics

definition ConvTranspose2d_init :: "weights \<Rightarrow> nat \<Rightarrow> nat \<Rightarrow> nat \<Rightarrow> nat \<Rightarrow> ConvTranspose2d" where
  "ConvTranspose2d_init ws i out k s =
     \<lparr>up_in = i, up_out = out, up_kernel = k, up_stride = s,
      up_weight = Parameter (i * out * k * k), up_bias = Parameter out, up_num = ws []\<rparr>"

definition ConvTranspose2d_forward :: "ConvTranspose2d \<Rightarrow> tensor \<Rightarrow> error + tensor" where
  "ConvTranspose2d_forward l x =
     (if tc x \<noteq> up_in l then Inl RuntimeError
      else if up_kernel l = 0 \<or> up_stride l = 0 \<or> th x = 0 \<or> tw x = 0 then Inl RuntimeError
      else Inr \<lparr>tn = tn x, tc = up_out l,
                th = (th x - 1) * up_stride l + up_kernel l,
                tw = (tw x - 1) * up_stride l + up_kernel l,
                dat = up_num l False x\<rparr>)"

text \<open>\<^verbatim>\<open>F.relu\<close> and \<^verbatim>\<open>F.sigmoid\<close>, entry by entry.\<close>

definition relu :: "real \<Rightarrow> real" where
  "relu v = max 0 v"

definition sigmoid :: "real \<Rightarrow> real" where
  "sigmoid v = 1 / (1 + exp (- v))"

definition F_relu :: "tensor \<Rightarrow> tensor" where
  "F_relu x = map_dat relu x"

definition F_sigmoid :: "tensor \<Rightarrow> tensor" where
  "F_sigmoid x = map_dat sigmoid x"

text \<open>
  \<^verbatim>\<open>torch.cat([a, b], 1)\<close>: concatenation along the channel axis; every other
  dimension must agree.
\<close>

definition torch_cat1 :: "tensor \<Rightarrow> tensor \<Rightarrow> error + tensor" where
  "torch_cat1 a b =
     (if tn a = tn b \<and> th a = th b \<and> tw a = tw b
      then Inr \<lparr>tn = tn a, tc = tc a + tc b, th = th a, tw = tw a,
                dat = (\<lambda>n c i j. if c < tc a then dat a n c i j else dat b n (c - tc a) i j)\<rparr>
      else Inl RuntimeError)"

text \<open>
  \<^verbatim>\<open>F.pad(x, (left, right, top, bottom))\<close> with zeros: the first pair pads the last
  dimension (width), the second the height; a negative amount crops.
\<close>

definition F_pad :: "tensor \<Rightarrow> int \<times> int \<times> int \<times> int \<Rightarrow> error + tensor" where
  "F_pad x pads =
     (case pads of (l, r, t, b) \<Rightarrow>
        let h' = int (th x) + t + b; w' = int (tw x) + l + r in
        if h' < 0 \<or> w' < 0 then Inl RuntimeError
        else Inr \<lparr>tn = tn x, tc = tc x, th = nat h', tw = nat w',
                  dat = (\<lambda>n c i j.
                    let i' = int i - t; j' = int j - l in
                    if 0 \<le> i' \<and> i' < int (th x) \<and> 0 \<le> j' \<and> j' < int (tw x)
                    then dat x n c (nat i') (nat j') else 0)\<rparr>)"

text \<open>
  \<^verbatim>\<open>a + b\<close> on tensors, with broadcasting: two sizes of a dimension are compatible
  when they are equal or one of them is 1.
\<close>

definition broadcast_dim :: "nat \<Rightarrow> nat \<Rightarrow> nat option" where
  "broadcast_dim a b = (if a = b then Some a else if a = 1 then Some b
                        else if b = 1 then Some a else None)"

definition bidx :: "nat \<Rightarrow> nat \<Rightarrow> nat" where
  "bidx sz i = (if sz = 1 then 0 else i)"

definition tensor_add :: "tensor \<Rightarrow> tensor \<Rightarrow> error + tensor" where
  "tensor_add a b =
     (case (broadcast_dim (tn a) (tn b), broadcast_dim (tc a) (tc b),
            broadcast_dim (th a) (th b), broadcast_dim (tw a) (tw b)) of
        (Some n, Some c, Some h, Some w) \<Rightarrow>
          Inr \<lparr>tn = n, tc = c, th = h, tw = w,
               dat = (\<lambda>n c i j.
                 dat a (bidx (tn a) n) (bidx (tc a) c) (bidx (th a) i) (bidx (tw a) j) +
                 dat b (bidx (tn b) n) (bidx (tc b) c) (bidx (th b) i) (bidx (tw b) j))\<rparr>
      | _ \<Rightarrow> Inl RuntimeError)"

section \<open>Building blocks\<close>

subsection \<open>DilatedConvBlock\<close>

text \<open>
  Convolution, activation, batch normalisation, dropout. The activation is a function
  applied entry by entry (\<^verbatim>\<open>F.relu\<close> by default); \<open>drop\<close> is a \<^verbatim>\<open>Dropout2d\<close> when the
  dropout rate is positive and the identity otherwise. \<open>DilatedConvBlock_init\<close> is the
  block with its four attributes; \<open>DilatedConvBlock_new\<close> is the constructor call, which
  raises when the library refuses the dropout rate.
\<close>

record DilatedConvBlock =
  dcb_conv :: Conv2d
  dcb_norm :: BatchNorm2d
  dcb_activation :: "real \<Rightarrow> real"
  dcb_drop :: "Dropout2d option"

definition DilatedConvBlock_init ::
  "weights \<Rightarrow> nat \<Rightarrow> nat \<Rightarrow> nat \<Rightarrow> real \<Rightarrow> (real \<Rightarrow> real) \<Rightarrow> nat \<Rightarrow> DilatedConvBlock" where
  "DilatedConvBlock_init ws in_size out_size kernel_size dropout_rate activation dilation =
     \<lparr>dcb_conv = Conv2d_init (sub ws (Attr ''conv'')) in_size out_size kernel_size dilation dilation,
      dcb_norm = BatchNorm2d_init (sub ws (Attr ''norm'')) out_size,
      dcb_activation = activation,
      dcb_drop = (if dropout_rate > 0
                  then Some (Dropout2d_init (sub ws (Attr ''drop'')) dropout_rate)
                  else None)\<rparr>"

definition DilatedConvBlock_new ::
  "weights \<Rightarrow> nat \<Rightarrow> nat \<Rightarrow> nat \<Rightarrow> real \<Rightarrow> (real \<Rightarrow> real) \<Rightarrow> nat \<Rightarrow> error + DilatedConvBlock" where
  "DilatedConvBlock_new ws in_size out_size kernel_size dropout_rate activation dilation =
     (let conv = Conv2d_init (sub ws (Attr ''conv'')) in_size out_size kernel_size dilation dilation;
          norm = BatchNorm2d_init (sub ws (Attr ''norm'')) out_size in
      if dropout_rate > 0
      then and_then (Dropout2d_new (sub ws (Attr ''drop'')) dropout_rate) (\<lambda>drop.
           Inr \<lparr>dcb_conv = conv, dcb_norm = norm, dcb_activation = activation,
                dcb_drop = Some drop\<rparr>)
      else Inr \<lparr>dcb_conv = conv, dcb_norm = norm, dcb_activation = activation,
                dcb_drop = None\<rparr>)"

definition DilatedConvBlock_forward :: "bool \<Rightarrow> DilatedConvBlock \<Rightarrow> tensor \<Rightarrow> error + tensor" where
  "DilatedConvBlock_forward training m x =
     and_then (Conv2d_forward (dcb_conv m) x) (\<lambda>x.
     and_then (BatchNorm2d_forward training (dcb_norm m) (map_dat (dcb_activation m) x)) (\<lambda>x.
     Inr (case dcb_drop m of None \<Rightarrow> x | Some d \<Rightarrow> Dropout2d_forward training d x)))"

subsection \<open>ConvBlock\<close>

record ConvBlock =
  cb_block1 :: DilatedConvBlock
  cb_block2 :: DilatedConvBlock
  cb_pool :: MaxPool2d

definition ConvBlock_init :: "weights \<Rightarrow> nat \<Rightarrow> nat \<Rightarrow> real \<Rightarrow> nat \<Rightarrow> ConvBlock" where
  "ConvBlock_init ws in_size out_size dropout_rate dilation =
     \<lparr>cb_block1 = DilatedConvBlock_init (sub ws (Attr ''block1'')) in_size out_size 3 0 relu 1,
      cb_block2 = DilatedConvBlock_init (sub ws (Attr ''block2'')) out_size out_size 3
                    dropout_rate relu dilation,
      cb_pool = MaxPool2d_init 2 2\<rparr>"

text \<open>Returns the pooled tensor and the tensor before pooling.\<close>

definition ConvBlock_forward :: "bool \<Rightarrow> ConvBlock \<Rightarrow> tensor \<Rightarrow> error + tensor \<times> tensor" where
  "ConvBlock_forward training m x =
     and_then (DilatedConvBlock_forward training (cb_block1 m) x) (\<lambda>x.
     and_then (DilatedConvBlock_forward training (cb_block2 m) x) (\<lambda>x.
     and_then (MaxPool2d_forward (cb_pool m) x) (\<lambda>p.
     Inr (p, x))))"

subsection \<open>ConvUpBlock\<close>

record ConvUpBlock =
  cub_up :: ConvTranspose2d
  cub_block1 :: DilatedConvBlock
  cub_block2 :: DilatedConvBlock

definition ConvUpBlock_init :: "weights \<Rightarrow> nat \<Rightarrow> nat \<Rightarrow> real \<Rightarrow> nat \<Rightarrow> ConvUpBlock" where
  "ConvUpBlock_init ws in_size out_size dropout_rate dilation =
     \<lparr>cub_up = ConvTranspose2d_init (sub ws (Attr ''up'')) in_size out_size 2 2,
      cub_block1 = DilatedConvBlock_init (sub ws (Attr ''block1'')) in_size out_size 3 0 relu 1,
      cub_block2 = DilatedConvBlock_init (sub ws (Attr ''block2'')) out_size out_size 3
                     dropout_rate relu dilation\<rparr>"

text \<open>The constructor call: it raises when one of its two DilatedConvBlocks does.\<close>

definition ConvUpBlock_new :: "weights \<Rightarrow> nat \<Rightarrow> nat \<Rightarrow> real \<Rightarrow> nat \<Rightarrow> error + ConvUpBlock" where
  "ConvUpBlock_new ws in_size out_size dropout_rate dilation =
     (let up = ConvTranspose2d_init (sub ws (Attr ''up'')) in_size out_size 2 2 in
      and_then (DilatedConvBlock_new (sub ws (Attr ''block1'')) in_size out_size 3 0 relu 1)
        (\<lambda>block1.
      and_then (DilatedConvBlock_new (sub ws (Attr ''block2'')) out_size out_size 3
                  dropout_rate relu dilation) (\<lambda>block2.
      Inr \<lparr>cub_up = up, cub_block1 = block1, cub_block2 = block2\<rparr>)))"

definition ConvUpBlock_forward :: "bool \<Rightarrow> ConvUpBlock \<Rightarrow> tensor \<Rightarrow> tensor \<Rightarrow> error + tensor" where
  "ConvUpBlock_forward training m x bridge =
     and_then (ConvTranspose2d_forward (cub_up m) x) (\<lambda>x.
     and_then (torch_cat1 x bridge) (\<lambda>x.
     and_then (DilatedConvBlock_forward training (cub_block1 m) x) (\<lambda>x.
     DilatedConvBlock_forward training (cub_block2 m) x)))"

section \<open>The U-Net family\<close>

text \<open>
  Six classes share one layout: four ConvBlocks going down (16, 32, 64, 128 channels), a
  bottom (one more ConvBlock whose pooled output is dropped, or four DilatedConvBlocks
  with dilation 1, 2, 4, 8), and one to three decoder branches of four ConvUpBlocks, a
  1x1 convolution and a sigmoid. The source writes each class out in full, and so does
  this theory.
\<close>

subsection \<open>UNet\<close>

record UNet =
  unet_c1 :: ConvBlock
  unet_c2 :: ConvBlock
  unet_c3 :: ConvBlock
  unet_c4 :: ConvBlock
  unet_cu :: ConvBlock
  unet_u5 :: ConvUpBlock
  unet_u6 :: ConvUpBlock
  unet_u7 :: ConvUpBlock
  unet_u8 :: ConvUpBlock
  unet_ce :: Conv2d

definition UNet_init :: "weights \<Rightarrow> UNet" where
  "UNet_init ws =
     \<lparr>unet_c1 = ConvBlock_init (sub ws (Attr ''c1'')) 3 16 0.2 1,
      unet_c2 = ConvBlock_init (sub ws (Attr ''c2'')) 16 32 0.2 1,
      unet_c3 = ConvBlock_init (sub ws (Attr ''c3'')) 32 64 0.2 1,
      unet_c4 = ConvBlock_init (sub ws (Attr ''c4'')) 64 128 0.2 1,
      unet_cu = ConvBlock_init (sub ws (Attr ''cu'')) 128 256 0.2 1,
      unet_u5 = ConvUpBlock_init (sub ws (Attr ''u5'')) 256 128 0.2 1,
      unet_u6 = ConvUpBlock_init (sub ws (Attr ''u6'')) 128 64 0.2 1,
      unet_u7 = ConvUpBlock_init (sub ws (Attr ''u7'')) 64 32 0.2 1,
      unet_u8 = ConvUpBlock_init (sub ws (Attr ''u8'')) 32 16 0.2 1,
      unet_ce = Conv2d_init (sub ws (Attr ''ce'')) 16 1 1 0 1\<rparr>"

definition UNet_forward :: "bool \<Rightarrow> UNet \<Rightarrow> tensor \<Rightarrow> error + tensor" where
  "UNet_forward training m x =
     and_then (ConvBlock_forward training (unet_c1 m) x) (\<lambda>(x, c1).
     and_then (ConvBlock_forward training (unet_c2 m) x) (\<lambda>(x, c2).
     and_then (ConvBlock_forward training (unet_c3 m) x) (\<lambda>(x, c3).
     and_then (ConvBlock_forward training (unet_c4 m) x) (\<lambda>(x, c4).
     and_then (ConvBlock_forward training (unet_cu m) x) (\<lambda>(_, x).
     and_then (ConvUpBlock_forward training (unet_u5 m) x c4) (\<lambda>x.
     and_then (ConvUpBlock_forward training (unet_u6 m) x c3) (\<lambda>x.
     and_then (ConvUpBlock_forward training (unet_u7 m) x c2) (\<lambda>x.
     and_then (ConvUpBlock_forward training (unet_u8 m) x c1) (\<lambda>x.
     and_then (Conv2d_forward (unet_ce m) x) (\<lambda>x.
     Inr (F_sigmoid x)))))))))))"

subsection \<open>DUNet\<close>

record DUNet =
  dunet_c1 :: ConvBlock
  dunet_c2 :: ConvBlock
  dunet_c3 :: ConvBlock
  dunet_c4 :: ConvBlock
  dunet_d1 :: DilatedConvBlock
  dunet_d2 :: DilatedConvBlock
  dunet_d3 :: DilatedConvBlock
  dunet_d4 :: DilatedConvBlock
  dunet_u5 :: ConvUpBlock
  dunet_u6 :: ConvUpBlock
  dunet_u7 :: ConvUpBlock
  dunet_u8 :: ConvUpBlock
  dunet_ce :: Conv2d

definition DUNet_init :: "weights \<Rightarrow> DUNet" where
  "DUNet_init ws =
     \<lparr>dunet_c1 = ConvBlock_init (sub ws (Attr ''c1'')) 3 16 0.2 2,
      dunet_c2 = ConvBlock_init (sub ws (Attr ''c2'')) 16 32 0.2 2,
      dunet_c3 = ConvBlock_init (sub ws (Attr ''c3'')) 32 64 0.2 2,
      dunet_c4 = ConvBlock_init (sub ws (Attr ''c4'')) 64 128 0.2 2,
      dunet_d1 = DilatedConvBlock_init (sub ws (Attr ''d1'')) 128 256 3 0.1 relu 1,
      dunet_d2 = DilatedConvBlock_init (sub ws (Attr ''d2'')) 256 256 3 0.1 relu 2,
      dunet_d3 = DilatedConvBlock_init (sub ws (Attr ''d3'')) 256 256 3 0.1 relu 4,
      dunet_d4 = DilatedConvBlock_init (sub ws (Attr ''d4'')) 256 256 3 0.1 relu 8,
      dunet_u5 = ConvUpBlock_init (sub ws (Attr ''u5'')) 256 128 0.2 1,
      dunet_u6 = ConvUpBlock_init (sub ws (Attr ''u6'')) 128 64 0.2 1,
      dunet_u7 = ConvUpBlock_init (sub ws (Attr ''u7'')) 64 32 0.2 1,
      dunet_u8 = ConvUpBlock_init (sub ws (Attr ''u8'')) 32 16 0.2 1,
      dunet_ce = Conv2d_init (sub ws (Attr ''ce'')) 16 1 1 0 1\<rparr>"

definition DUNet_forward :: "bool \<Rightarrow> DUNet \<Rightarrow> tensor \<Rightarrow> error + tensor" where
  "DUNet_forward training m x =
     and_then (ConvBlock_forward training (dunet_c1 m) x) (\<lambda>(x, c1).
     and_then (ConvBlock_forward training (dunet_c2 m) x) (\<lambda>(x, c2).
     and_then (ConvBlock_forward training (dunet_c3 m) x) (\<lambda>(x, c3).
     and_then (ConvBlock_forward training (dunet_c4 m) x) (\<lambda>(x, c4).
     and_then (DilatedConvBlock_forward training (dunet_d1 m) x) (\<lambda>x.
     and_then (DilatedConvBlock_forward training (dunet_d2 m) x) (\<lambda>x.
     and_then (DilatedConvBlock_forward training (dunet_d3 m) x) (\<lambda>x.
     and_then (DilatedConvBlock_forward training (dunet_d4 m) x) (\<lambda>x.
     and_then (ConvUpBlock_forward training (dunet_u5 m) x c4) (\<lambda>x.
     and_then (ConvUpBlock_forward training (dunet_u6 m) x c3) (\<lambda>x.
     and_then (ConvUpBlock_forward training (dunet_u7 m) x c2) (\<lambda>x.
     and_then (ConvUpBlock_forward training (dunet_u8 m) x c1) (\<lambda>x.
     and_then (Conv2d_forward (dunet_ce m) x) (\<lambda>x.
     Inr (F_sigmoid x))))))))))))))"

subsection \<open>CAUNet\<close>

record CAUNet =
  caunet_c1 :: ConvBlock
  caunet_c2 :: ConvBlock
  caunet_c3 :: ConvBlock
  caunet_c4 :: ConvBlock
  caunet_cu :: ConvBlock
  caunet_u5s :: ConvUpBlock
  caunet_u6s :: ConvUpBlock
  caunet_u7s :: ConvUpBlock
  caunet_u8s :: ConvUpBlock
  caunet_ces :: Conv2d
  caunet_u5c :: ConvUpBlock
  caunet_u6c :: ConvUpBlock
  caunet_u7c :: ConvUpBlock
  caunet_u8c :: ConvUpBlock
  caunet_cec :: Conv2d

definition CAUNet_init :: "weights \<Rightarrow> CAUNet" where
  "CAUNet_init ws =
     \<lparr>caunet_c1 = ConvBlock_init (sub ws (Attr ''c1'')) 3 16 0.2 1,
      caunet_c2 = ConvBlock_init (sub ws (Attr ''c2'')) 16 32 0.2 1,
      caunet_c3 = ConvBlock_init (sub ws (Attr ''c3'')) 32 64 0.2 1,
      caunet_c4 = ConvBlock_init (sub ws (Attr ''c4'')) 64 128 0.2 1,
      caunet_cu = ConvBlock_init (sub ws (Attr ''cu'')) 128 256 0.2 1,
      caunet_u5s = ConvUpBlock_init (sub ws (Attr ''u5s'')) 256 128 0.2 1,
      caunet_u6s = ConvUpBlock_init (sub ws (Attr ''u6s'')) 128 64 0.2 1,
      caunet_u7s = ConvUpBlock_init (sub ws (Attr ''u7s'')) 64 32 0.2 1,
      caunet_u8s = ConvUpBlock_init (sub ws (Attr ''u8s'')) 32 16 0.2 1,
      caunet_ces = Conv2d_init (sub ws (Attr ''ces'')) 16 1 1 0 1,
      caunet_u5c = ConvUpBlock_init (sub ws (Attr ''u5c'')) 256 128 0.2 1,
      caunet_u6c = ConvUpBlock_init (sub ws (Attr ''u6c'')) 128 64 0.2 1,
      caunet_u7c = ConvUpBlock_init (sub ws (Attr ''u7c'')) 64 32 0.2 1,
      caunet_u8c = ConvUpBlock_init (sub ws (Attr ''u8c'')) 32 16 0.2 1,
      caunet_cec = Conv2d_init (sub ws (Attr ''cec'')) 16 1 1 0 1\<rparr>"

definition CAUNet_forward :: "bool \<Rightarrow> CAUNet \<Rightarrow> tensor \<Rightarrow> error + tensor \<times> tensor" where
  "CAUNet_forward training m x =
     and_then (ConvBlock_forward training (caunet_c1 m) x) (\<lambda>(x, c1).
     and_then (ConvBlock_forward training (caunet_c2 m) x) (\<lambda>(x, c2).
     and_then (ConvBlock_forward training (caunet_c3 m) x) (\<lambda>(x, c3).
     and_then (ConvBlock_forward training (caunet_c4 m) x) (\<lambda>(x, c4).
     and_then (ConvBlock_forward training (caunet_cu m) x) (\<lambda>(_, x).
     and_then (ConvUpBlock_forward training (caunet_u5s m) x c4) (\<lambda>xs.
     and_then (ConvUpBlock_forward training (caunet_u6s m) xs c3) (\<lambda>xs.
     and_then (ConvUpBlock_forward training (caunet_u7s m) xs c2) (\<lambda>xs.
     and_then (ConvUpBlock_forward training (caunet_u8s m) xs c1) (\<lambda>xs.
     and_then (Conv2d_forward (caunet_ces m) xs) (\<lambda>xs.
     let xs = F_sigmoid xs in
     and_then (ConvUpBlock_forward training (caunet_u5c m) x c4) (\<lambda>xc.
     and_then (ConvUpBlock_forward training (caunet_u6c m) xc c3) (\<lambda>xc.
     and_then (ConvUpBlock_forward training (caunet_u7c m) xc c2) (\<lambda>xc.
     and_then (ConvUpBlock_forward training (caunet_u8c m) xc c1) (\<lambda>xc.
     and_then (Conv2d_forward (caunet_cec m) xc) (\<lambda>xc.
     let xc = F_sigmoid xc in
     Inr (xs, xc))))))))))))))))"

subsection \<open>CADUNet\<close>

record CADUNet =
  cadunet_c1 :: ConvBlock
  cadunet_c2 :: ConvBlock
  cadunet_c3 :: ConvBlock
  cadunet_c4 :: ConvBlock
  cadunet_d1 :: DilatedConvBlock
  cadunet_d2 :: DilatedConvBlock
  cadunet_d3 :: DilatedConvBlock
  cadunet_d4 :: DilatedConvBlock
  cadunet_u5s :: ConvUpBlock
  cadunet_u6s :: ConvUpBlock
  cadunet_u7s :: ConvUpBlock
  cadunet_u8s :: ConvUpBlock
  cadunet_ces :: Conv2d
  cadunet_u5c :: ConvUpBlock
  cadunet_u6c :: ConvUpBlock
  cadunet_u7c :: ConvUpBlock
  cadunet_u8c :: ConvUpBlock
  cadunet_cec :: Conv2d

definition CADUNet_init :: "weights \<Rightarrow> CADUNet" where
  "CADUNet_init ws =
     \<lparr>cadunet_c1 = ConvBlock_init (sub ws (Attr ''c1'')) 3 16 0.2 2,
      cadunet_c2 = ConvBlock_init (sub ws (Attr ''c2'')) 16 32 0.2 2,
      cadunet_c3 = ConvBlock_init (sub ws (Attr ''c3'')) 32 64 0.2 2,
      cadunet_c4 = ConvBlock_init (sub ws (Attr ''c4'')) 64 128 0.2 2,
      cadunet_d1 = DilatedConvBlock_init (sub ws (Attr ''d1'')) 128 256 3 0.1 relu 1,
      cadunet_d2 = DilatedConvBlock_init (sub ws (Attr ''d2'')) 256 256 3 0.1 relu 2,
      cadunet_d3 = DilatedConvBlock_init (sub ws (Attr ''d3'')) 256 256 3 0.1 relu 4,
      cadunet_d4 = DilatedConvBlock_init (sub ws (Attr ''d4'')) 256 256 3 0.1 relu 8,
      cadunet_u5s = ConvUpBlock_init (sub ws (Attr ''u5s'')) 256 128 0.2 1,
      cadunet_u6s = ConvUpBlock_init (sub ws (Attr ''u6s'')) 128 64 0.2 1,
      cadunet_u7s = ConvUpBlock_init (sub ws (Attr ''u7s'')) 64 32 0.2 1,
      cadunet_u8s = ConvUpBlock_init (sub ws (Attr ''u8s'')) 32 16 0.2 1,
      cadunet_ces = Conv2d_init (sub ws (Attr ''ces'')) 16 1 1 0 1,
      cadunet_u5c = ConvUpBlock_init (sub ws (Attr ''u5c'')) 256 128 0.2 1,
      cadunet_u6c = ConvUpBlock_init (sub ws (Attr ''u6c'')) 128 64 0.2 1,
      cadunet_u7c = ConvUpBlock_init (sub ws (Attr ''u7c'')) 64 32 0.2 1,
      cadunet_u8c = ConvUpBlock_init (sub ws (Attr ''u8c'')) 32 16 0.2 1,
      cadunet_cec = Conv2d_init (sub ws (Attr ''cec'')) 16 1 1 0 1\<rparr>"

definition CADUNet_forward :: "bool \<Rightarrow> CADUNet \<Rightarrow> tensor \<Rightarrow> error + tensor \<times> tensor" where
  "CADUNet_forward training m x =
     and_then (ConvBlock_forward training (cadunet_c1 m) x) (\<lambda>(x, c1).
     and_then (ConvBlock_forward training (cadunet_c2 m) x) (\<lambda>(x, c2).
     and_then (ConvBlock_forward training (cadunet_c3 m) x) (\<lambda>(x, c3).
     and_then (ConvBlock_forward training (cadunet_c4 m) x) (\<lambda>(x, c4).
     and_then (DilatedConvBlock_forward training (cadunet_d1 m) x) (\<lambda>x.
     and_then (DilatedConvBlock_forward training (cadunet_d2 m) x) (\<lambda>x.
     and_then (DilatedConvBlock_forward training (cadunet_d3 m) x) (\<lambda>x.
     and_then (DilatedConvBlock_forward training (cadunet_d4 m) x) (\<lambda>x.
     and_then (ConvUpBlock_forward training (cadunet_u5s m) x c4) (\<lambda>xs.
     and_then (ConvUpBlock_forward training (cadunet_u6s m) xs c3) (\<lambda>xs.
     and_then (ConvUpBlock_forward training (cadunet_u7s m) xs c2) (\<lambda>xs.
     and_then (ConvUpBlock_forward training (cadunet_u8s m) xs c1) (\<lambda>xs.
     and_then (Conv2d_forward (cadunet_ces m) xs) (\<lambda>xs.
     let xs = F_sigmoid xs in
     and_then (ConvUpBlock_forward training (cadunet_u5c m) x c4) (\<lambda>xc.
     and_then (ConvUpBlock_forward training (cadunet_u6c m) xc c3) (\<lambda>xc.
     and_then (ConvUpBlock_forward training (cadunet_u7c m) xc c2) (\<lambda>xc.
     and_then (ConvUpBlock_forward training (cadunet_u8c m) xc c1) (\<lambda>xc.
     and_then (Conv2d_forward (cadunet_cec m) xc) (\<lambda>xc.
     let xc = F_sigmoid xc in
     Inr (xs, xc)))))))))))))))))))"

subsection \<open>CAMUNet\<close>

record CAMUNet =
  camunet_c1 :: ConvBlock
  camunet_c2 :: ConvBlock
  camunet_c3 :: ConvBlock
  camunet_c4 :: ConvBlock
  camunet_cu :: ConvBlock
  camunet_u5s :: ConvUpBlock
  camunet_u6s :: ConvUpBlock
  camunet_u7s :: ConvUpBlock
  camunet_u8s :: ConvUpBlock
  camunet_ces :: Conv2d
  camunet_u5c :: ConvUpBlock
  camunet_u6c :: ConvUpBlock
  camunet_u7c :: ConvUpBlock
  camunet_u8c :: ConvUpBlock
  camunet_cec :: Conv2d
  camunet_u5m :: ConvUpBlock
  camunet_u6m :: ConvUpBlock
  camunet_u7m :: ConvUpBlock
  camunet_u8m :: ConvUpBlock
  camunet_cem :: Conv2d

definition CAMUNet_init :: "weights \<Rightarrow> CAMUNet" where
  "CAMUNet_init ws =
     \<lparr>camunet_c1 = ConvBlock_init (sub ws (Attr ''c1'')) 3 16 0.2 1,
      camunet_c2 = ConvBlock_init (sub ws (Attr ''c2'')) 16 32 0.2 1,
      camunet_c3 = ConvBlock_init (sub ws (Attr ''c3'')) 32 64 0.2 1,
      camunet_c4 = ConvBlock_init (sub ws (Attr ''c4'')) 64 128 0.2 1,
      camunet_cu = ConvBlock_init (sub ws (Attr ''cu'')) 128 256 0.2 1,
      camunet_u5s = ConvUpBlock_init (sub ws (Attr ''u5s'')) 256 128 0.2 1,
      camunet_u6s = ConvUpBlock_init (sub ws (Attr ''u6s'')) 128 64 0.2 1,
      camunet_u7s = ConvUpBlock_init (sub ws (Attr ''u7s'')) 64 32 0.2 1,
      camunet_u8s = ConvUpBlock_init (sub ws (Attr ''u8s'')) 32 16 0.2 1,
      camunet_ces = Conv2d_init (sub ws (Attr ''ces'')) 16 1 1 0 1,
      camunet_u5c = ConvUpBlock_init (sub ws (Attr ''u5c'')) 256 128 0.2 1,
      camunet_u6c = ConvUpBlock_init (sub ws (Attr ''u6c'')) 128 64 0.2 1,
      camunet_u7c = ConvUpBlock_init (sub ws (Attr ''u7c'')) 64 32 0.2 1,
      camunet_u8c = ConvUpBlock_init (sub ws (Attr ''u8c'')) 32 16 0.2 1,
      camunet_cec = Conv2d_init (sub ws (Attr ''cec'')) 16 1 1 0 1,
      camunet_u5m = ConvUpBlock_init (sub ws (Attr ''u5m'')) 256 128 0.2 1,
      camunet_u6m = ConvUpBlock_init (sub ws (Attr ''u6m'')) 128 64 0.2 1,
      camunet_u7m = ConvUpBlock_init (sub ws (Attr ''u7m'')) 64 32 0.2 1,
      camunet_u8m = ConvUpBlock_init (sub ws (Attr ''u8m'')) 32 16 0.2 1,
      camunet_cem = Conv2d_init (sub ws (Attr ''cem'')) 16 1 1 0 1\<rparr>"

definition CAMUNet_forward :: "bool \<Rightarrow> CAMUNet \<Rightarrow> tensor \<Rightarrow> error + tensor \<times> tensor \<times> tensor" where
  "CAMUNet_forward training m x =
     and_then (ConvBlock_forward training (camunet_c1 m) x) (\<lambda>(x, c1).
     and_then (ConvBlock_forward training (camunet_c2 m) x) (\<lambda>(x, c2).
     and_then (ConvBlock_forward training (camunet_c3 m) x) (\<lambda>(x, c3).
     and_then (ConvBlock_forward training (camunet_c4 m) x) (\<lambda>(x, c4).
     and_then (ConvBlock_forward training (camunet_cu m) x) (\<lambda>(_, x).
     and_then (ConvUpBlock_forward training (camunet_u5s m) x c4) (\<lambda>xs.
     and_then (ConvUpBlock_forward training (camunet_u6s m) xs c3) (\<lambda>xs.
     and_then (ConvUpBlock_forward training (camunet_u7s m) xs c2) (\<lambda>xs.
     and_then (ConvUpBlock_forward training (camunet_u8s m) xs c1) (\<lambda>xs.
     and_then (Conv2d_forward (camunet_ces m) xs) (\<lambda>xs.
     let xs = F_sigmoid xs in
     and_then (ConvUpBlock_forward training (camunet_u5c m) x c4) (\<lambda>xc.
     and_then (ConvUpBlock_forward training (camunet_u6c m) xc c3) (\<lambda>xc.
     and_then (ConvUpBlock_forward training (camunet_u7c m) xc c2) (\<lambda>xc.
     and_then (ConvUpBlock_forward training (camunet_u8c m) xc c1) (\<lambda>xc.
     and_then (Conv2d_forward (camunet_cec m) xc) (\<lambda>xc.
     let xc = F_sigmoid xc in
     and_then (ConvUpBlock_forward training (camunet_u5m m) x c4) (\<lambda>xm.
     and_then (ConvUpBlock_forward training (camunet_u6m m) xm c3) (\<lambda>xm.
     and_then (ConvUpBlock_forward training (camunet_u7m m) xm c2) (\<lambda>xm.
     and_then (ConvUpBlock_forward training (camunet_u8m m) xm c1) (\<lambda>xm.
     and_then (Conv2d_forward (camunet_cem m) xm) (\<lambda>xm.
     let xm = F_sigmoid xm in
     Inr (xs, xc, xm)))))))))))))))))))))"

subsection \<open>CAMDUNet\<close>

record CAMDUNet =
  camdunet_c1 :: ConvBlock
  camdunet_c2 :: ConvBlock
  camdunet_c3 :: ConvBlock
  camdunet_c4 :: ConvBlock
  camdunet_d1 :: DilatedConvBlock
  camdunet_d2 :: DilatedConvBlock
  camdunet_d3 :: DilatedConvBlock
  camdunet_d4 :: DilatedConvBlock
  camdunet_u5s :: ConvUpBlock
  camdunet_u6s :: ConvUpBlock
  camdunet_u7s :: ConvUpBlock
  camdunet_u8s :: ConvUpBlock
  camdunet_ces :: Conv2d
  camdunet_u5c :: ConvUpBlock
  camdunet_u6c :: ConvUpBlock
  camdunet_u7c :: ConvUpBlock
  camdunet_u8c :: ConvUpBlock
  camdunet_cec :: Conv2d
  camdunet_u5m :: ConvUpBlock
  camdunet_u6m :: ConvUpBlock
  camdunet_u7m :: ConvUpBlock
  camdunet_u8m :: ConvUpBlock
  camdunet_cem :: Conv2d

definition CAMDUNet_init :: "weights \<Rightarrow> CAMDUNet" where
  "CAMDUNet_init ws =
     \<lparr>camdunet_c1 = ConvBlock_init (sub ws (Attr ''c1'')) 3 16 0.2 2,
      camdunet_c2 = ConvBlock_init (sub ws (Attr ''c2'')) 16 32 0.2 2,
      camdunet_c3 = ConvBlock_init (sub ws (Attr ''c3'')) 32 64 0.2 2,
      camdunet_c4 = ConvBlock_init (sub ws (Attr ''c4'')) 64 128 0.2 2,
      camdunet_d1 = DilatedConvBlock_init (sub ws (Attr ''d1'')) 128 256 3 0.1 relu 1,
      camdunet_d2 = DilatedConvBlock_init (sub ws (Attr ''d2'')) 256 256 3 0.1 relu 2,
      camdunet_d3 = DilatedConvBlock_init (sub ws (Attr ''d3'')) 256 256 3 0.1 relu 4,
      camdunet_d4 = DilatedConvBlock_init (sub ws (Attr ''d4'')) 256 256 3 0.1 relu 8,
      camdunet_u5s = ConvUpBlock_init (sub ws (Attr ''u5s'')) 256 128 0.2 1,
      camdunet_u6s = ConvUpBlock_init (sub ws (Attr ''u6s'')) 128 64 0.2 1,
      camdunet_u7s = ConvUpBlock_init (sub ws (Attr ''u7s'')) 64 32 0.2 1,
      camdunet_u8s = ConvUpBlock_init (sub ws (Attr ''u8s'')) 32 16 0.2 1,
      camdunet_ces = Conv2d_init (sub ws (Attr ''ces'')) 16 1 1 0 1,
      camdunet_u5c = ConvUpBlock_init (sub ws (Attr ''u5c'')) 256 128 0.2 1,
      camdunet_u6c = ConvUpBlock_init (sub ws (Attr ''u6c'')) 128 64 0.2 1,
      camdunet_u7c = ConvUpBlock_init (sub ws (Attr ''u7c'')) 64 32 0.2 1,
      camdunet_u8c = ConvUpBlock_init (sub ws (Attr ''u8c'')) 32 16 0.2 1,
      camdunet_cec = Conv2d_init (sub ws (Attr ''cec'')) 16 1 1 0 1,
      camdunet_u5m = ConvUpBlock_init (sub ws (Attr ''u5m'')) 256 128 0.2 1,
      camdunet_u6m = ConvUpBlock_init (sub ws (Attr ''u6m'')) 128 64 0.2 1,
      camdunet_u7m = ConvUpBlock_init (sub ws (Attr ''u7m'')) 64 32 0.2 1,
      camdunet_u8m = ConvUpBlock_init (sub ws (Attr ''u8m'')) 32 16 0.2 1,
      camdunet_cem = Conv2d_init (sub ws (Attr ''cem'')) 16 1 1 0 1\<rparr>"

definition CAMDUNet_forward :: "bool \<Rightarrow> CAMDUNet \<Rightarrow> tensor \<Rightarrow> error + tensor \<times> tensor \<times> tensor" where
  "CAMDUNet_forward training m x =
     and_then (ConvBlock_forward training (camdunet_c1 m) x) (\<lambda>(x, c1).
     and_then (ConvBlock_forward training (camdunet_c2 m) x) (\<lambda>(x, c2).
     and_then (ConvBlock_forward training (camdunet_c3 m) x) (\<lambda>(x, c3).
     and_then (ConvBlock_forward training (camdunet_c4 m) x) (\<lambda>(x, c4).
     and_then (DilatedConvBlock_forward training (camdunet_d1 m) x) (\<lambda>x.
     and_then (DilatedConvBlock_forward training (camdunet_d2 m) x) (\<lambda>x.
     and_then (DilatedConvBlock_forward training (camdunet_d3 m) x) (\<lambda>x.
     and_then (DilatedConvBlock_forward training (camdunet_d4 m) x) (\<lambda>x.
     and_then (ConvUpBlock_forward training (camdunet_u5s m) x c4) (\<lambda>xs.
     and_then (ConvUpBlock_forward training (camdunet_u6s m) xs c3) (\<lambda>xs.
     and_then (ConvUpBlock_forward training (camdunet_u7s m) xs c2) (\<lambda>xs.
     and_then (ConvUpBlock_forward training (camdunet_u8s m) xs c1) (\<lambda>xs.
     and_then (Conv2d_forward (camdunet_ces m) xs) (\<lambda>xs.
     let xs = F_sigmoid xs in
     and_then (ConvUpBlock_forward training (camdunet_u5c m) x c4) (\<lambda>xc.
     and_then (ConvUpBlock_forward training (camdunet_u6c m) xc c3) (\<lambda>xc.
     and_then (ConvUpBlock_forward training (camdunet_u7c m) xc c2) (\<lambda>xc.
     and_then (ConvUpBlock_forward training (camdunet_u8c m) xc c1) (\<lambda>xc.
     and_then (Conv2d_forward (camdunet_cec m) xc) (\<lambda>xc.
     let xc = F_sigmoid xc in
     and_then (ConvUpBlock_forward training (camdunet_u5m m) x c4) (\<lambda>xm.
     and_then (ConvUpBlock_forward training (camdunet_u6m m) xm c3) (\<lambda>xm.
     and_then (ConvUpBlock_forward training (camdunet_u7m m) xm c2) (\<lambda>xm.
     and_then (ConvUpBlock_forward training (camdunet_u8m m) xm c1) (\<lambda>xm.
     and_then (Conv2d_forward (camdunet_cem m) xm) (\<lambda>xm.
     let xm = F_sigmoid xm in
     Inr (xs, xc, xm))))))))))))))))))))))))"

section \<open>Sequential containers and the pretrained backbone\<close>

text \<open>
  \<^verbatim>\<open>nn.Sequential\<close> holds layers of any kind and applies them in order. The same
  tagged union describes the entries of the backbone's \<^verbatim>\<open>features\<close>, which the
  source picks by index and calls whatever they are.
\<close>

datatype layer =
    Conv2d_layer Conv2d
  | BatchNorm2d_layer BatchNorm2d
  | ReLU_layer
  | Dropout2d_layer Dropout2d
  | MaxPool2d_layer MaxPool2d

fun layer_forward :: "bool \<Rightarrow> layer \<Rightarrow> tensor \<Rightarrow> error + tensor" where
  "layer_forward training (Conv2d_layer l) x = Conv2d_forward l x"
| "layer_forward training (BatchNorm2d_layer l) x = BatchNorm2d_forward training l x"
| "layer_forward training ReLU_layer x = Inr (F_relu x)"
| "layer_forward training (Dropout2d_layer l) x = Inr (Dropout2d_forward training l x)"
| "layer_forward training (MaxPool2d_layer l) x = MaxPool2d_forward l x"

fun Sequential_forward :: "bool \<Rightarrow> layer list \<Rightarrow> tensor \<Rightarrow> error + tensor" where
  "Sequential_forward training [] x = Inr x"
| "Sequential_forward training (l # ls) x =
     and_then (layer_forward training l x) (Sequential_forward training ls)"

text \<open>
  \<^verbatim>\<open>torchvision.models.vgg16_bn\<close>: configuration D with batch normalisation. Each
  number of the configuration adds a 3x3 convolution (padding 1), a batch normalisation
  and a ReLU to \<^verbatim>\<open>features\<close>; each \<open>M\<close> adds a 2x2 max-pooling. The classifier is
  three linear layers (25088 to 4096, 4096 to 4096, 4096 to 1000), of which only the
  parameters matter here.
\<close>

datatype cfg_entry = M | Ch nat

fun make_layers :: "weights \<Rightarrow> nat \<Rightarrow> nat \<Rightarrow> cfg_entry list \<Rightarrow> layer list" where
  "make_layers ws i in_channels [] = []"
| "make_layers ws i in_channels (M # cfg) =
     MaxPool2d_layer (MaxPool2d_init 2 2) # make_layers ws (i + 1) in_channels cfg"
| "make_layers ws i in_channels (Ch v # cfg) =
     Conv2d_layer (Conv2d_init (sub ws (Idx i)) in_channels v 3 1 1) #
     BatchNorm2d_layer (BatchNorm2d_init (sub ws (Idx (i + 1))) v) #
     ReLU_layer # make_layers ws (i + 3) v cfg"

definition cfg_D :: "cfg_entry list" where
  "cfg_D = [Ch 64, Ch 64, M, Ch 128, Ch 128, M, Ch 256, Ch 256, Ch 256, M,
            Ch 512, Ch 512, Ch 512, M, Ch 512, Ch 512, Ch 512, M]"

definition Linear_parameters :: "nat \<Rightarrow> nat \<Rightarrow> param list" where
  "Linear_parameters in_features out_features =
     [Parameter (out_features * in_features), Parameter out_features]"

record VGG =
  vgg_features :: "layer list"
  vgg_classifier :: "param list"

definition vgg16_bn :: "weights \<Rightarrow> VGG" where
  "vgg16_bn ws =
     \<lparr>vgg_features = make_layers (sub ws (Attr ''features'')) 0 3 cfg_D,
      vgg_classifier = Linear_parameters 25088 4096 @ Linear_parameters 4096 4096 @
                       Linear_parameters 4096 1000\<rparr>"

section \<open>UNetVgg16\<close>

subsection \<open>DeConvBlk and outConv\<close>

record DeConvBlk =
  dcv_upscaling :: ConvTranspose2d
  dcv_convs :: "layer list"

definition DeConvBlk_init :: "weights \<Rightarrow> nat \<Rightarrow> nat \<Rightarrow> real \<Rightarrow> DeConvBlk" where
  "DeConvBlk_init ws in_ch out_ch dropout_ratio =
     (let cs = sub ws (Attr ''convs'') in
      \<lparr>dcv_upscaling = ConvTranspose2d_init (sub ws (Attr ''upscaling'')) in_ch (in_ch div 2) 2 2,
       dcv_convs =
         [Conv2d_layer (Conv2d_init (sub cs (Idx 0)) (in_ch div 2 + out_ch) out_ch 3 1 1),
          ReLU_layer,
          BatchNorm2d_layer (BatchNorm2d_init (sub cs (Idx 2)) out_ch),
          Dropout2d_layer (Dropout2d_init (sub cs (Idx 3)) dropout_ratio),
          Conv2d_layer (Conv2d_init (sub cs (Idx 4)) out_ch out_ch 3 1 1),
          ReLU_layer,
          BatchNorm2d_layer (BatchNorm2d_init (sub cs (Idx 6)) out_ch),
          Dropout2d_layer (Dropout2d_init (sub cs (Idx 7)) dropout_ratio)]\<rparr>)"

text \<open>
  \<^verbatim>\<open>int(d / 2)\<close> rounds towards zero, \<^verbatim>\<open>d // 2\<close> towards minus infinity.
\<close>

definition int_half :: "int \<Rightarrow> int" where
  "int_half d = (if 0 \<le> d then d div 2 else - ((- d) div 2))"

definition DeConvBlk_forward :: "bool \<Rightarrow> DeConvBlk \<Rightarrow> tensor \<Rightarrow> tensor \<Rightarrow> error + tensor" where
  "DeConvBlk_forward training m x1 x2 =
     and_then (ConvTranspose2d_forward (dcv_upscaling m) x1) (\<lambda>x1.
     let diffX = int (th x1) - int (th x2);
         diffY = int (tw x1) - int (tw x2) in
     and_then (F_pad x2 (diffX div 2, int_half diffX, diffY div 2, int_half diffY)) (\<lambda>x2.
     and_then (torch_cat1 x1 x2) (\<lambda>x.
     Sequential_forward training (dcv_convs m) x)))"

record outConv =
  oc_conv :: Conv2d

definition outConv_init :: "weights \<Rightarrow> nat \<Rightarrow> nat \<Rightarrow> outConv" where
  "outConv_init ws in_ch out_ch = \<lparr>oc_conv = Conv2d_init (sub ws (Attr ''conv'')) in_ch out_ch 1 0 1\<rparr>"

definition outConv_forward :: "outConv \<Rightarrow> tensor \<Rightarrow> error + tensor" where
  "outConv_forward m x = Conv2d_forward (oc_conv m) x"

subsection \<open>The network\<close>

text \<open>
  The attributes \<^verbatim>\<open>conv1a\<close> ... \<^verbatim>\<open>bn5c\<close> of the source are references to entries of
  \<^verbatim>\<open>self.vgg16.features\<close>, not copies: they are read through the backbone here, so
  that what the constructor does to the backbone's parameters is what the forward
  computation and the parameter count see. The backbone has 44 entries, so every index
  below is in range.
\<close>

definition freeze :: "param \<Rightarrow> param" where
  "freeze p = p\<lparr>requires_grad := False\<rparr>"

fun layer_freeze :: "layer \<Rightarrow> layer" where
  "layer_freeze (Conv2d_layer l) =
     Conv2d_layer (l\<lparr>conv_weight := freeze (conv_weight l), conv_bias := freeze (conv_bias l)\<rparr>)"
| "layer_freeze (BatchNorm2d_layer l) =
     BatchNorm2d_layer (l\<lparr>bn_weight := freeze (bn_weight l), bn_bias := freeze (bn_bias l)\<rparr>)"
| "layer_freeze ReLU_layer = ReLU_layer"
| "layer_freeze (Dropout2d_layer l) = Dropout2d_layer l"
| "layer_freeze (MaxPool2d_layer l) = MaxPool2d_layer l"

definition VGG_freeze :: "VGG \<Rightarrow> VGG" where
  "VGG_freeze v = \<lparr>vgg_features = map layer_freeze (vgg_features v),
                   vgg_classifier = map freeze (vgg_classifier v)\<rparr>"

record UNetVgg16 =
  uv_maxpool :: MaxPool2d
  uv_vgg16 :: VGG
  uv_deconv1 :: DeConvBlk
  uv_deconv2 :: DeConvBlk
  uv_deconv3 :: DeConvBlk
  uv_deconv4 :: DeConvBlk
  uv_outc :: outConv

definition feature :: "UNetVgg16 \<Rightarrow> nat \<Rightarrow> layer" where
  "feature m i = vgg_features (uv_vgg16 m) ! i"

definition UNetVgg16_init :: "weights \<Rightarrow> nat \<Rightarrow> nat \<Rightarrow> bool \<Rightarrow> UNetVgg16" where
  "UNetVgg16_init ws n_channels n_classes fixed_vgg =
     (let vgg16 = vgg16_bn (sub ws (Attr ''vgg16'')) in
      \<lparr>uv_maxpool = MaxPool2d_init 2 2,
       uv_vgg16 = (if fixed_vgg then VGG_freeze vgg16 else vgg16),
       uv_deconv1 = DeConvBlk_init (sub ws (Attr ''deconv1'')) 512 512 0.2,
       uv_deconv2 = DeConvBlk_init (sub ws (Attr ''deconv2'')) 512 256 0.2,
       uv_deconv3 = DeConvBlk_init (sub ws (Attr ''deconv3'')) 256 128 0.2,
       uv_deconv4 = DeConvBlk_init (sub ws (Attr ''deconv4'')) 128 64 0.2,
       uv_outc = outConv_init (sub ws (Attr ''outc'')) 64 n_classes\<rparr>)"

text \<open>One stage of the encoder: \<^verbatim>\<open>self.relu(self.bn(self.conv(t)))\<close>.\<close>

definition conv_bn_relu :: "bool \<Rightarrow> layer \<Rightarrow> layer \<Rightarrow> tensor \<Rightarrow> error + tensor" where
  "conv_bn_relu training conv bn t =
     and_then (layer_forward training conv t) (\<lambda>t.
     and_then (layer_forward training bn t) (\<lambda>t.
     Inr (F_relu t)))"

definition UNetVgg16_forward :: "bool \<Rightarrow> UNetVgg16 \<Rightarrow> tensor \<Rightarrow> error + tensor" where
  "UNetVgg16_forward training m x =
     and_then (conv_bn_relu training (feature m 0) (feature m 1) x) (\<lambda>t.
     and_then (conv_bn_relu training (feature m 3) (feature m 4) t) (\<lambda>x1.
     and_then (MaxPool2d_forward (uv_maxpool m) x1) (\<lambda>t.
     and_then (conv_bn_relu training (feature m 7) (feature m 8) t) (\<lambda>t.
     and_then (conv_bn_relu training (feature m 10) (feature m 11) t) (\<lambda>x2.
     and_then (MaxPool2d_forward (uv_maxpool m) x2) (\<lambda>t.
     and_then (conv_bn_relu training (feature m 14) (feature m 15) t) (\<lambda>t.
     and_then (conv_bn_relu training (feature m 17) (feature m 18) t) (\<lambda>t.
     and_then (conv_bn_relu training (feature m 20) (feature m 21) t) (\<lambda>x3.
     and_then (MaxPool2d_forward (uv_maxpool m) x3) (\<lambda>t.
     and_then (conv_bn_relu training (feature m 24) (feature m 25) t) (\<lambda>t.
     and_then (conv_bn_relu training (feature m 27) (feature m 28) t) (\<lambda>t.
     and_then (conv_bn_relu training (feature m 30) (feature m 31) t) (\<lambda>x4.
     and_then (MaxPool2d_forward (uv_maxpool m) x4) (\<lambda>t.
     and_then (conv_bn_relu training (feature m 34) (feature m 35) t) (\<lambda>t.
     and_then (conv_bn_relu training (feature m 37) (feature m 38) t) (\<lambda>t.
     and_then (conv_bn_relu training (feature m 40) (feature m 41) t) (\<lambda>x5.
     and_then (DeConvBlk_forward training (uv_deconv1 m) x5 x4) (\<lambda>t.
     and_then (DeConvBlk_forward training (uv_deconv2 m) t x3) (\<lambda>t.
     and_then (DeConvBlk_forward training (uv_deconv3 m) t x2) (\<lambda>t.
     and_then (DeConvBlk_forward training (uv_deconv4 m) t x1) (\<lambda>t.
     and_then (outConv_forward (uv_outc m) t) (\<lambda>t.
     Inr (F_sigmoid t)))))))))))))))))))))))"

section \<open>DCAN\<close>

record dcanConv =
  dcc_conv :: "layer list"

definition dcanConv_init :: "weights \<Rightarrow> nat \<Rightarrow> nat \<Rightarrow> real \<Rightarrow> dcanConv" where
  "dcanConv_init ws in_ch out_ch dropout_ratio =
     (let cs = sub ws (Attr ''conv'') in
      \<lparr>dcc_conv =
         [Conv2d_layer (Conv2d_init (sub cs (Idx 0)) in_ch out_ch 3 1 1),
          ReLU_layer,
          BatchNorm2d_layer (BatchNorm2d_init (sub cs (Idx 2)) out_ch),
          Dropout2d_layer (Dropout2d_init (sub cs (Idx 3)) dropout_ratio)]\<rparr>)"

definition dcanConv_forward :: "bool \<Rightarrow> dcanConv \<Rightarrow> tensor \<Rightarrow> error + tensor" where
  "dcanConv_forward training m x = Sequential_forward training (dcc_conv m) x"

record dcanDeConv =
  dcd_upscaling :: ConvTranspose2d
  dcd_conv :: dcanConv

definition dcanDeConv_init :: "weights \<Rightarrow> nat \<Rightarrow> nat \<Rightarrow> nat \<Rightarrow> real \<Rightarrow> dcanDeConv" where
  "dcanDeConv_init ws in_ch out_ch upscale_factor dropout_ratio =
     \<lparr>dcd_upscaling = ConvTranspose2d_init (sub ws (Attr ''upscaling'')) in_ch out_ch
                        upscale_factor upscale_factor,
      dcd_conv = dcanConv_init (sub ws (Attr ''conv'')) out_ch out_ch dropout_ratio\<rparr>"

definition dcanDeConv_forward :: "bool \<Rightarrow> dcanDeConv \<Rightarrow> tensor \<Rightarrow> error + tensor" where
  "dcanDeConv_forward training m x =
     and_then (ConvTranspose2d_forward (dcd_upscaling m) x) (\<lambda>x.
     dcanConv_forward training (dcd_conv m) x)"

record DCAN =
  dcan_maxpool :: MaxPool2d
  dcan_conv1 :: dcanConv
  dcan_conv2 :: dcanConv
  dcan_conv3 :: dcanConv
  dcan_conv4 :: dcanConv
  dcan_conv5 :: dcanConv
  dcan_conv6 :: dcanConv
  dcan_deconv3s :: dcanDeConv
  dcan_deconv3c :: dcanDeConv
  dcan_deconv2s :: dcanDeConv
  dcan_deconv2c :: dcanDeConv
  dcan_deconv1s :: dcanDeConv
  dcan_deconv1c :: dcanDeConv

definition DCAN_init :: "weights \<Rightarrow> nat \<Rightarrow> nat \<Rightarrow> DCAN" where
  "DCAN_init ws n_channels n_classes =
     \<lparr>dcan_maxpool = MaxPool2d_init 2 2,
      dcan_conv1 = dcanConv_init (sub ws (Attr ''conv1'')) n_channels 64 0.2,
      dcan_conv2 = dcanConv_init (sub ws (Attr ''conv2'')) 64 128 0.2,
      dcan_conv3 = dcanConv_init (sub ws (Attr ''conv3'')) 128 256 0.2,
      dcan_conv4 = dcanConv_init (sub ws (Attr ''conv4'')) 256 512 0.2,
      dcan_conv5 = dcanConv_init (sub ws (Attr ''conv5'')) 512 512 0.2,
      dcan_conv6 = dcanConv_init (sub ws (Attr ''conv6'')) 512 1024 0.2,
      dcan_deconv3s = dcanDeConv_init (sub ws (Attr ''deconv3s'')) 512 n_classes 8 0.2,
      dcan_deconv3c = dcanDeConv_init (sub ws (Attr ''deconv3c'')) 512 n_classes 8 0.2,
      dcan_deconv2s = dcanDeConv_init (sub ws (Attr ''deconv2s'')) 512 n_classes 16 0.2,
      dcan_deconv2c = dcanDeConv_init (sub ws (Attr ''deconv2c'')) 512 n_classes 16 0.2,
      dcan_deconv1s = dcanDeConv_init (sub ws (Attr ''deconv1s'')) 1024 n_classes 32 0.2,
      dcan_deconv1c = dcanDeConv_init (sub ws (Attr ''deconv1c'')) 1024 n_classes 32 0.2\<rparr>"

text \<open>
  The forward computation up to the two sums \<^verbatim>\<open>u1s + u2s + u3s\<close> and
  \<^verbatim>\<open>u1c + u2c + u3c\<close>, in the order of the source; \<open>DCAN_forward\<close> applies the two
  sigmoids to them.
\<close>

definition DCAN_logits :: "bool \<Rightarrow> DCAN \<Rightarrow> tensor \<Rightarrow> error + tensor \<times> tensor" where
  "DCAN_logits training m x =
     and_then (dcanConv_forward training (dcan_conv1 m) x) (\<lambda>c1.
     and_then (MaxPool2d_forward (dcan_maxpool m) c1) (\<lambda>p1.
     and_then (dcanConv_forward training (dcan_conv2 m) p1) (\<lambda>c2.
     and_then (MaxPool2d_forward (dcan_maxpool m) c2) (\<lambda>p2.
     and_then (dcanConv_forward training (dcan_conv3 m) p2) (\<lambda>c3.
     and_then (MaxPool2d_forward (dcan_maxpool m) c3) (\<lambda>p3.
     and_then (dcanConv_forward training (dcan_conv4 m) p3) (\<lambda>c4.
     and_then (dcanDeConv_forward training (dcan_deconv3s m) c4) (\<lambda>u3s.
     and_then (dcanDeConv_forward training (dcan_deconv3c m) c4) (\<lambda>u3c.
     and_then (MaxPool2d_forward (dcan_maxpool m) c4) (\<lambda>p4.
     and_then (dcanConv_forward training (dcan_conv5 m) p4) (\<lambda>c5.
     and_then (dcanDeConv_forward training (dcan_deconv2s m) c5) (\<lambda>u2s.
     and_then (dcanDeConv_forward training (dcan_deconv2c m) c5) (\<lambda>u2c.
     and_then (MaxPool2d_forward (dcan_maxpool m) c5) (\<lambda>p5.
     and_then (dcanConv_forward training (dcan_conv6 m) p5) (\<lambda>c6.
     and_then (dcanDeConv_forward training (dcan_deconv1s m) c6) (\<lambda>u1s.
     and_then (dcanDeConv_forward training (dcan_deconv1c m) c6) (\<lambda>u1c.
     and_then (tensor_add u1s u2s) (\<lambda>s.
     and_then (tensor_add s u3s) (\<lambda>s.
     and_then (tensor_add u1c u2c) (\<lambda>c.
     and_then (tensor_add c u3c) (\<lambda>c.
     Inr (s, c))))))))))))))))))))))"

definition DCAN_forward :: "bool \<Rightarrow> DCAN \<Rightarrow> tensor \<Rightarrow> error + tensor \<times> tensor" where
  "DCAN_forward training m x =
     and_then (DCAN_logits training m x) (\<lambda>(s, c).
     Inr (F_sigmoid s, F_sigmoid c))"

text \<open>
  The stage activations \<open>c4\<close>, \<open>c5\<close>, \<open>c6\<close> on their own: the six convolution stages
  with the pooling between them, without the deconvolution heads.
\<close>

definition DCAN_stages :: "bool \<Rightarrow> DCAN \<Rightarrow> tensor \<Rightarrow> error + tensor \<times> tensor \<times> tensor" where
  "DCAN_stages training m x =
     and_then (dcanConv_forward training (dcan_conv1 m) x) (\<lambda>c1.
     and_then (MaxPool2d_forward (dcan_maxpool m) c1) (\<lambda>p1.
     and_then (dcanConv_forward training (dcan_conv2 m) p1) (\<lambda>c2.
     and_then (MaxPool2d_forward (dcan_maxpool m) c2) (\<lambda>p2.
     and_then (dcanConv_forward training (dcan_conv3 m) p2) (\<lambda>c3.
     and_then (MaxPool2d_forward (dcan_maxpool m) c3) (\<lambda>p3.
     and_then (dcanConv_forward training (dcan_conv4 m) p3) (\<lambda>c4.
     and_then (MaxPool2d_forward (dcan_maxpool m) c4) (\<lambda>p4.
     and_then (dcanConv_forward training (dcan_conv5 m) p4) (\<lambda>c5.
     and_then (MaxPool2d_forward (dcan_maxpool m) c5) (\<lambda>p5.
     and_then (dcanConv_forward training (dcan_conv6 m) p5) (\<lambda>c6.
     Inr (c4, c5, c6))))))))))))"

section \<open>Models, parameters and the factory\<close>

datatype model =
    UNetVgg16_model UNetVgg16
  | DCAN_model DCAN
  | CAUNet_model CAUNet
  | CAMUNet_model CAMUNet
  | DUNet_model DUNet
  | CADUNet_model CADUNet
  | CAMDUNet_model CAMDUNet
  | UNet_model UNet

fun class_name :: "model \<Rightarrow> string" where
  "class_name (UNetVgg16_model _) = ''UNetVgg16''"
| "class_name (DCAN_model _) = ''DCAN''"
| "class_name (CAUNet_model _) = ''CAUNet''"
| "class_name (CAMUNet_model _) = ''CAMUNet''"
| "class_name (DUNet_model _) = ''DUNet''"
| "class_name (CADUNet_model _) = ''CADUNet''"
| "class_name (CAMDUNet_model _) = ''CAMDUNet''"
| "class_name (UNet_model _) = ''UNet''"

text \<open>Calling a model: the tensor or the tuple of tensors it returns, as a list.\<close>

fun forward :: "bool \<Rightarrow> model \<Rightarrow> tensor \<Rightarrow> error + tensor list" where
  "forward training (UNetVgg16_model m) x =
     and_then (UNetVgg16_forward training m x) (\<lambda>t. Inr [t])"
| "forward training (DCAN_model m) x =
     and_then (DCAN_forward training m x) (\<lambda>(outs, outc). Inr [outs, outc])"
| "forward training (CAUNet_model m) x =
     and_then (CAUNet_forward training m x) (\<lambda>(xs, xc). Inr [xs, xc])"
| "forward training (CAMUNet_model m) x =
     and_then (CAMUNet_forward training m x) (\<lambda>(xs, xc, xm). Inr [xs, xc, xm])"
| "forward training (DUNet_model m) x =
     and_then (DUNet_forward training m x) (\<lambda>t. Inr [t])"
| "forward training (CADUNet_model m) x =
     and_then (CADUNet_forward training m x) (\<lambda>(xs, xc). Inr [xs, xc])"
| "forward training (CAMDUNet_model m) x =
     and_then (CAMDUNet_forward training m x) (\<lambda>(xs, xc, xm). Inr [xs, xc, xm])"
| "forward training (UNet_model m) x =
     and_then (UNet_forward training m x) (\<lambda>t. Inr [t])"

subsection \<open>Parameters of a module\<close>

text \<open>
  \<^verbatim>\<open>model.parameters()\<close> yields the parameters of the module and of its submodules
  in the order the constructor registers them, each parameter object once.
\<close>

definition Conv2d_parameters :: "Conv2d \<Rightarrow> param list" where
  "Conv2d_parameters l = [conv_weight l, conv_bias l]"

definition BatchNorm2d_parameters :: "BatchNorm2d \<Rightarrow> param list" where
  "BatchNorm2d_parameters l = [bn_weight l, bn_bias l]"

definition ConvTranspose2d_parameters :: "ConvTranspose2d \<Rightarrow> param list" where
  "ConvTranspose2d_parameters l = [up_weight l, up_bias l]"

fun layer_parameters :: "layer \<Rightarrow> param list" where
  "layer_parameters (Conv2d_layer l) = Conv2d_parameters l"
| "layer_parameters (BatchNorm2d_layer l) = BatchNorm2d_parameters l"
| "layer_parameters ReLU_layer = []"
| "layer_parameters (Dropout2d_layer l) = []"
| "layer_parameters (MaxPool2d_layer l) = []"

definition Sequential_parameters :: "layer list \<Rightarrow> param list" where
  "Sequential_parameters ls = concat (map layer_parameters ls)"

definition DilatedConvBlock_parameters :: "DilatedConvBlock \<Rightarrow> param list" where
  "DilatedConvBlock_parameters m = Conv2d_parameters (dcb_conv m) @ BatchNorm2d_parameters (dcb_norm m)"

definition ConvBlock_parameters :: "ConvBlock \<Rightarrow> param list" where
  "ConvBlock_parameters m =
     DilatedConvBlock_parameters (cb_block1 m) @ DilatedConvBlock_parameters (cb_block2 m)"

definition ConvUpBlock_parameters :: "ConvUpBlock \<Rightarrow> param list" where
  "ConvUpBlock_parameters m =
     ConvTranspose2d_parameters (cub_up m) @ DilatedConvBlock_parameters (cub_block1 m) @
     DilatedConvBlock_parameters (cub_block2 m)"

definition UNet_parameters :: "UNet \<Rightarrow> param list" where
  "UNet_parameters m =
     ConvBlock_parameters (unet_c1 m) @ ConvBlock_parameters (unet_c2 m) @
     ConvBlock_parameters (unet_c3 m) @ ConvBlock_parameters (unet_c4 m) @
     ConvBlock_parameters (unet_cu m) @ ConvUpBlock_parameters (unet_u5 m) @
     ConvUpBlock_parameters (unet_u6 m) @ ConvUpBlock_parameters (unet_u7 m) @
     ConvUpBlock_parameters (unet_u8 m) @ Conv2d_parameters (unet_ce m)"

definition DUNet_parameters :: "DUNet \<Rightarrow> param list" where
  "DUNet_parameters m =
     ConvBlock_parameters (dunet_c1 m) @ ConvBlock_parameters (dunet_c2 m) @
     ConvBlock_parameters (dunet_c3 m) @ ConvBlock_parameters (dunet_c4 m) @
     DilatedConvBlock_parameters (dunet_d1 m) @ DilatedConvBlock_parameters (dunet_d2 m) @
     DilatedConvBlock_parameters (dunet_d3 m) @ DilatedConvBlock_parameters (dunet_d4 m) @
     ConvUpBlock_parameters (dunet_u5 m) @ ConvUpBlock_parameters (dunet_u6 m) @
     ConvUpBlock_parameters (dunet_u7 m) @ ConvUpBlock_parameters (dunet_u8 m) @
     Conv2d_parameters (dunet_ce m)"

definition CAUNet_parameters :: "CAUNet \<Rightarrow> param list" where
  "CAUNet_parameters m =
     ConvBlock_parameters (caunet_c1 m) @ ConvBlock_parameters (caunet_c2 m) @
     ConvBlock_parameters (caunet_c3 m) @ ConvBlock_parameters (caunet_c4 m) @
     ConvBlock_parameters (caunet_cu m) @ ConvUpBlock_parameters (caunet_u5s m) @
     ConvUpBlock_parameters (caunet_u6s m) @ ConvUpBlock_parameters (caunet_u7s m) @
     ConvUpBlock_parameters (caunet_u8s m) @ Conv2d_parameters (caunet_ces m) @
     ConvUpBlock_parameters (caunet_u5c m) @ ConvUpBlock_parameters (caunet_u6c m) @
     ConvUpBlock_parameters (caunet_u7c m) @ ConvUpBlock_parameters (caunet_u8c m) @
     Conv2d_parameters (caunet_cec m)"

definition CADUNet_parameters :: "CADUNet \<Rightarrow> param list" where
  "CADUNet_parameters m =
     ConvBlock_parameters (cadunet_c1 m) @ ConvBlock_parameters (cadunet_c2 m) @
     ConvBlock_parameters (cadunet_c3 m) @ ConvBlock_parameters (cadunet_c4 m) @
     DilatedConvBlock_parameters (cadunet_d1 m) @ DilatedConvBlock_parameters (cadunet_d2 m) @
     DilatedConvBlock_parameters (cadunet_d3 m) @ DilatedConvBlock_parameters (cadunet_d4 m) @
     ConvUpBlock_parameters (cadunet_u5s m) @ ConvUpBlock_parameters (cadunet_u6s m) @
     ConvUpBlock_parameters (cadunet_u7s m) @ ConvUpBlock_parameters (cadunet_u8s m) @
     Conv2d_parameters (cadunet_ces m) @ ConvUpBlock_parameters (cadunet_u5c m) @
     ConvUpBlock_parameters (cadunet_u6c m) @ ConvUpBlock_parameters (cadunet_u7c m) @
     ConvUpBlock_parameters (cadunet_u8c m) @ Conv2d_parameters (cadunet_cec m)"

definition CAMUNet_parameters :: "CAMUNet \<Rightarrow> param list" where
  "CAMUNet_parameters m =
     ConvBlock_parameters (camunet_c1 m) @ ConvBlock_parameters (camunet_c2 m) @
     ConvBlock_parameters (camunet_c3 m) @ ConvBlock_parameters (camunet_c4 m) @
     ConvBlock_parameters (camunet_cu m) @ ConvUpBlock_parameters (camunet_u5s m) @
     ConvUpBlock_parameters (camunet_u6s m) @ ConvUpBlock_parameters (camunet_u7s m) @
     ConvUpBlock_parameters (camunet_u8s m) @ Conv2d_parameters (camunet_ces m) @
     ConvUpBlock_parameters (camunet_u5c m) @ ConvUpBlock_parameters (camunet_u6c m) @
     ConvUpBlock_parameters (camunet_u7c m) @ ConvUpBlock_parameters (camunet_u8c m) @
     Conv2d_parameters (camunet_cec m) @ ConvUpBlock_parameters (camunet_u5m m) @
     ConvUpBlock_parameters (camunet_u6m m) @ ConvUpBlock_parameters (camunet_u7m m) @
     ConvUpBlock_parameters (camunet_u8m m) @ Conv2d_parameters (camunet_cem m)"

definition CAMDUNet_parameters :: "CAMDUNet \<Rightarrow> param list" where
  "CAMDUNet_parameters m =
     ConvBlock_parameters (camdunet_c1 m) @ ConvBlock_parameters (camdunet_c2 m) @
     ConvBlock_parameters (camdunet_c3 m) @ ConvBlock_parameters (camdunet_c4 m) @
     DilatedConvBlock_parameters (camdunet_d1 m) @ DilatedConvBlock_parameters (camdunet_d2 m) @
     DilatedConvBlock_parameters (camdunet_d3 m) @ DilatedConvBlock_parameters (camdunet_d4 m) @
     ConvUpBlock_parameters (camdunet_u5s m) @ ConvUpBlock_parameters (camdunet_u6s m) @
     ConvUpBlock_parameters (camdunet_u7s m) @ ConvUpBlock_parameters (camdunet_u8s m) @
     Conv2d_parameters (camdunet_ces m) @ ConvUpBlock_parameters (camdunet_u5c m) @
     ConvUpBlock_parameters (camdunet_u6c m) @ ConvUpBlock_parameters (camdunet_u7c m) @
     ConvUpBlock_parameters (camdunet_u8c m) @ Conv2d_parameters (camdunet_cec m) @
     ConvUpBlock_parameters (camdunet_u5m m) @ ConvUpBlock_parameters (camdunet_u6m m) @
     ConvUpBlock_parameters (camdunet_u7m m) @ ConvUpBlock_parameters (camdunet_u8m m) @
     Conv2d_parameters (camdunet_cem m)"

definition VGG_parameters :: "VGG \<Rightarrow> param list" where
  "VGG_parameters v = Sequential_parameters (vgg_features v) @ vgg_classifier v"

definition DeConvBlk_parameters :: "DeConvBlk \<Rightarrow> param list" where
  "DeConvBlk_parameters m =
     ConvTranspose2d_parameters (dcv_upscaling m) @ Sequential_parameters (dcv_convs m)"

definition outConv_parameters :: "outConv \<Rightarrow> param list" where
  "outConv_parameters m = Conv2d_parameters (oc_conv m)"

text \<open>
  The decoder of UNetVgg16: everything the class adds to the backbone. The aliases
  \<^verbatim>\<open>conv1a\<close> ... \<^verbatim>\<open>bn5c\<close> are the backbone's own layers and add no parameter.
\<close>

definition UNetVgg16_decoder_parameters :: "UNetVgg16 \<Rightarrow> param list" where
  "UNetVgg16_decoder_parameters m =
     DeConvBlk_parameters (uv_deconv1 m) @ DeConvBlk_parameters (uv_deconv2 m) @
     DeConvBlk_parameters (uv_deconv3 m) @ DeConvBlk_parameters (uv_deconv4 m) @
     outConv_parameters (uv_outc m)"

definition UNetVgg16_parameters :: "UNetVgg16 \<Rightarrow> param list" where
  "UNetVgg16_parameters m = VGG_parameters (uv_vgg16 m) @ UNetVgg16_decoder_parameters m"

definition dcanConv_parameters :: "dcanConv \<Rightarrow> param list" where
  "dcanConv_parameters m = Sequential_parameters (dcc_conv m)"

definition dcanDeConv_parameters :: "dcanDeConv \<Rightarrow> param list" where
  "dcanDeConv_parameters m =
     ConvTranspose2d_parameters (dcd_upscaling m) @ dcanConv_parameters (dcd_conv m)"

definition DCAN_parameters :: "DCAN \<Rightarrow> param list" where
  "DCAN_parameters m =
     dcanConv_parameters (dcan_conv1 m) @ dcanConv_parameters (dcan_conv2 m) @
     dcanConv_parameters (dcan_conv3 m) @ dcanConv_parameters (dcan_conv4 m) @
     dcanConv_parameters (dcan_conv5 m) @ dcanConv_parameters (dcan_conv6 m) @
     dcanDeConv_parameters (dcan_deconv3s m) @ dcanDeConv_parameters (dcan_deconv3c m) @
     dcanDeConv_parameters (dcan_deconv2s m) @ dcanDeConv_parameters (dcan_deconv2c m) @
     dcanDeConv_parameters (dcan_deconv1s m) @ dcanDeConv_parameters (dcan_deconv1c m)"

fun parameters :: "model \<Rightarrow> param list" where
  "parameters (UNetVgg16_model m) = UNetVgg16_parameters m"
| "parameters (DCAN_model m) = DCAN_parameters m"
| "parameters (CAUNet_model m) = CAUNet_parameters m"
| "parameters (CAMUNet_model m) = CAMUNet_parameters m"
| "parameters (DUNet_model m) = DUNet_parameters m"
| "parameters (CADUNet_model m) = CADUNet_parameters m"
| "parameters (CAMDUNet_model m) = CAMDUNet_parameters m"
| "parameters (UNet_model m) = UNet_parameters m"

subsection \<open>count_parameters and build_model\<close>

definition count_parameters :: "model \<Rightarrow> nat" where
  "count_parameters model = sum_list (map numel (filter requires_grad (parameters model)))"

definition build_model :: "weights \<Rightarrow> string \<Rightarrow> model" where
  "build_model ws model_name =
     (if model_name = ''unet_vgg16'' then UNetVgg16_model (UNetVgg16_init ws 3 1 True)
      else if model_name = ''dcan'' then DCAN_model (DCAN_init ws 3 1)
      else if model_name = ''caunet'' then CAUNet_model (CAUNet_init ws)
      else if model_name = ''camunet'' then CAMUNet_model (CAMUNet_init ws)
      else if model_name = ''dunet'' then DUNet_model (DUNet_init ws)
      else if model_name = ''cadunet'' then CAMDUNet_model (CAMDUNet_init ws)
      else if model_name = ''camdunet'' then CAMDUNet_model (CAMDUNet_init ws)
      else UNet_model (UNet_init ws))"

section \<open>The variants and the inputs they accept\<close>

text \<open>
  The eight variants as the file constructs them: the six classes of the U-Net family
  without arguments, \<open>UNetVgg16\<close> and \<open>DCAN\<close> with 3 input channels and 1 class.
\<close>

definition variants :: "weights \<Rightarrow> bool \<Rightarrow> model list" where
  "variants ws fixed_vgg =
     [UNet_model (UNet_init ws), DUNet_model (DUNet_init ws),
      CAUNet_model (CAUNet_init ws), CADUNet_model (CADUNet_init ws),
      CAMUNet_model (CAMUNet_init ws), CAMDUNet_model (CAMDUNet_init ws),
      UNetVgg16_model (UNetVgg16_init ws 3 1 fixed_vgg), DCAN_model (DCAN_init ws 3 1)]"

text \<open>
  In training mode, batch normalisation refuses an activation with a single value per
  channel. \<open>single_value training x f\<close> says that the activation at \<open>1 / f\<close> of the
  input's height and width is such a one.
\<close>

definition single_value :: "bool \<Rightarrow> tensor \<Rightarrow> nat \<Rightarrow> bool" where
  "single_value training x f = (training \<and> tn x * (th x div f) * (tw x div f) = 1)"

text \<open>
  The inputs on which the forward computation of a variant goes through: 3 channels,
  height and width multiples of the downsampling factor (16 for the U-Net family, 32 for
  \<open>UNetVgg16\<close> and \<open>DCAN\<close>) and not 0. The classes whose bottom is a ConvBlock pool once
  more than they use, so they need at least 2 rows and columns at the bottom, that is a
  height and width of at least 32. The classes whose deepest batch normalisation sees the
  input at \<open>1 / 16\<close> (dilated bottom) or \<open>1 / 32\<close> (\<open>DCAN\<close>) of its size need more than
  one value per channel there in training mode.
\<close>

fun input_ok :: "bool \<Rightarrow> model \<Rightarrow> tensor \<Rightarrow> bool" where
  "input_ok training (UNet_model _) x =
     (tc x = 3 \<and> 16 dvd th x \<and> 16 dvd tw x \<and> 32 \<le> th x \<and> 32 \<le> tw x)"
| "input_ok training (CAUNet_model _) x =
     (tc x = 3 \<and> 16 dvd th x \<and> 16 dvd tw x \<and> 32 \<le> th x \<and> 32 \<le> tw x)"
| "input_ok training (CAMUNet_model _) x =
     (tc x = 3 \<and> 16 dvd th x \<and> 16 dvd tw x \<and> 32 \<le> th x \<and> 32 \<le> tw x)"
| "input_ok training (DUNet_model _) x =
     (tc x = 3 \<and> 16 dvd th x \<and> 16 dvd tw x \<and> 0 < th x \<and> 0 < tw x \<and>
      \<not> single_value training x 16)"
| "input_ok training (CADUNet_model _) x =
     (tc x = 3 \<and> 16 dvd th x \<and> 16 dvd tw x \<and> 0 < th x \<and> 0 < tw x \<and>
      \<not> single_value training x 16)"
| "input_ok training (CAMDUNet_model _) x =
     (tc x = 3 \<and> 16 dvd th x \<and> 16 dvd tw x \<and> 0 < th x \<and> 0 < tw x \<and>
      \<not> single_value training x 16)"
| "input_ok training (UNetVgg16_model _) x =
     (tc x = 3 \<and> 32 dvd th x \<and> 32 dvd tw x \<and> 0 < th x \<and> 0 < tw x)"
| "input_ok training (DCAN_model _) x =
     (tc x = 3 \<and> 32 dvd th x \<and> 32 dvd tw x \<and> 0 < th x \<and> 0 < tw x \<and>
      \<not> single_value training x 32)"

section \<open>Results of a computation that may raise\<close>

text \<open>
  \<open>ensures r P\<close>: if the computation \<open>r\<close> returns, what it returns satisfies \<open>P\<close>.
  \<open>unit_valued y\<close>: every entry of \<open>y\<close> lies between 0 and 1.
\<close>

definition ensures :: "error + 'a \<Rightarrow> ('a \<Rightarrow> bool) \<Rightarrow> bool" where
  "ensures r P = (case r of Inl e \<Rightarrow> True | Inr v \<Rightarrow> P v)"

definition unit_valued :: "tensor \<Rightarrow> bool" where
  "unit_valued y = (\<forall>n c i j. 0 \<le> dat y n c i j \<and> dat y n c i j \<le> 1)"

section \<open>Shapes through the building blocks\<close>

lemma and_then_simps:
  "and_then (Inl e) f = Inl e" "and_then (Inr v) f = f v"
  by (simp_all add: and_then_def)

lemma shape_eq_iff: "shape y = (a, b, c, d) \<longleftrightarrow> tn y = a \<and> tc y = b \<and> th y = c \<and> tw y = d"
  by (auto simp: shape_def)

text \<open>A constructor call raises exactly when the dropout rate is above 1, and otherwise
  returns the block as built.\<close>

lemma DilatedConvBlock_new_eq:
  "DilatedConvBlock_new ws cin cout k rate act dil =
     (if 1 < rate then Inl ValueError else Inr (DilatedConvBlock_init ws cin cout k rate act dil))"
  by (simp add: DilatedConvBlock_new_def DilatedConvBlock_init_def Dropout2d_new_def
      and_then_simps Let_def)

lemma ConvUpBlock_new_eq:
  "ConvUpBlock_new ws cin cout rate dil =
     (if 1 < rate then Inl ValueError else Inr (ConvUpBlock_init ws cin cout rate dil))"
  by (simp add: ConvUpBlock_new_def ConvUpBlock_init_def DilatedConvBlock_new_eq
      and_then_simps Let_def)

lemma DilatedConvBlock_forward_shape:
  assumes "tc x = cin" "1 \<le> dil" "1 \<le> th x" "1 \<le> tw x"
    and "training \<longrightarrow> tn x * th x * tw x \<noteq> 1"
    and "1 \<le> cin" "1 \<le> cout"
  shows "\<exists>y. DilatedConvBlock_forward training
            (DilatedConvBlock_init ws cin cout 3 rate act dil) x = Inr y
          \<and> shape y = (tn x, cout, th x, tw x)"
  using assms
  by (auto simp: DilatedConvBlock_forward_def DilatedConvBlock_init_def Conv2d_forward_def
      Conv2d_init_def BatchNorm2d_forward_def BatchNorm2d_init_def Dropout2d_forward_def
      Dropout2d_init_def map_dat_def and_then_simps shape_def Let_def)

lemma mult3_ne_1: "2 \<le> (h::nat) \<Longrightarrow> n * h * w \<noteq> 1"
  by auto


lemma MaxPool2d_forward_shape:
  assumes "2 \<le> th x" "2 \<le> tw x"
  shows "\<exists>y. MaxPool2d_forward (MaxPool2d_init 2 2) x = Inr y
          \<and> shape y = (tn x, tc x, th x div 2, tw x div 2)"
proof -
  have "(th x - 2) div 2 + 1 = th x div 2" "(tw x - 2) div 2 + 1 = tw x div 2"
    using assms by presburger+
  then show ?thesis
    using assms by (simp add: MaxPool2d_forward_def MaxPool2d_init_def shape_def Let_def)
qed

lemma ConvTranspose2d_forward_shape:
  assumes "tc x = cin" "1 \<le> k" "1 \<le> th x" "1 \<le> tw x"
  shows "\<exists>y. ConvTranspose2d_forward (ConvTranspose2d_init ws cin cout k k) x = Inr y
          \<and> shape y = (tn x, cout, k * th x, k * tw x)"
proof -
  have e: "(h - 1) * k + k = k * h" if "1 \<le> h" for h :: nat
    using that by (cases h) simp_all
  have "(th x - 1) * k + k = k * th x" "(tw x - 1) * k + k = k * tw x"
    using assms(3,4) by (simp_all only: e)
  then show ?thesis
    using assms by (simp add: ConvTranspose2d_forward_def ConvTranspose2d_init_def shape_def)
qed

lemma torch_cat1_shape:
  assumes "tn a = tn b" "th a = th b" "tw a = tw b"
  shows "\<exists>y. torch_cat1 a b = Inr y \<and> shape y = (tn a, tc a + tc b, th a, tw a)"
  using assms by (simp add: torch_cat1_def shape_def)

lemma ConvBlock_forward_shape:
  assumes "tc x = cin" "1 \<le> dil" "2 \<le> th x" "2 \<le> tw x"
    and "1 \<le> cin" "1 \<le> cout"
  shows "\<exists>p s. ConvBlock_forward training (ConvBlock_init ws cin cout rate dil) x = Inr (p, s)
          \<and> shape p = (tn x, cout, th x div 2, tw x div 2)
          \<and> shape s = (tn x, cout, th x, tw x)"
proof -
  have ne: "training \<longrightarrow> tn x * th x * tw x \<noteq> 1"
    using assms(3) by (simp add: mult3_ne_1)
  obtain y where y: "DilatedConvBlock_forward training
        (DilatedConvBlock_init (sub ws (Attr ''block1'')) cin cout 3 0 relu 1) x = Inr y"
      "shape y = (tn x, cout, th x, tw x)"
    using DilatedConvBlock_forward_shape [of x cin 1 training cout _ 0 relu] assms ne by auto
  have ne': "training \<longrightarrow> tn y * th y * tw y \<noteq> 1"
    using y(2) ne by (simp add: shape_eq_iff)
  obtain z where z: "DilatedConvBlock_forward training
        (DilatedConvBlock_init (sub ws (Attr ''block2'')) cout cout 3 rate relu dil) y = Inr z"
      "shape z = (tn x, cout, th x, tw x)"
    using DilatedConvBlock_forward_shape [of y cout dil training cout _ rate relu] assms y(2) ne'
    by (auto simp: shape_eq_iff)
  obtain p where p: "MaxPool2d_forward (MaxPool2d_init 2 2) z = Inr p"
      "shape p = (tn x, cout, th x div 2, tw x div 2)"
    using MaxPool2d_forward_shape [of z] z(2) assms(3,4) by (auto simp: shape_eq_iff)
  show ?thesis
    using y z p
    by (simp add: ConvBlock_forward_def ConvBlock_init_def and_then_simps)
qed

lemma ConvUpBlock_forward_shape:
  assumes "tc x = 2 * cout" "1 \<le> dil" "1 \<le> th x" "1 \<le> tw x"
    and "shape bridge = (tn x, cout, 2 * th x, 2 * tw x)"
    and "1 \<le> cout"
  shows "\<exists>y. ConvUpBlock_forward training (ConvUpBlock_init ws (2 * cout) cout rate dil) x bridge = Inr y
          \<and> shape y = (tn x, cout, 2 * th x, 2 * tw x)"
proof -
  obtain u where u: "ConvTranspose2d_forward
        (ConvTranspose2d_init (sub ws (Attr ''up'')) (2 * cout) cout 2 2) x = Inr u"
      "shape u = (tn x, cout, 2 * th x, 2 * tw x)"
    using ConvTranspose2d_forward_shape [of x "2 * cout" 2] assms by auto
  obtain c where c: "torch_cat1 u bridge = Inr c" "shape c = (tn x, 2 * cout, 2 * th x, 2 * tw x)"
    using torch_cat1_shape [of u bridge] u(2) assms(5) by (auto simp: shape_eq_iff)
  have ne: "training \<longrightarrow> tn c * th c * tw c \<noteq> 1"
    using c(2) assms(3) by (simp add: shape_eq_iff mult3_ne_1)
  obtain y where y: "DilatedConvBlock_forward training
        (DilatedConvBlock_init (sub ws (Attr ''block1'')) (2 * cout) cout 3 0 relu 1) c = Inr y"
      "shape y = (tn x, cout, 2 * th x, 2 * tw x)"
    using DilatedConvBlock_forward_shape [of c "2 * cout" 1 training cout _ 0 relu] assms c(2) ne
    by (auto simp: shape_eq_iff)
  have ne': "training \<longrightarrow> tn y * th y * tw y \<noteq> 1"
    using y(2) assms(3) by (simp add: shape_eq_iff mult3_ne_1)
  obtain z where z: "DilatedConvBlock_forward training
        (DilatedConvBlock_init (sub ws (Attr ''block2'')) cout cout 3 rate relu dil) y = Inr z"
      "shape z = (tn x, cout, 2 * th x, 2 * tw x)"
    using DilatedConvBlock_forward_shape [of y cout dil training cout _ rate relu] assms y(2) ne'
    by (auto simp: shape_eq_iff)
  show ?thesis
    using u c y z
    by (simp add: ConvUpBlock_forward_def ConvUpBlock_init_def and_then_simps)
qed

lemma shape_F_sigmoid: "shape (F_sigmoid x) = shape x"
  by (simp add: F_sigmoid_def map_dat_def shape_def)

lemma Conv2d_1x1_shape:
  assumes "tc x = cin" "1 \<le> th x" "1 \<le> tw x" "1 \<le> cin" "1 \<le> cout"
  shows "\<exists>y. Conv2d_forward (Conv2d_init ws cin cout 1 0 1) x = Inr y
          \<and> shape y = (tn x, cout, th x, tw x)"
  using assms by (simp add: Conv2d_forward_def Conv2d_init_def shape_def)

lemma down4:
  assumes "tc x = 3" "th x = 16 * a" "tw x = 16 * b" "1 \<le> a" "1 \<le> b" "1 \<le> dil"
  obtains p s1 s2 s3 s4 where
    "\<And>K. and_then (ConvBlock_forward training (ConvBlock_init w1 3 16 r dil) x) (\<lambda>(x, c1).
          and_then (ConvBlock_forward training (ConvBlock_init w2 16 32 r dil) x) (\<lambda>(x, c2).
          and_then (ConvBlock_forward training (ConvBlock_init w3 32 64 r dil) x) (\<lambda>(x, c3).
          and_then (ConvBlock_forward training (ConvBlock_init w4 64 128 r dil) x) (\<lambda>(x, c4).
          K x c1 c2 c3 c4)))) = K p s1 s2 s3 s4"
    "shape p = (tn x, 128, a, b)"
    "shape s1 = (tn x, 16, 16 * a, 16 * b)"
    "shape s2 = (tn x, 32, 8 * a, 8 * b)"
    "shape s3 = (tn x, 64, 4 * a, 4 * b)"
    "shape s4 = (tn x, 128, 2 * a, 2 * b)"
proof -
  obtain p1 s1 where 1: "ConvBlock_forward training (ConvBlock_init w1 3 16 r dil) x = Inr (p1, s1)"
      "shape p1 = (tn x, 16, 8 * a, 8 * b)" "shape s1 = (tn x, 16, 16 * a, 16 * b)"
    using ConvBlock_forward_shape [of x 3 dil 16 training w1 r] assms by auto
  obtain p2 s2 where 2: "ConvBlock_forward training (ConvBlock_init w2 16 32 r dil) p1 = Inr (p2, s2)"
      "shape p2 = (tn x, 32, 4 * a, 4 * b)" "shape s2 = (tn x, 32, 8 * a, 8 * b)"
    using ConvBlock_forward_shape [of p1 16 dil 32 training w2 r] assms 1(2)
    by (auto simp: shape_eq_iff)
  obtain p3 s3 where 3: "ConvBlock_forward training (ConvBlock_init w3 32 64 r dil) p2 = Inr (p3, s3)"
      "shape p3 = (tn x, 64, 2 * a, 2 * b)" "shape s3 = (tn x, 64, 4 * a, 4 * b)"
    using ConvBlock_forward_shape [of p2 32 dil 64 training w3 r] assms 2(2)
    by (auto simp: shape_eq_iff)
  obtain p4 s4 where 4: "ConvBlock_forward training (ConvBlock_init w4 64 128 r dil) p3 = Inr (p4, s4)"
      "shape p4 = (tn x, 128, a, b)" "shape s4 = (tn x, 128, 2 * a, 2 * b)"
    using ConvBlock_forward_shape [of p3 64 dil 128 training w4 r] assms 3(2)
    by (auto simp: shape_eq_iff)
  show thesis
    using that [of p4 s1 s2 s3 s4] 1 2 3 4 by (simp add: and_then_simps)
qed

lemma branch:
  assumes "shape x = (n, 256, a, b)" "1 \<le> a" "1 \<le> b"
    and "shape c4 = (n, 128, 2 * a, 2 * b)"
    and "shape c3 = (n, 64, 4 * a, 4 * b)"
    and "shape c2 = (n, 32, 8 * a, 8 * b)"
    and "shape c1 = (n, 16, 16 * a, 16 * b)"
  obtains y where
    "\<And>K. and_then (ConvUpBlock_forward training (ConvUpBlock_init w5 256 128 r 1) x c4) (\<lambda>v.
          and_then (ConvUpBlock_forward training (ConvUpBlock_init w6 128 64 r 1) v c3) (\<lambda>v.
          and_then (ConvUpBlock_forward training (ConvUpBlock_init w7 64 32 r 1) v c2) (\<lambda>v.
          and_then (ConvUpBlock_forward training (ConvUpBlock_init w8 32 16 r 1) v c1) (\<lambda>v.
          and_then (Conv2d_forward (Conv2d_init w9 16 1 1 0 1) v) K)))) = K y"
    "shape y = (n, 1, 16 * a, 16 * b)"
proof -
  obtain u5 where 5: "ConvUpBlock_forward training (ConvUpBlock_init w5 256 128 r 1) x c4 = Inr u5"
      "shape u5 = (n, 128, 2 * a, 2 * b)"
    using ConvUpBlock_forward_shape [of x 128 1 c4 training w5 r] assms
    by (auto simp: shape_eq_iff)
  obtain u6 where 6: "ConvUpBlock_forward training (ConvUpBlock_init w6 128 64 r 1) u5 c3 = Inr u6"
      "shape u6 = (n, 64, 4 * a, 4 * b)"
    using ConvUpBlock_forward_shape [of u5 64 1 c3 training w6 r] assms 5(2)
    by (auto simp: shape_eq_iff)
  obtain u7 where 7: "ConvUpBlock_forward training (ConvUpBlock_init w7 64 32 r 1) u6 c2 = Inr u7"
      "shape u7 = (n, 32, 8 * a, 8 * b)"
    using ConvUpBlock_forward_shape [of u6 32 1 c2 training w7 r] assms 6(2)
    by (auto simp: shape_eq_iff)
  obtain u8 where 8: "ConvUpBlock_forward training (ConvUpBlock_init w8 32 16 r 1) u7 c1 = Inr u8"
      "shape u8 = (n, 16, 16 * a, 16 * b)"
    using ConvUpBlock_forward_shape [of u7 16 1 c1 training w8 r] assms 7(2)
    by (auto simp: shape_eq_iff)
  obtain y where 9: "Conv2d_forward (Conv2d_init w9 16 1 1 0 1) u8 = Inr y"
      "shape y = (n, 1, 16 * a, 16 * b)"
    using Conv2d_1x1_shape [of u8 16 1 w9] 8(2) assms(2,3) by (auto simp: shape_eq_iff)
  show thesis
    using that [of y] 5 6 7 8 9 by (simp add: and_then_simps)
qed

lemma bottom_cu:
  assumes "shape x = (n, 128, a, b)" "2 \<le> a" "2 \<le> b"
  obtains y where
    "\<And>K. and_then (ConvBlock_forward training (ConvBlock_init w 128 256 r 1) x) (\<lambda>(_, x). K x) = K y"
    "shape y = (n, 256, a, b)"
proof -
  obtain p s where 1: "ConvBlock_forward training (ConvBlock_init w 128 256 r 1) x = Inr (p, s)"
      "shape s = (n, 256, a, b)"
    using ConvBlock_forward_shape [of x 128 1 256 training w r] assms
    by (auto simp: shape_eq_iff)
  show thesis
    using that [of s] 1 by (simp add: and_then_simps)
qed

lemma bottom_dilated:
  assumes "shape x = (n, 128, a, b)" "1 \<le> a" "1 \<le> b" "training \<longrightarrow> n * a * b \<noteq> 1"
  obtains y where
    "\<And>K. and_then (DilatedConvBlock_forward training (DilatedConvBlock_init w1 128 256 3 r relu 1) x) (\<lambda>v.
          and_then (DilatedConvBlock_forward training (DilatedConvBlock_init w2 256 256 3 r relu 2) v) (\<lambda>v.
          and_then (DilatedConvBlock_forward training (DilatedConvBlock_init w3 256 256 3 r relu 4) v) (\<lambda>v.
          and_then (DilatedConvBlock_forward training (DilatedConvBlock_init w4 256 256 3 r relu 8) v) K))) = K y"
    "shape y = (n, 256, a, b)"
proof -
  obtain y1 where 1: "DilatedConvBlock_forward training (DilatedConvBlock_init w1 128 256 3 r relu 1) x = Inr y1"
      "shape y1 = (n, 256, a, b)"
    using DilatedConvBlock_forward_shape [of x 128 1 training 256 w1 r relu] assms
    by (auto simp: shape_eq_iff)
  obtain y2 where 2: "DilatedConvBlock_forward training (DilatedConvBlock_init w2 256 256 3 r relu 2) y1 = Inr y2"
      "shape y2 = (n, 256, a, b)"
    using DilatedConvBlock_forward_shape [of y1 256 2 training 256 w2 r relu] assms 1(2)
    by (auto simp: shape_eq_iff)
  obtain y3 where 3: "DilatedConvBlock_forward training (DilatedConvBlock_init w3 256 256 3 r relu 4) y2 = Inr y3"
      "shape y3 = (n, 256, a, b)"
    using DilatedConvBlock_forward_shape [of y2 256 4 training 256 w3 r relu] assms 2(2)
    by (auto simp: shape_eq_iff)
  obtain y4 where 4: "DilatedConvBlock_forward training (DilatedConvBlock_init w4 256 256 3 r relu 8) y3 = Inr y4"
      "shape y4 = (n, 256, a, b)"
    using DilatedConvBlock_forward_shape [of y3 256 8 training 256 w4 r relu] assms 3(2)
    by (auto simp: shape_eq_iff)
  show thesis
    using that [of y4] 1 2 3 4 by (simp add: and_then_simps)
qed

section \<open>Shapes through the U-Net family\<close>

lemma UNet_forward_shape:
  assumes "tc x = 3" "th x = 16 * a" "tw x = 16 * b" "2 \<le> a" "2 \<le> b"
  shows "\<exists>y. UNet_forward training (UNet_init ws) x = Inr y
          \<and> shape y = (tn x, 1, 16 * a, 16 * b)"
proof -
  have dil: "(1::nat) \<le> 1" by simp
  have a: "1 \<le> a" "1 \<le> b" using assms by auto
  obtain p s1 s2 s3 s4 where d:
    "\<And>K. and_then (ConvBlock_forward training (ConvBlock_init (sub ws (Attr ''c1'')) 3 16 0.2 1) x) (\<lambda>(x, c1).
          and_then (ConvBlock_forward training (ConvBlock_init (sub ws (Attr ''c2'')) 16 32 0.2 1) x) (\<lambda>(x, c2).
          and_then (ConvBlock_forward training (ConvBlock_init (sub ws (Attr ''c3'')) 32 64 0.2 1) x) (\<lambda>(x, c3).
          and_then (ConvBlock_forward training (ConvBlock_init (sub ws (Attr ''c4'')) 64 128 0.2 1) x) (\<lambda>(x, c4).
          K x c1 c2 c3 c4)))) = (K p s1 s2 s3 s4 :: error + tensor)"
    "shape p = (tn x, 128, a, b)"
    "shape s1 = (tn x, 16, 16 * a, 16 * b)"
    "shape s2 = (tn x, 32, 8 * a, 8 * b)"
    "shape s3 = (tn x, 64, 4 * a, 4 * b)"
    "shape s4 = (tn x, 128, 2 * a, 2 * b)"
    by (rule down4 [where training = training and r = "0.2" and dil = 1 and
          ?w1.0 = "sub ws (Attr ''c1'')" and ?w2.0 = "sub ws (Attr ''c2'')" and
          ?w3.0 = "sub ws (Attr ''c3'')" and ?w4.0 = "sub ws (Attr ''c4'')",
          OF assms(1-3) a dil]) (rule that; assumption)
  obtain q where c:
    "\<And>K. and_then (ConvBlock_forward training (ConvBlock_init (sub ws (Attr ''cu'')) 128 256 0.2 1) p)
            (\<lambda>(_, x). K x) = (K q :: error + tensor)"
    "shape q = (tn x, 256, a, b)"
    by (rule bottom_cu [where training = training and r = "0.2" and
          w = "sub ws (Attr ''cu'')", OF d(2) assms(4,5)]) (rule that; assumption)
  obtain y where u:
    "\<And>K. and_then (ConvUpBlock_forward training (ConvUpBlock_init (sub ws (Attr ''u5'')) 256 128 0.2 1) q s4) (\<lambda>v.
          and_then (ConvUpBlock_forward training (ConvUpBlock_init (sub ws (Attr ''u6'')) 128 64 0.2 1) v s3) (\<lambda>v.
          and_then (ConvUpBlock_forward training (ConvUpBlock_init (sub ws (Attr ''u7'')) 64 32 0.2 1) v s2) (\<lambda>v.
          and_then (ConvUpBlock_forward training (ConvUpBlock_init (sub ws (Attr ''u8'')) 32 16 0.2 1) v s1) (\<lambda>v.
          and_then (Conv2d_forward (Conv2d_init (sub ws (Attr ''ce'')) 16 1 1 0 1) v) K)))) =
        (K y :: error + tensor)"
    "shape y = (tn x, 1, 16 * a, 16 * b)"
    by (rule branch [where training = training and r = "0.2" and
          ?w5.0 = "sub ws (Attr ''u5'')" and ?w6.0 = "sub ws (Attr ''u6'')" and
          ?w7.0 = "sub ws (Attr ''u7'')" and ?w8.0 = "sub ws (Attr ''u8'')" and
          ?w9.0 = "sub ws (Attr ''ce'')", OF c(2) a d(6,5,4,3)]) (rule that; assumption)
  have "UNet_forward training (UNet_init ws) x = Inr (F_sigmoid y)"
    by (simp only: UNet_forward_def UNet_init_def UNet.select_convs Let_def d(1) c(1) u(1))
  then show ?thesis
    using u(2) by (simp add: shape_F_sigmoid)
qed

lemma DUNet_forward_shape:
  assumes "tc x = 3" "th x = 16 * a" "tw x = 16 * b" "1 \<le> a" "1 \<le> b"
    and "training \<longrightarrow> tn x * a * b \<noteq> 1"
  shows "\<exists>y. DUNet_forward training (DUNet_init ws) x = Inr y
          \<and> shape y = (tn x, 1, 16 * a, 16 * b)"
proof -
  have dil: "(1::nat) \<le> 2" by simp
  obtain p s1 s2 s3 s4 where d:
    "\<And>K. and_then (ConvBlock_forward training (ConvBlock_init (sub ws (Attr ''c1'')) 3 16 0.2 2) x) (\<lambda>(x, c1).
          and_then (ConvBlock_forward training (ConvBlock_init (sub ws (Attr ''c2'')) 16 32 0.2 2) x) (\<lambda>(x, c2).
          and_then (ConvBlock_forward training (ConvBlock_init (sub ws (Attr ''c3'')) 32 64 0.2 2) x) (\<lambda>(x, c3).
          and_then (ConvBlock_forward training (ConvBlock_init (sub ws (Attr ''c4'')) 64 128 0.2 2) x) (\<lambda>(x, c4).
          K x c1 c2 c3 c4)))) = (K p s1 s2 s3 s4 :: error + tensor)"
    "shape p = (tn x, 128, a, b)"
    "shape s1 = (tn x, 16, 16 * a, 16 * b)"
    "shape s2 = (tn x, 32, 8 * a, 8 * b)"
    "shape s3 = (tn x, 64, 4 * a, 4 * b)"
    "shape s4 = (tn x, 128, 2 * a, 2 * b)"
    by (rule down4 [where training = training and r = "0.2" and dil = 2 and
          ?w1.0 = "sub ws (Attr ''c1'')" and ?w2.0 = "sub ws (Attr ''c2'')" and
          ?w3.0 = "sub ws (Attr ''c3'')" and ?w4.0 = "sub ws (Attr ''c4'')",
          OF assms(1-3) assms(4,5) dil]) (rule that; assumption)
  obtain q where c:
    "\<And>K. and_then (DilatedConvBlock_forward training (DilatedConvBlock_init (sub ws (Attr ''d1'')) 128 256 3 0.1 relu 1) p) (\<lambda>v.
          and_then (DilatedConvBlock_forward training (DilatedConvBlock_init (sub ws (Attr ''d2'')) 256 256 3 0.1 relu 2) v) (\<lambda>v.
          and_then (DilatedConvBlock_forward training (DilatedConvBlock_init (sub ws (Attr ''d3'')) 256 256 3 0.1 relu 4) v) (\<lambda>v.
          and_then (DilatedConvBlock_forward training (DilatedConvBlock_init (sub ws (Attr ''d4'')) 256 256 3 0.1 relu 8) v) K))) =
        (K q :: error + tensor)"
    "shape q = (tn x, 256, a, b)"
    by (rule bottom_dilated [where training = training and r = "0.1" and
          ?w1.0 = "sub ws (Attr ''d1'')" and ?w2.0 = "sub ws (Attr ''d2'')" and
          ?w3.0 = "sub ws (Attr ''d3'')" and ?w4.0 = "sub ws (Attr ''d4'')",
          OF d(2) assms(4-6)]) (rule that; assumption)
  obtain y where u:
    "\<And>K. and_then (ConvUpBlock_forward training (ConvUpBlock_init (sub ws (Attr ''u5'')) 256 128 0.2 1) q s4) (\<lambda>v.
          and_then (ConvUpBlock_forward training (ConvUpBlock_init (sub ws (Attr ''u6'')) 128 64 0.2 1) v s3) (\<lambda>v.
          and_then (ConvUpBlock_forward training (ConvUpBlock_init (sub ws (Attr ''u7'')) 64 32 0.2 1) v s2) (\<lambda>v.
          and_then (ConvUpBlock_forward training (ConvUpBlock_init (sub ws (Attr ''u8'')) 32 16 0.2 1) v s1) (\<lambda>v.
          and_then (Conv2d_forward (Conv2d_init (sub ws (Attr ''ce'')) 16 1 1 0 1) v) K)))) =
        (K y :: error + tensor)"
    "shape y = (tn x, 1, 16 * a, 16 * b)"
    by (rule branch [where training = training and r = "0.2" and
          ?w5.0 = "sub ws (Attr ''u5'')" and ?w6.0 = "sub ws (Attr ''u6'')" and
          ?w7.0 = "sub ws (Attr ''u7'')" and ?w8.0 = "sub ws (Attr ''u8'')" and
          ?w9.0 = "sub ws (Attr ''ce'')", OF c(2) assms(4,5) d(6,5,4,3)]) (rule that; assumption)
  have "DUNet_forward training (DUNet_init ws) x = Inr (F_sigmoid y)"
    by (simp only: DUNet_forward_def DUNet_init_def DUNet.select_convs Let_def d(1) c(1) u(1))
  then show ?thesis
    using u(2) by (simp add: shape_F_sigmoid)
qed

lemma CAUNet_forward_shape:
  assumes "tc x = 3" "th x = 16 * a" "tw x = 16 * b" "2 \<le> a" "2 \<le> b"
  shows "\<exists>ys yc. CAUNet_forward training (CAUNet_init ws) x = Inr (ys, yc)
          \<and> shape ys = (tn x, 1, 16 * a, 16 * b)
          \<and> shape yc = (tn x, 1, 16 * a, 16 * b)"
proof -
  have dil: "(1::nat) \<le> 1" by simp
  have a: "1 \<le> a" "1 \<le> b" using assms by auto
  obtain p s1 s2 s3 s4 where d:
    "\<And>K. and_then (ConvBlock_forward training (ConvBlock_init (sub ws (Attr ''c1'')) 3 16 0.2 1) x) (\<lambda>(x, c1).
          and_then (ConvBlock_forward training (ConvBlock_init (sub ws (Attr ''c2'')) 16 32 0.2 1) x) (\<lambda>(x, c2).
          and_then (ConvBlock_forward training (ConvBlock_init (sub ws (Attr ''c3'')) 32 64 0.2 1) x) (\<lambda>(x, c3).
          and_then (ConvBlock_forward training (ConvBlock_init (sub ws (Attr ''c4'')) 64 128 0.2 1) x) (\<lambda>(x, c4).
          K x c1 c2 c3 c4)))) = (K p s1 s2 s3 s4 :: error + tensor \<times> tensor)"
    "shape p = (tn x, 128, a, b)"
    "shape s1 = (tn x, 16, 16 * a, 16 * b)"
    "shape s2 = (tn x, 32, 8 * a, 8 * b)"
    "shape s3 = (tn x, 64, 4 * a, 4 * b)"
    "shape s4 = (tn x, 128, 2 * a, 2 * b)"
    by (rule down4 [where training = training and r = "0.2" and dil = 1 and
          ?w1.0 = "sub ws (Attr ''c1'')" and ?w2.0 = "sub ws (Attr ''c2'')" and
          ?w3.0 = "sub ws (Attr ''c3'')" and ?w4.0 = "sub ws (Attr ''c4'')",
          OF assms(1-3) a dil]) (rule that; assumption)
  obtain q where c:
    "\<And>K. and_then (ConvBlock_forward training (ConvBlock_init (sub ws (Attr ''cu'')) 128 256 0.2 1) p)
            (\<lambda>(_, x). K x) = (K q :: error + tensor \<times> tensor)"
    "shape q = (tn x, 256, a, b)"
    by (rule bottom_cu [where training = training and r = "0.2" and
          w = "sub ws (Attr ''cu'')", OF d(2) assms(4,5)]) (rule that; assumption)
  obtain ys where us:
    "\<And>K. and_then (ConvUpBlock_forward training (ConvUpBlock_init (sub ws (Attr ''u5s'')) 256 128 0.2 1) q s4) (\<lambda>v.
          and_then (ConvUpBlock_forward training (ConvUpBlock_init (sub ws (Attr ''u6s'')) 128 64 0.2 1) v s3) (\<lambda>v.
          and_then (ConvUpBlock_forward training (ConvUpBlock_init (sub ws (Attr ''u7s'')) 64 32 0.2 1) v s2) (\<lambda>v.
          and_then (ConvUpBlock_forward training (ConvUpBlock_init (sub ws (Attr ''u8s'')) 32 16 0.2 1) v s1) (\<lambda>v.
          and_then (Conv2d_forward (Conv2d_init (sub ws (Attr ''ces'')) 16 1 1 0 1) v) K)))) =
        (K ys :: error + tensor \<times> tensor)"
    "shape ys = (tn x, 1, 16 * a, 16 * b)"
    by (rule branch [where training = training and r = "0.2" and
          ?w5.0 = "sub ws (Attr ''u5s'')" and ?w6.0 = "sub ws (Attr ''u6s'')" and
          ?w7.0 = "sub ws (Attr ''u7s'')" and ?w8.0 = "sub ws (Attr ''u8s'')" and
          ?w9.0 = "sub ws (Attr ''ces'')", OF c(2) a d(6,5,4,3)]) (rule that; assumption)
  obtain yc where uc:
    "\<And>K. and_then (ConvUpBlock_forward training (ConvUpBlock_init (sub ws (Attr ''u5c'')) 256 128 0.2 1) q s4) (\<lambda>v.
          and_then (ConvUpBlock_forward training (ConvUpBlock_init (sub ws (Attr ''u6c'')) 128 64 0.2 1) v s3) (\<lambda>v.
          and_then (ConvUpBlock_forward training (ConvUpBlock_init (sub ws (Attr ''u7c'')) 64 32 0.2 1) v s2) (\<lambda>v.
          and_then (ConvUpBlock_forward training (ConvUpBlock_init (sub ws (Attr ''u8c'')) 32 16 0.2 1) v s1) (\<lambda>v.
          and_then (Conv2d_forward (Conv2d_init (sub ws (Attr ''cec'')) 16 1 1 0 1) v) K)))) =
        (K yc :: error + tensor \<times> tensor)"
    "shape yc = (tn x, 1, 16 * a, 16 * b)"
    by (rule branch [where training = training and r = "0.2" and
          ?w5.0 = "sub ws (Attr ''u5c'')" and ?w6.0 = "sub ws (Attr ''u6c'')" and
          ?w7.0 = "sub ws (Attr ''u7c'')" and ?w8.0 = "sub ws (Attr ''u8c'')" and
          ?w9.0 = "sub ws (Attr ''cec'')", OF c(2) a d(6,5,4,3)]) (rule that; assumption)
  have "CAUNet_forward training (CAUNet_init ws) x = Inr (F_sigmoid ys, F_sigmoid yc)"
    by (simp only: CAUNet_forward_def CAUNet_init_def CAUNet.select_convs Let_def d(1) c(1) us(1) uc(1))
  then show ?thesis
    using us(2) uc(2) by (simp add: shape_F_sigmoid)
qed

lemma CADUNet_forward_shape:
  assumes "tc x = 3" "th x = 16 * a" "tw x = 16 * b" "1 \<le> a" "1 \<le> b"
    and "training \<longrightarrow> tn x * a * b \<noteq> 1"
  shows "\<exists>ys yc. CADUNet_forward training (CADUNet_init ws) x = Inr (ys, yc)
          \<and> shape ys = (tn x, 1, 16 * a, 16 * b)
          \<and> shape yc = (tn x, 1, 16 * a, 16 * b)"
proof -
  have dil: "(1::nat) \<le> 2" by simp
  obtain p s1 s2 s3 s4 where d:
    "\<And>K. and_then (ConvBlock_forward training (ConvBlock_init (sub ws (Attr ''c1'')) 3 16 0.2 2) x) (\<lambda>(x, c1).
          and_then (ConvBlock_forward training (ConvBlock_init (sub ws (Attr ''c2'')) 16 32 0.2 2) x) (\<lambda>(x, c2).
          and_then (ConvBlock_forward training (ConvBlock_init (sub ws (Attr ''c3'')) 32 64 0.2 2) x) (\<lambda>(x, c3).
          and_then (ConvBlock_forward training (ConvBlock_init (sub ws (Attr ''c4'')) 64 128 0.2 2) x) (\<lambda>(x, c4).
          K x c1 c2 c3 c4)))) = (K p s1 s2 s3 s4 :: error + tensor \<times> tensor)"
    "shape p = (tn x, 128, a, b)"
    "shape s1 = (tn x, 16, 16 * a, 16 * b)"
    "shape s2 = (tn x, 32, 8 * a, 8 * b)"
    "shape s3 = (tn x, 64, 4 * a, 4 * b)"
    "shape s4 = (tn x, 128, 2 * a, 2 * b)"
    by (rule down4 [where training = training and r = "0.2" and dil = 2 and
          ?w1.0 = "sub ws (Attr ''c1'')" and ?w2.0 = "sub ws (Attr ''c2'')" and
          ?w3.0 = "sub ws (Attr ''c3'')" and ?w4.0 = "sub ws (Attr ''c4'')",
          OF assms(1-3) assms(4,5) dil]) (rule that; assumption)
  obtain q where c:
    "\<And>K. and_then (DilatedConvBlock_forward training (DilatedConvBlock_init (sub ws (Attr ''d1'')) 128 256 3 0.1 relu 1) p) (\<lambda>v.
          and_then (DilatedConvBlock_forward training (DilatedConvBlock_init (sub ws (Attr ''d2'')) 256 256 3 0.1 relu 2) v) (\<lambda>v.
          and_then (DilatedConvBlock_forward training (DilatedConvBlock_init (sub ws (Attr ''d3'')) 256 256 3 0.1 relu 4) v) (\<lambda>v.
          and_then (DilatedConvBlock_forward training (DilatedConvBlock_init (sub ws (Attr ''d4'')) 256 256 3 0.1 relu 8) v) K))) =
        (K q :: error + tensor \<times> tensor)"
    "shape q = (tn x, 256, a, b)"
    by (rule bottom_dilated [where training = training and r = "0.1" and
          ?w1.0 = "sub ws (Attr ''d1'')" and ?w2.0 = "sub ws (Attr ''d2'')" and
          ?w3.0 = "sub ws (Attr ''d3'')" and ?w4.0 = "sub ws (Attr ''d4'')",
          OF d(2) assms(4-6)]) (rule that; assumption)
  obtain ys where us:
    "\<And>K. and_then (ConvUpBlock_forward training (ConvUpBlock_init (sub ws (Attr ''u5s'')) 256 128 0.2 1) q s4) (\<lambda>v.
          and_then (ConvUpBlock_forward training (ConvUpBlock_init (sub ws (Attr ''u6s'')) 128 64 0.2 1) v s3) (\<lambda>v.
          and_then (ConvUpBlock_forward training (ConvUpBlock_init (sub ws (Attr ''u7s'')) 64 32 0.2 1) v s2) (\<lambda>v.
          and_then (ConvUpBlock_forward training (ConvUpBlock_init (sub ws (Attr ''u8s'')) 32 16 0.2 1) v s1) (\<lambda>v.
          and_then (Conv2d_forward (Conv2d_init (sub ws (Attr ''ces'')) 16 1 1 0 1) v) K)))) =
        (K ys :: error + tensor \<times> tensor)"
    "shape ys = (tn x, 1, 16 * a, 16 * b)"
    by (rule branch [where training = training and r = "0.2" and
          ?w5.0 = "sub ws (Attr ''u5s'')" and ?w6.0 = "sub ws (Attr ''u6s'')" and
          ?w7.0 = "sub ws (Attr ''u7s'')" and ?w8.0 = "sub ws (Attr ''u8s'')" and
          ?w9.0 = "sub ws (Attr ''ces'')", OF c(2) assms(4,5) d(6,5,4,3)]) (rule that; assumption)
  obtain yc where uc:
    "\<And>K. and_then (ConvUpBlock_forward training (ConvUpBlock_init (sub ws (Attr ''u5c'')) 256 128 0.2 1) q s4) (\<lambda>v.
          and_then (ConvUpBlock_forward training (ConvUpBlock_init (sub ws (Attr ''u6c'')) 128 64 0.2 1) v s3) (\<lambda>v.
          and_then (ConvUpBlock_forward training (ConvUpBlock_init (sub ws (Attr ''u7c'')) 64 32 0.2 1) v s2) (\<lambda>v.
          and_then (ConvUpBlock_forward training (ConvUpBlock_init (sub ws (Attr ''u8c'')) 32 16 0.2 1) v s1) (\<lambda>v.
          and_then (Conv2d_forward (Conv2d_init (sub ws (Attr ''cec'')) 16 1 1 0 1) v) K)))) =
        (K yc :: error + tensor \<times> tensor)"
    "shape yc = (tn x, 1, 16 * a, 16 * b)"
    by (rule branch [where training = training and r = "0.2" and
          ?w5.0 = "sub ws (Attr ''u5c'')" and ?w6.0 = "sub ws (Attr ''u6c'')" and
          ?w7.0 = "sub ws (Attr ''u7c'')" and ?w8.0 = "sub ws (Attr ''u8c'')" and
          ?w9.0 = "sub ws (Attr ''cec'')", OF c(2) assms(4,5) d(6,5,4,3)]) (rule that; assumption)
  have "CADUNet_forward training (CADUNet_init ws) x = Inr (F_sigmoid ys, F_sigmoid yc)"
    by (simp only: CADUNet_forward_def CADUNet_init_def CADUNet.select_convs Let_def d(1) c(1) us(1) uc(1))
  then show ?thesis
    using us(2) uc(2) by (simp add: shape_F_sigmoid)
qed

lemma CAMUNet_forward_shape:
  assumes "tc x = 3" "th x = 16 * a" "tw x = 16 * b" "2 \<le> a" "2 \<le> b"
  shows "\<exists>ys yc ym. CAMUNet_forward training (CAMUNet_init ws) x = Inr (ys, yc, ym)
          \<and> shape ys = (tn x, 1, 16 * a, 16 * b)
          \<and> shape yc = (tn x, 1, 16 * a, 16 * b)
          \<and> shape ym = (tn x, 1, 16 * a, 16 * b)"
proof -
  have dil: "(1::nat) \<le> 1" by simp
  have a: "1 \<le> a" "1 \<le> b" using assms by auto
  obtain p s1 s2 s3 s4 where d:
    "\<And>K. and_then (ConvBlock_forward training (ConvBlock_init (sub ws (Attr ''c1'')) 3 16 0.2 1) x) (\<lambda>(x, c1).
          and_then (ConvBlock_forward training (ConvBlock_init (sub ws (Attr ''c2'')) 16 32 0.2 1) x) (\<lambda>(x, c2).
          and_then (ConvBlock_forward training (ConvBlock_init (sub ws (Attr ''c3'')) 32 64 0.2 1) x) (\<lambda>(x, c3).
          and_then (ConvBlock_forward training (ConvBlock_init (sub ws (Attr ''c4'')) 64 128 0.2 1) x) (\<lambda>(x, c4).
          K x c1 c2 c3 c4)))) = (K p s1 s2 s3 s4 :: error + tensor \<times> tensor \<times> tensor)"
    "shape p = (tn x, 128, a, b)"
    "shape s1 = (tn x, 16, 16 * a, 16 * b)"
    "shape s2 = (tn x, 32, 8 * a, 8 * b)"
    "shape s3 = (tn x, 64, 4 * a, 4 * b)"
    "shape s4 = (tn x, 128, 2 * a, 2 * b)"
    by (rule down4 [where training = training and r = "0.2" and dil = 1 and
          ?w1.0 = "sub ws (Attr ''c1'')" and ?w2.0 = "sub ws (Attr ''c2'')" and
          ?w3.0 = "sub ws (Attr ''c3'')" and ?w4.0 = "sub ws (Attr ''c4'')",
          OF assms(1-3) a dil]) (rule that; assumption)
  obtain q where c:
    "\<And>K. and_then (ConvBlock_forward training (ConvBlock_init (sub ws (Attr ''cu'')) 128 256 0.2 1) p)
            (\<lambda>(_, x). K x) = (K q :: error + tensor \<times> tensor \<times> tensor)"
    "shape q = (tn x, 256, a, b)"
    by (rule bottom_cu [where training = training and r = "0.2" and
          w = "sub ws (Attr ''cu'')", OF d(2) assms(4,5)]) (rule that; assumption)
  obtain ys where us:
    "\<And>K. and_then (ConvUpBlock_forward training (ConvUpBlock_init (sub ws (Attr ''u5s'')) 256 128 0.2 1) q s4) (\<lambda>v.
          and_then (ConvUpBlock_forward training (ConvUpBlock_init (sub ws (Attr ''u6s'')) 128 64 0.2 1) v s3) (\<lambda>v.
          and_then (ConvUpBlock_forward training (ConvUpBlock_init (sub ws (Attr ''u7s'')) 64 32 0.2 1) v s2) (\<lambda>v.
          and_then (ConvUpBlock_forward training (ConvUpBlock_init (sub ws (Attr ''u8s'')) 32 16 0.2 1) v s1) (\<lambda>v.
          and_then (Conv2d_forward (Conv2d_init (sub ws (Attr ''ces'')) 16 1 1 0 1) v) K)))) =
        (K ys :: error + tensor \<times> tensor \<times> tensor)"
    "shape ys = (tn x, 1, 16 * a, 16 * b)"
    by (rule branch [where training = training and r = "0.2" and
          ?w5.0 = "sub ws (Attr ''u5s'')" and ?w6.0 = "sub ws (Attr ''u6s'')" and
          ?w7.0 = "sub ws (Attr ''u7s'')" and ?w8.0 = "sub ws (Attr ''u8s'')" and
          ?w9.0 = "sub ws (Attr ''ces'')", OF c(2) a d(6,5,4,3)]) (rule that; assumption)
  obtain yc where uc:
    "\<And>K. and_then (ConvUpBlock_forward training (ConvUpBlock_init (sub ws (Attr ''u5c'')) 256 128 0.2 1) q s4) (\<lambda>v.
          and_then (ConvUpBlock_forward training (ConvUpBlock_init (sub ws (Attr ''u6c'')) 128 64 0.2 1) v s3) (\<lambda>v.
          and_then (ConvUpBlock_forward training (ConvUpBlock_init (sub ws (Attr ''u7c'')) 64 32 0.2 1) v s2) (\<lambda>v.
          and_then (ConvUpBlock_forward training (ConvUpBlock_init (sub ws (Attr ''u8c'')) 32 16 0.2 1) v s1) (\<lambda>v.
          and_then (Conv2d_forward (Conv2d_init (sub ws (Attr ''cec'')) 16 1 1 0 1) v) K)))) =
        (K yc :: error + tensor \<times> tensor \<times> tensor)"
    "shape yc = (tn x, 1, 16 * a, 16 * b)"
    by (rule branch [where training = training and r = "0.2" and
          ?w5.0 = "sub ws (Attr ''u5c'')" and ?w6.0 = "sub ws (Attr ''u6c'')" and
          ?w7.0 = "sub ws (Attr ''u7c'')" and ?w8.0 = "sub ws (Attr ''u8c'')" and
          ?w9.0 = "sub ws (Attr ''cec'')", OF c(2) a d(6,5,4,3)]) (rule that; assumption)
  obtain ym where um:
    "\<And>K. and_then (ConvUpBlock_forward training (ConvUpBlock_init (sub ws (Attr ''u5m'')) 256 128 0.2 1) q s4) (\<lambda>v.
          and_then (ConvUpBlock_forward training (ConvUpBlock_init (sub ws (Attr ''u6m'')) 128 64 0.2 1) v s3) (\<lambda>v.
          and_then (ConvUpBlock_forward training (ConvUpBlock_init (sub ws (Attr ''u7m'')) 64 32 0.2 1) v s2) (\<lambda>v.
          and_then (ConvUpBlock_forward training (ConvUpBlock_init (sub ws (Attr ''u8m'')) 32 16 0.2 1) v s1) (\<lambda>v.
          and_then (Conv2d_forward (Conv2d_init (sub ws (Attr ''cem'')) 16 1 1 0 1) v) K)))) =
        (K ym :: error + tensor \<times> tensor \<times> tensor)"
    "shape ym = (tn x, 1, 16 * a, 16 * b)"
    by (rule branch [where training = training and r = "0.2" and
          ?w5.0 = "sub ws (Attr ''u5m'')" and ?w6.0 = "sub ws (Attr ''u6m'')" and
          ?w7.0 = "sub ws (Attr ''u7m'')" and ?w8.0 = "sub ws (Attr ''u8m'')" and
          ?w9.0 = "sub ws (Attr ''cem'')", OF c(2) a d(6,5,4,3)]) (rule that; assumption)
  have "CAMUNet_forward training (CAMUNet_init ws) x = Inr (F_sigmoid ys, F_sigmoid yc, F_sigmoid ym)"
    by (simp only: CAMUNet_forward_def CAMUNet_init_def CAMUNet.select_convs Let_def d(1) c(1) us(1) uc(1) um(1))
  then show ?thesis
    using us(2) uc(2) um(2) by (simp add: shape_F_sigmoid)
qed

lemma CAMDUNet_forward_shape:
  assumes "tc x = 3" "th x = 16 * a" "tw x = 16 * b" "1 \<le> a" "1 \<le> b"
    and "training \<longrightarrow> tn x * a * b \<noteq> 1"
  shows "\<exists>ys yc ym. CAMDUNet_forward training (CAMDUNet_init ws) x = Inr (ys, yc, ym)
          \<and> shape ys = (tn x, 1, 16 * a, 16 * b)
          \<and> shape yc = (tn x, 1, 16 * a, 16 * b)
          \<and> shape ym = (tn x, 1, 16 * a, 16 * b)"
proof -
  have dil: "(1::nat) \<le> 2" by simp
  obtain p s1 s2 s3 s4 where d:
    "\<And>K. and_then (ConvBlock_forward training (ConvBlock_init (sub ws (Attr ''c1'')) 3 16 0.2 2) x) (\<lambda>(x, c1).
          and_then (ConvBlock_forward training (ConvBlock_init (sub ws (Attr ''c2'')) 16 32 0.2 2) x) (\<lambda>(x, c2).
          and_then (ConvBlock_forward training (ConvBlock_init (sub ws (Attr ''c3'')) 32 64 0.2 2) x) (\<lambda>(x, c3).
          and_then (ConvBlock_forward training (ConvBlock_init (sub ws (Attr ''c4'')) 64 128 0.2 2) x) (\<lambda>(x, c4).
          K x c1 c2 c3 c4)))) = (K p s1 s2 s3 s4 :: error + tensor \<times> tensor \<times> tensor)"
    "shape p = (tn x, 128, a, b)"
    "shape s1 = (tn x, 16, 16 * a, 16 * b)"
    "shape s2 = (tn x, 32, 8 * a, 8 * b)"
    "shape s3 = (tn x, 64, 4 * a, 4 * b)"
    "shape s4 = (tn x, 128, 2 * a, 2 * b)"
    by (rule down4 [where training = training and r = "0.2" and dil = 2 and
          ?w1.0 = "sub ws (Attr ''c1'')" and ?w2.0 = "sub ws (Attr ''c2'')" and
          ?w3.0 = "sub ws (Attr ''c3'')" and ?w4.0 = "sub ws (Attr ''c4'')",
          OF assms(1-3) assms(4,5) dil]) (rule that; assumption)
  obtain q where c:
    "\<And>K. and_then (DilatedConvBlock_forward training (DilatedConvBlock_init (sub ws (Attr ''d1'')) 128 256 3 0.1 relu 1) p) (\<lambda>v.
          and_then (DilatedConvBlock_forward training (DilatedConvBlock_init (sub ws (Attr ''d2'')) 256 256 3 0.1 relu 2) v) (\<lambda>v.
          and_then (DilatedConvBlock_forward training (DilatedConvBlock_init (sub ws (Attr ''d3'')) 256 256 3 0.1 relu 4) v) (\<lambda>v.
          and_then (DilatedConvBlock_forward training (DilatedConvBlock_init (sub ws (Attr ''d4'')) 256 256 3 0.1 relu 8) v) K))) =
        (K q :: error + tensor \<times> tensor \<times> tensor)"
    "shape q = (tn x, 256, a, b)"
    by (rule bottom_dilated [where training = training and r = "0.1" and
          ?w1.0 = "sub ws (Attr ''d1'')" and ?w2.0 = "sub ws (Attr ''d2'')" and
          ?w3.0 = "sub ws (Attr ''d3'')" and ?w4.0 = "sub ws (Attr ''d4'')",
          OF d(2) assms(4-6)]) (rule that; assumption)
  obtain ys where us:
    "\<And>K. and_then (ConvUpBlock_forward training (ConvUpBlock_init (sub ws (Attr ''u5s'')) 256 128 0.2 1) q s4) (\<lambda>v.
          and_then (ConvUpBlock_forward training (ConvUpBlock_init (sub ws (Attr ''u6s'')) 128 64 0.2 1) v s3) (\<lambda>v.
          and_then (ConvUpBlock_forward training (ConvUpBlock_init (sub ws (Attr ''u7s'')) 64 32 0.2 1) v s2) (\<lambda>v.
          and_then (ConvUpBlock_forward training (ConvUpBlock_init (sub ws (Attr ''u8s'')) 32 16 0.2 1) v s1) (\<lambda>v.
          and_then (Conv2d_forward (Conv2d_init (sub ws (Attr ''ces'')) 16 1 1 0 1) v) K)))) =
        (K ys :: error + tensor \<times> tensor \<times> tensor)"
    "shape ys = (tn x, 1, 16 * a, 16 * b)"
    by (rule branch [where training = training and r = "0.2" and
          ?w5.0 = "sub ws (Attr ''u5s'')" and ?w6.0 = "sub ws (Attr ''u6s'')" and
          ?w7.0 = "sub ws (Attr ''u7s'')" and ?w8.0 = "sub ws (Attr ''u8s'')" and
          ?w9.0 = "sub ws (Attr ''ces'')", OF c(2) assms(4,5) d(6,5,4,3)]) (rule that; assumption)
  obtain yc where uc:
    "\<And>K. and_then (ConvUpBlock_forward training (ConvUpBlock_init (sub ws (Attr ''u5c'')) 256 128 0.2 1) q s4) (\<lambda>v.
          and_then (ConvUpBlock_forward training (ConvUpBlock_init (sub ws (Attr ''u6c'')) 128 64 0.2 1) v s3) (\<lambda>v.
          and_then (ConvUpBlock_forward training (ConvUpBlock_init (sub ws (Attr ''u7c'')) 64 32 0.2 1) v s2) (\<lambda>v.
          and_then (ConvUpBlock_forward training (ConvUpBlock_init (sub ws (Attr ''u8c'')) 32 16 0.2 1) v s1) (\<lambda>v.
          and_then (Conv2d_forward (Conv2d_init (sub ws (Attr ''cec'')) 16 1 1 0 1) v) K)))) =
        (K yc :: error + tensor \<times> tensor \<times> tensor)"
    "shape yc = (tn x, 1, 16 * a, 16 * b)"
    by (rule branch [where training = training and r = "0.2" and
          ?w5.0 = "sub ws (Attr ''u5c'')" and ?w6.0 = "sub ws (Attr ''u6c'')" and
          ?w7.0 = "sub ws (Attr ''u7c'')" and ?w8.0 = "sub ws (Attr ''u8c'')" and
          ?w9.0 = "sub ws (Attr ''cec'')", OF c(2) assms(4,5) d(6,5,4,3)]) (rule that; assumption)
  obtain ym where um:
    "\<And>K. and_then (ConvUpBlock_forward training (ConvUpBlock_init (sub ws (Attr ''u5m'')) 256 128 0.2 1) q s4) (\<lambda>v.
          and_then (ConvUpBlock_forward training (ConvUpBlock_init (sub ws (Attr ''u6m'')) 128 64 0.2 1) v s3) (\<lambda>v.
          and_then (ConvUpBlock_forward training (ConvUpBlock_init (sub ws (Attr ''u7m'')) 64 32 0.2 1) v s2) (\<lambda>v.
          and_then (ConvUpBlock_forward training (ConvUpBlock_init (sub ws (Attr ''u8m'')) 32 16 0.2 1) v s1) (\<lambda>v.
          and_then (Conv2d_forward (Conv2d_init (sub ws (Attr ''cem'')) 16 1 1 0 1) v) K)))) =
        (K ym :: error + tensor \<times> tensor \<times> tensor)"
    "shape ym = (tn x, 1, 16 * a, 16 * b)"
    by (rule branch [where training = training and r = "0.2" and
          ?w5.0 = "sub ws (Attr ''u5m'')" and ?w6.0 = "sub ws (Attr ''u6m'')" and
          ?w7.0 = "sub ws (Attr ''u7m'')" and ?w8.0 = "sub ws (Attr ''u8m'')" and
          ?w9.0 = "sub ws (Attr ''cem'')", OF c(2) assms(4,5) d(6,5,4,3)]) (rule that; assumption)
  have "CAMDUNet_forward training (CAMDUNet_init ws) x = Inr (F_sigmoid ys, F_sigmoid yc, F_sigmoid ym)"
    by (simp only: CAMDUNet_forward_def CAMDUNet_init_def CAMDUNet.select_convs Let_def d(1) c(1) us(1) uc(1) um(1))
  then show ?thesis
    using us(2) uc(2) um(2) by (simp add: shape_F_sigmoid)
qed

section \<open>Shapes through DCAN and UNetVgg16\<close>

lemma Conv2d_3x3_shape:
  assumes "tc x = cin" "1 \<le> th x" "1 \<le> tw x" "1 \<le> cin" "1 \<le> cout"
  shows "\<exists>y. Conv2d_forward (Conv2d_init ws cin cout 3 1 1) x = Inr y
          \<and> shape y = (tn x, cout, th x, tw x)"
  using assms by (simp add: Conv2d_forward_def Conv2d_init_def shape_def)

lemma BatchNorm2d_forward_shape:
  assumes "tc x = c" "training \<longrightarrow> tn x * th x * tw x \<noteq> 1"
  shows "\<exists>y. BatchNorm2d_forward training (BatchNorm2d_init ws c) x = Inr y \<and> shape y = shape x"
  using assms by (auto simp: BatchNorm2d_forward_def BatchNorm2d_init_def shape_def)

lemma shape_F_relu: "shape (F_relu x) = shape x"
  by (simp add: F_relu_def map_dat_def shape_def)

lemma shape_Dropout2d: "shape (Dropout2d_forward training l x) = shape x"
  by (simp add: Dropout2d_forward_def shape_def)

text \<open>Convolution, ReLU, batch normalisation and dropout in a row, as in dcanConv and
  twice in DeConvBlk.\<close>

lemma conv_relu_bn_drop_shape:
  assumes "tc x = cin" "1 \<le> th x" "1 \<le> tw x" "training \<longrightarrow> tn x * th x * tw x \<noteq> 1"
    and "1 \<le> cin" "1 \<le> cout"
  shows "\<exists>y. Sequential_forward training
            [Conv2d_layer (Conv2d_init w1 cin cout 3 1 1), ReLU_layer,
             BatchNorm2d_layer (BatchNorm2d_init w2 cout),
             Dropout2d_layer (Dropout2d_init w3 r)] x = Inr y
          \<and> shape y = (tn x, cout, th x, tw x)"
proof -
  obtain y1 where 1: "Conv2d_forward (Conv2d_init w1 cin cout 3 1 1) x = Inr y1"
      "shape y1 = (tn x, cout, th x, tw x)"
    using Conv2d_3x3_shape [of x cin cout w1] assms by auto
  have s2: "shape (F_relu y1) = (tn x, cout, th x, tw x)"
    using 1(2) by (simp add: shape_F_relu)
  obtain y3 where 3: "BatchNorm2d_forward training (BatchNorm2d_init w2 cout) (F_relu y1) = Inr y3"
      "shape y3 = (tn x, cout, th x, tw x)"
    using BatchNorm2d_forward_shape [of "F_relu y1" cout training w2] s2 assms(4)
    by (auto simp: shape_eq_iff)
  show ?thesis
    using 1 3 by (simp add: and_then_simps shape_Dropout2d)
qed

lemma Sequential_forward_append:
  "Sequential_forward training (ls @ ms) x =
   and_then (Sequential_forward training ls x) (Sequential_forward training ms)"
proof (induction ls arbitrary: x)
  case Nil
  show ?case by (simp add: and_then_simps)
next
  case (Cons l ls)
  show ?case
    by (cases "layer_forward training l x") (simp_all add: and_then_simps Cons)
qed

lemma dcanConv_forward_shape:
  assumes "tc x = cin" "1 \<le> th x" "1 \<le> tw x" "training \<longrightarrow> tn x * th x * tw x \<noteq> 1"
    and "1 \<le> cin" "1 \<le> cout"
  shows "\<exists>y. dcanConv_forward training (dcanConv_init ws cin cout r) x = Inr y
          \<and> shape y = (tn x, cout, th x, tw x)"
  using conv_relu_bn_drop_shape [OF assms]
  by (simp only: dcanConv_forward_def dcanConv_init_def Let_def dcanConv.select_convs)

lemma dcanDeConv_forward_shape:
  assumes "tc x = cin" "1 \<le> th x" "1 \<le> tw x" "2 \<le> k" "1 \<le> cout"
  shows "\<exists>y. dcanDeConv_forward training (dcanDeConv_init ws cin cout k r) x = Inr y
          \<and> shape y = (tn x, cout, k * th x, k * tw x)"
proof -
  have k1: "1 \<le> k" using assms(4) by simp
  obtain u where u: "ConvTranspose2d_forward
        (ConvTranspose2d_init (sub ws (Attr ''upscaling'')) cin cout k k) x = Inr u"
      "shape u = (tn x, cout, k * th x, k * tw x)"
    using ConvTranspose2d_forward_shape [OF assms(1) k1 assms(2,3)] by auto
  have "2 * 1 \<le> k * th x" "2 * 1 \<le> k * tw x"
    using assms(2,3,4) by (intro mult_le_mono; simp)+
  then have big: "2 \<le> th u" "2 \<le> tw u"
    using u(2) by (simp_all add: shape_eq_iff)
  have ne: "training \<longrightarrow> tn u * th u * tw u \<noteq> 1"
    using mult3_ne_1 [OF big(1)] by blast
  obtain y where y: "dcanConv_forward training
        (dcanConv_init (sub ws (Attr ''conv'')) cout cout r) u = Inr y"
      "shape y = (tn x, cout, k * th x, k * tw x)"
    using dcanConv_forward_shape [of u cout training cout "sub ws (Attr ''conv'')" r] u(2) big ne
      assms(5)
    by (auto simp: shape_eq_iff)
  show ?thesis
    using u y by (simp add: dcanDeConv_forward_def dcanDeConv_init_def and_then_simps)
qed

lemma tensor_add_shape:
  assumes "shape a = s" "shape b = s"
  shows "\<exists>y. tensor_add a b = Inr y \<and> shape y = s"
proof -
  have "tn b = tn a" "tc b = tc a" "th b = th a" "tw b = tw a"
    using assms by (auto simp: shape_def)
  then show ?thesis
    using assms(1) by (simp add: tensor_add_def broadcast_dim_def shape_def)
qed

lemma DCAN_logits_shape:
  assumes "tc x = n_channels" "th x = 32 * a" "tw x = 32 * b" "1 \<le> a" "1 \<le> b"
    and "training \<longrightarrow> tn x * a * b \<noteq> 1"
    and "1 \<le> n_channels" "1 \<le> n_classes"
  shows "\<exists>s c. DCAN_logits training (DCAN_init ws n_channels n_classes) x = Inr (s, c)
          \<and> shape s = (tn x, n_classes, 32 * a, 32 * b)
          \<and> shape c = (tn x, n_classes, 32 * a, 32 * b)"
proof -
  have ne: "training \<longrightarrow> n * (k * a) * w \<noteq> 1" if "2 \<le> k" for n k w :: nat
  proof -
    have "2 * 1 \<le> k * a" using that assms(4) by (intro mult_le_mono; simp)
    then show ?thesis using mult3_ne_1 [of "k * a" n w] by simp
  qed
  have pos: "1 \<le> k * a" "1 \<le> k * b" "2 \<le> 2 * (k * a)" "2 \<le> 2 * (k * b)" if "1 \<le> k" for k :: nat
    using that assms(4,5) by (simp_all add: Suc_le_eq)
  obtain c1 where c1: "dcanConv_forward training (dcanConv_init (sub ws (Attr ''conv1'')) n_channels 64 0.2) x = Inr c1"
      "shape c1 = (tn x, 64, 32 * a, 32 * b)"
    using dcanConv_forward_shape [of x n_channels training 64 "sub ws (Attr ''conv1'')" "0.2"]
      assms(1-3,7) pos [of 32] ne [of 32 "tn x" "32 * b"] by auto
  obtain p1 where p1: "MaxPool2d_forward (MaxPool2d_init 2 2) c1 = Inr p1"
      "shape p1 = (tn x, 64, 16 * a, 16 * b)"
    using MaxPool2d_forward_shape [of c1] c1(2) pos [of 16] by (auto simp: shape_eq_iff)
  obtain c2 where c2: "dcanConv_forward training (dcanConv_init (sub ws (Attr ''conv2'')) 64 128 0.2) p1 = Inr c2"
      "shape c2 = (tn x, 128, 16 * a, 16 * b)"
    using dcanConv_forward_shape [of p1 64 training 128 "sub ws (Attr ''conv2'')" "0.2"]
      p1(2) pos [of 16] ne [of 16 "tn x" "16 * b"] by (auto simp: shape_eq_iff)
  obtain p2 where p2: "MaxPool2d_forward (MaxPool2d_init 2 2) c2 = Inr p2"
      "shape p2 = (tn x, 128, 8 * a, 8 * b)"
    using MaxPool2d_forward_shape [of c2] c2(2) pos [of 8] by (auto simp: shape_eq_iff)
  obtain c3 where c3: "dcanConv_forward training (dcanConv_init (sub ws (Attr ''conv3'')) 128 256 0.2) p2 = Inr c3"
      "shape c3 = (tn x, 256, 8 * a, 8 * b)"
    using dcanConv_forward_shape [of p2 128 training 256 "sub ws (Attr ''conv3'')" "0.2"]
      p2(2) pos [of 8] ne [of 8 "tn x" "8 * b"] by (auto simp: shape_eq_iff)
  obtain p3 where p3: "MaxPool2d_forward (MaxPool2d_init 2 2) c3 = Inr p3"
      "shape p3 = (tn x, 256, 4 * a, 4 * b)"
    using MaxPool2d_forward_shape [of c3] c3(2) pos [of 4] by (auto simp: shape_eq_iff)
  obtain c4 where c4: "dcanConv_forward training (dcanConv_init (sub ws (Attr ''conv4'')) 256 512 0.2) p3 = Inr c4"
      "shape c4 = (tn x, 512, 4 * a, 4 * b)"
    using dcanConv_forward_shape [of p3 256 training 512 "sub ws (Attr ''conv4'')" "0.2"]
      p3(2) pos [of 4] ne [of 4 "tn x" "4 * b"] by (auto simp: shape_eq_iff)
  obtain u3s where u3s: "dcanDeConv_forward training (dcanDeConv_init (sub ws (Attr ''deconv3s'')) 512 n_classes 8 0.2) c4 = Inr u3s"
      "shape u3s = (tn x, n_classes, 32 * a, 32 * b)"
    using dcanDeConv_forward_shape [of c4 512 8 n_classes training "sub ws (Attr ''deconv3s'')" "0.2"]
      c4(2) pos [of 4] assms(8) by (auto simp: shape_eq_iff)
  obtain u3c where u3c: "dcanDeConv_forward training (dcanDeConv_init (sub ws (Attr ''deconv3c'')) 512 n_classes 8 0.2) c4 = Inr u3c"
      "shape u3c = (tn x, n_classes, 32 * a, 32 * b)"
    using dcanDeConv_forward_shape [of c4 512 8 n_classes training "sub ws (Attr ''deconv3c'')" "0.2"]
      c4(2) pos [of 4] assms(8) by (auto simp: shape_eq_iff)
  obtain p4 where p4: "MaxPool2d_forward (MaxPool2d_init 2 2) c4 = Inr p4"
      "shape p4 = (tn x, 512, 2 * a, 2 * b)"
    using MaxPool2d_forward_shape [of c4] c4(2) pos [of 2] by (auto simp: shape_eq_iff)
  obtain c5 where c5: "dcanConv_forward training (dcanConv_init (sub ws (Attr ''conv5'')) 512 512 0.2) p4 = Inr c5"
      "shape c5 = (tn x, 512, 2 * a, 2 * b)"
    using dcanConv_forward_shape [of p4 512 training 512 "sub ws (Attr ''conv5'')" "0.2"]
      p4(2) pos [of 2] ne [of 2 "tn x" "2 * b"] by (auto simp: shape_eq_iff)
  obtain u2s where u2s: "dcanDeConv_forward training (dcanDeConv_init (sub ws (Attr ''deconv2s'')) 512 n_classes 16 0.2) c5 = Inr u2s"
      "shape u2s = (tn x, n_classes, 32 * a, 32 * b)"
    using dcanDeConv_forward_shape [of c5 512 16 n_classes training "sub ws (Attr ''deconv2s'')" "0.2"]
      c5(2) pos [of 2] assms(8) by (auto simp: shape_eq_iff)
  obtain u2c where u2c: "dcanDeConv_forward training (dcanDeConv_init (sub ws (Attr ''deconv2c'')) 512 n_classes 16 0.2) c5 = Inr u2c"
      "shape u2c = (tn x, n_classes, 32 * a, 32 * b)"
    using dcanDeConv_forward_shape [of c5 512 16 n_classes training "sub ws (Attr ''deconv2c'')" "0.2"]
      c5(2) pos [of 2] assms(8) by (auto simp: shape_eq_iff)
  obtain p5 where p5: "MaxPool2d_forward (MaxPool2d_init 2 2) c5 = Inr p5"
      "shape p5 = (tn x, 512, a, b)"
    using MaxPool2d_forward_shape [of c5] c5(2) pos [of 1] by (auto simp: shape_eq_iff)
  obtain c6 where c6: "dcanConv_forward training (dcanConv_init (sub ws (Attr ''conv6'')) 512 1024 0.2) p5 = Inr c6"
      "shape c6 = (tn x, 1024, a, b)"
    using dcanConv_forward_shape [of p5 512 training 1024 "sub ws (Attr ''conv6'')" "0.2"]
      p5(2) assms(4-6) by (auto simp: shape_eq_iff)
  obtain u1s where u1s: "dcanDeConv_forward training (dcanDeConv_init (sub ws (Attr ''deconv1s'')) 1024 n_classes 32 0.2) c6 = Inr u1s"
      "shape u1s = (tn x, n_classes, 32 * a, 32 * b)"
    using dcanDeConv_forward_shape [of c6 1024 32 n_classes training "sub ws (Attr ''deconv1s'')" "0.2"]
      c6(2) assms(4,5,8) by (auto simp: shape_eq_iff)
  obtain u1c where u1c: "dcanDeConv_forward training (dcanDeConv_init (sub ws (Attr ''deconv1c'')) 1024 n_classes 32 0.2) c6 = Inr u1c"
      "shape u1c = (tn x, n_classes, 32 * a, 32 * b)"
    using dcanDeConv_forward_shape [of c6 1024 32 n_classes training "sub ws (Attr ''deconv1c'')" "0.2"]
      c6(2) assms(4,5,8) by (auto simp: shape_eq_iff)
  obtain s1 where s1: "tensor_add u1s u2s = Inr s1" "shape s1 = (tn x, n_classes, 32 * a, 32 * b)"
    using tensor_add_shape [OF u1s(2) u2s(2)] by auto
  obtain s where s: "tensor_add s1 u3s = Inr s" "shape s = (tn x, n_classes, 32 * a, 32 * b)"
    using tensor_add_shape [OF s1(2) u3s(2)] by auto
  obtain t1 where t1: "tensor_add u1c u2c = Inr t1" "shape t1 = (tn x, n_classes, 32 * a, 32 * b)"
    using tensor_add_shape [OF u1c(2) u2c(2)] by auto
  obtain t where t: "tensor_add t1 u3c = Inr t" "shape t = (tn x, n_classes, 32 * a, 32 * b)"
    using tensor_add_shape [OF t1(2) u3c(2)] by auto
  have "DCAN_logits training (DCAN_init ws n_channels n_classes) x = Inr (s, t)"
    by (simp only: DCAN_logits_def DCAN_init_def DCAN.select_convs and_then_simps
        c1(1) p1(1) c2(1) p2(1) c3(1) p3(1) c4(1) u3s(1) u3c(1) p4(1) c5(1) u2s(1) u2c(1)
        p5(1) c6(1) u1s(1) u1c(1) s1(1) s(1) t1(1) t(1))
  then show ?thesis
    using s(2) t(2) by simp
qed

lemma DCAN_forward_shape:
  assumes "tc x = n_channels" "th x = 32 * a" "tw x = 32 * b" "1 \<le> a" "1 \<le> b"
    and "training \<longrightarrow> tn x * a * b \<noteq> 1"
    and "1 \<le> n_channels" "1 \<le> n_classes"
  shows "\<exists>ys yc. DCAN_forward training (DCAN_init ws n_channels n_classes) x = Inr (ys, yc)
          \<and> shape ys = (tn x, n_classes, 32 * a, 32 * b)
          \<and> shape yc = (tn x, n_classes, 32 * a, 32 * b)"
  using DCAN_logits_shape [OF assms, of ws]
  by (auto simp: DCAN_forward_def and_then_simps shape_F_sigmoid)

lemma layer_forward_freeze: "layer_forward training (layer_freeze l) x = layer_forward training l x"
  by (cases l) (simp_all add: Conv2d_forward_def BatchNorm2d_forward_def Let_def)

lemma vgg16_bn_features:
  "vgg_features (vgg16_bn w) =
     [Conv2d_layer (Conv2d_init (sub (sub w (Attr ''features'')) (Idx 0)) 3 64 3 1 1),
      BatchNorm2d_layer (BatchNorm2d_init (sub (sub w (Attr ''features'')) (Idx 1)) 64),
      ReLU_layer,
      Conv2d_layer (Conv2d_init (sub (sub w (Attr ''features'')) (Idx 3)) 64 64 3 1 1),
      BatchNorm2d_layer (BatchNorm2d_init (sub (sub w (Attr ''features'')) (Idx 4)) 64),
      ReLU_layer,
      MaxPool2d_layer (MaxPool2d_init 2 2),
      Conv2d_layer (Conv2d_init (sub (sub w (Attr ''features'')) (Idx 7)) 64 128 3 1 1),
      BatchNorm2d_layer (BatchNorm2d_init (sub (sub w (Attr ''features'')) (Idx 8)) 128),
      ReLU_layer,
      Conv2d_layer (Conv2d_init (sub (sub w (Attr ''features'')) (Idx 10)) 128 128 3 1 1),
      BatchNorm2d_layer (BatchNorm2d_init (sub (sub w (Attr ''features'')) (Idx 11)) 128),
      ReLU_layer,
      MaxPool2d_layer (MaxPool2d_init 2 2),
      Conv2d_layer (Conv2d_init (sub (sub w (Attr ''features'')) (Idx 14)) 128 256 3 1 1),
      BatchNorm2d_layer (BatchNorm2d_init (sub (sub w (Attr ''features'')) (Idx 15)) 256),
      ReLU_layer,
      Conv2d_layer (Conv2d_init (sub (sub w (Attr ''features'')) (Idx 17)) 256 256 3 1 1),
      BatchNorm2d_layer (BatchNorm2d_init (sub (sub w (Attr ''features'')) (Idx 18)) 256),
      ReLU_layer,
      Conv2d_layer (Conv2d_init (sub (sub w (Attr ''features'')) (Idx 20)) 256 256 3 1 1),
      BatchNorm2d_layer (BatchNorm2d_init (sub (sub w (Attr ''features'')) (Idx 21)) 256),
      ReLU_layer,
      MaxPool2d_layer (MaxPool2d_init 2 2),
      Conv2d_layer (Conv2d_init (sub (sub w (Attr ''features'')) (Idx 24)) 256 512 3 1 1),
      BatchNorm2d_layer (BatchNorm2d_init (sub (sub w (Attr ''features'')) (Idx 25)) 512),
      ReLU_layer,
      Conv2d_layer (Conv2d_init (sub (sub w (Attr ''features'')) (Idx 27)) 512 512 3 1 1),
      BatchNorm2d_layer (BatchNorm2d_init (sub (sub w (Attr ''features'')) (Idx 28)) 512),
      ReLU_layer,
      Conv2d_layer (Conv2d_init (sub (sub w (Attr ''features'')) (Idx 30)) 512 512 3 1 1),
      BatchNorm2d_layer (BatchNorm2d_init (sub (sub w (Attr ''features'')) (Idx 31)) 512),
      ReLU_layer,
      MaxPool2d_layer (MaxPool2d_init 2 2),
      Conv2d_layer (Conv2d_init (sub (sub w (Attr ''features'')) (Idx 34)) 512 512 3 1 1),
      BatchNorm2d_layer (BatchNorm2d_init (sub (sub w (Attr ''features'')) (Idx 35)) 512),
      ReLU_layer,
      Conv2d_layer (Conv2d_init (sub (sub w (Attr ''features'')) (Idx 37)) 512 512 3 1 1),
      BatchNorm2d_layer (BatchNorm2d_init (sub (sub w (Attr ''features'')) (Idx 38)) 512),
      ReLU_layer,
      Conv2d_layer (Conv2d_init (sub (sub w (Attr ''features'')) (Idx 40)) 512 512 3 1 1),
      BatchNorm2d_layer (BatchNorm2d_init (sub (sub w (Attr ''features'')) (Idx 41)) 512),
      ReLU_layer,
      MaxPool2d_layer (MaxPool2d_init 2 2)]"
  by (simp add: vgg16_bn_def cfg_D_def)

lemma vgg16_bn_length: "length (vgg_features (vgg16_bn ws)) = 44"
  by (simp add: vgg16_bn_def cfg_D_def)

lemma feature_init:
  assumes "i < 44"
  shows "layer_forward training (feature (UNetVgg16_init ws n_channels n_classes fixed_vgg) i) x =
         layer_forward training (vgg_features (vgg16_bn (sub ws (Attr ''vgg16''))) ! i) x"
  using assms
  by (cases fixed_vgg)
     (simp_all add: feature_def UNetVgg16_init_def Let_def VGG_freeze_def vgg16_bn_length
        layer_forward_freeze)

lemma stage_shape:
  assumes "i < 44" "j < 44"
    and "vgg_features (vgg16_bn (sub ws (Attr ''vgg16''))) ! i = Conv2d_layer (Conv2d_init w1 cin cout 3 1 1)"
    and "vgg_features (vgg16_bn (sub ws (Attr ''vgg16''))) ! j = BatchNorm2d_layer (BatchNorm2d_init w2 cout)"
    and "shape x = (n, cin, h, w)" "1 \<le> h" "1 \<le> w" "training \<longrightarrow> n * h * w \<noteq> 1"
    and "1 \<le> cin" "1 \<le> cout"
  shows "\<exists>y. conv_bn_relu training
            (feature (UNetVgg16_init ws n_channels n_classes fixed_vgg) i)
            (feature (UNetVgg16_init ws n_channels n_classes fixed_vgg) j) x = Inr y
          \<and> shape y = (n, cout, h, w)"
proof -
  obtain y1 where 1: "Conv2d_forward (Conv2d_init w1 cin cout 3 1 1) x = Inr y1"
      "shape y1 = (n, cout, h, w)"
    using Conv2d_3x3_shape [of x cin cout w1] assms(5-7,9,10) by (auto simp: shape_eq_iff)
  obtain y2 where 2: "BatchNorm2d_forward training (BatchNorm2d_init w2 cout) y1 = Inr y2"
      "shape y2 = (n, cout, h, w)"
    using BatchNorm2d_forward_shape [of y1 cout training w2] 1(2) assms(8)
    by (auto simp: shape_eq_iff)
  show ?thesis
    using 1 2 assms(3,4)
    by (simp add: conv_bn_relu_def feature_init [OF assms(1)] feature_init [OF assms(2)]
        and_then_simps shape_F_relu)
qed

lemma F_pad_zero: "\<exists>y. F_pad x (0, 0, 0, 0) = Inr y \<and> shape y = shape x"
  by (simp add: F_pad_def shape_def)

lemma DeConvBlk_forward_shape:
  assumes "shape x1 = (n, cin, h, w)" "shape x2 = (n, cout, 2 * h, 2 * w)" "1 \<le> h" "1 \<le> w"
    and "1 \<le> cout"
  shows "\<exists>y. DeConvBlk_forward training (DeConvBlk_init ws cin cout r) x1 x2 = Inr y
          \<and> shape y = (n, cout, 2 * h, 2 * w)"
proof -
  obtain u where u: "ConvTranspose2d_forward
        (ConvTranspose2d_init (sub ws (Attr ''upscaling'')) cin (cin div 2) 2 2) x1 = Inr u"
      "shape u = (n, cin div 2, 2 * h, 2 * w)"
    using ConvTranspose2d_forward_shape [of x1 cin 2 "sub ws (Attr ''upscaling'')" "cin div 2"] assms
    by (auto simp: shape_eq_iff)
  have diff: "int (th u) - int (th x2) = 0" "int (tw u) - int (tw x2) = 0"
    using u(2) assms(2) by (simp_all add: shape_eq_iff)
  obtain x2' where pad: "F_pad x2 (0, 0, 0, 0) = Inr x2'" "shape x2' = (n, cout, 2 * h, 2 * w)"
    using F_pad_zero [of x2] assms(2) by auto
  obtain c where c: "torch_cat1 u x2' = Inr c" "shape c = (n, cin div 2 + cout, 2 * h, 2 * w)"
    using torch_cat1_shape [of u x2'] u(2) pad(2) by (auto simp: shape_eq_iff)
  have big: "2 \<le> 2 * h" "1 \<le> 2 * h" "1 \<le> 2 * w" using assms(3,4) by simp_all
  have ne: "training \<longrightarrow> n * (2 * h) * (2 * w) \<noteq> 1"
    using mult3_ne_1 [OF big(1)] by blast
  let ?cs = "sub ws (Attr ''convs'')"
  obtain y1 where 1: "Sequential_forward training
        [Conv2d_layer (Conv2d_init (sub ?cs (Idx 0)) (cin div 2 + cout) cout 3 1 1), ReLU_layer,
         BatchNorm2d_layer (BatchNorm2d_init (sub ?cs (Idx 2)) cout),
         Dropout2d_layer (Dropout2d_init (sub ?cs (Idx 3)) r)] c = Inr y1"
      "shape y1 = (n, cout, 2 * h, 2 * w)"
    using conv_relu_bn_drop_shape [of c "cin div 2 + cout" training cout "sub ?cs (Idx 0)"
        "sub ?cs (Idx 2)" "sub ?cs (Idx 3)" r] c(2) big ne assms(5)
    by (auto simp: shape_eq_iff)
  obtain y2 where 2: "Sequential_forward training
        [Conv2d_layer (Conv2d_init (sub ?cs (Idx 4)) cout cout 3 1 1), ReLU_layer,
         BatchNorm2d_layer (BatchNorm2d_init (sub ?cs (Idx 6)) cout),
         Dropout2d_layer (Dropout2d_init (sub ?cs (Idx 7)) r)] y1 = Inr y2"
      "shape y2 = (n, cout, 2 * h, 2 * w)"
    using conv_relu_bn_drop_shape [of y1 cout training cout "sub ?cs (Idx 4)"
        "sub ?cs (Idx 6)" "sub ?cs (Idx 7)" r] 1(2) big ne assms(5)
    by (auto simp: shape_eq_iff)
  have seq: "Sequential_forward training (dcv_convs (DeConvBlk_init ws cin cout r)) c = Inr y2"
    using Sequential_forward_append [of training
        "[Conv2d_layer (Conv2d_init (sub ?cs (Idx 0)) (cin div 2 + cout) cout 3 1 1), ReLU_layer,
         BatchNorm2d_layer (BatchNorm2d_init (sub ?cs (Idx 2)) cout),
         Dropout2d_layer (Dropout2d_init (sub ?cs (Idx 3)) r)]"
        "[Conv2d_layer (Conv2d_init (sub ?cs (Idx 4)) cout cout 3 1 1), ReLU_layer,
         BatchNorm2d_layer (BatchNorm2d_init (sub ?cs (Idx 6)) cout),
         Dropout2d_layer (Dropout2d_init (sub ?cs (Idx 7)) r)]" c]
    by (simp only: DeConvBlk_init_def Let_def DeConvBlk.select_convs append_Cons append_Nil
        1(1) 2(1) and_then_simps)
  have up: "dcv_upscaling (DeConvBlk_init ws cin cout r) =
      ConvTranspose2d_init (sub ws (Attr ''upscaling'')) cin (cin div 2) 2 2"
    by (simp add: DeConvBlk_init_def Let_def)
  have "DeConvBlk_forward training (DeConvBlk_init ws cin cout r) x1 x2 = Inr y2"
    by (simp add: DeConvBlk_forward_def up u(1) and_then_simps Let_def diff int_half_def
        pad(1) c(1) seq)
  then show ?thesis
    using 2(2) by simp
qed

lemma UNetVgg16_forward_shape:
  assumes "tc x = 3" "th x = 16 * a" "tw x = 16 * b" "1 \<le> a" "1 \<le> b"
    and "training \<longrightarrow> tn x * a * b \<noteq> 1"
    and "1 \<le> n_classes"
  shows "\<exists>y. UNetVgg16_forward training (UNetVgg16_init ws n_channels n_classes fixed_vgg) x = Inr y
          \<and> shape y = (tn x, n_classes, 16 * a, 16 * b)"
proof -
  let ?m = "UNetVgg16_init ws n_channels n_classes fixed_vgg"
  let ?F = "vgg_features (vgg16_bn (sub ws (Attr ''vgg16'')))"
  have fields:
    "uv_maxpool ?m = MaxPool2d_init 2 2"
    "uv_deconv1 ?m = DeConvBlk_init (sub ws (Attr ''deconv1'')) 512 512 0.2"
    "uv_deconv2 ?m = DeConvBlk_init (sub ws (Attr ''deconv2'')) 512 256 0.2"
    "uv_deconv3 ?m = DeConvBlk_init (sub ws (Attr ''deconv3'')) 256 128 0.2"
    "uv_deconv4 ?m = DeConvBlk_init (sub ws (Attr ''deconv4'')) 128 64 0.2"
    "uv_outc ?m = outConv_init (sub ws (Attr ''outc'')) 64 n_classes"
    by (simp_all add: UNetVgg16_init_def Let_def)
  have ne: "training \<longrightarrow> n * (k * a) * w \<noteq> 1" if "2 \<le> k" for n k w :: nat
  proof -
    have "2 * 1 \<le> k * a" using that assms(4) by (intro mult_le_mono; simp)
    then show ?thesis using mult3_ne_1 [of "k * a" n w] by simp
  qed
  have pos: "1 \<le> k * a" "1 \<le> k * b" "2 \<le> 2 * (k * a)" "2 \<le> 2 * (k * b)" if "1 \<le> k" for k :: nat
    using that assms(4,5) by (simp_all add: Suc_le_eq)
  have x: "shape x = (tn x, 3, 16 * a, 16 * b)"
    using assms(1-3) by (simp add: shape_def)
  obtain t1 where t1: "conv_bn_relu training (feature ?m 0) (feature ?m 1) x = Inr t1"
      "shape t1 = (tn x, 64, 16 * a, 16 * b)"
    using stage_shape [of 0 1 ws _ 3 64 _ x "tn x" "16 * a" "16 * b" training n_channels n_classes fixed_vgg]
      x(1) pos [of 16] ne [of 16 "tn x" "16 * b"] by (auto simp: vgg16_bn_features)
  obtain x1 where x1: "conv_bn_relu training (feature ?m 3) (feature ?m 4) t1 = Inr x1"
      "shape x1 = (tn x, 64, 16 * a, 16 * b)"
    using stage_shape [of 3 4 ws _ 64 64 _ t1 "tn x" "16 * a" "16 * b" training n_channels n_classes fixed_vgg]
      t1(2) pos [of 16] ne [of 16 "tn x" "16 * b"] by (auto simp: vgg16_bn_features)
  obtain q1 where q1: "MaxPool2d_forward (uv_maxpool ?m) x1 = Inr q1"
      "shape q1 = (tn x, 64, 8 * a, 8 * b)"
    using MaxPool2d_forward_shape [of x1] x1(2) pos [of 8] by (auto simp: shape_eq_iff fields)
  obtain t2 where t2: "conv_bn_relu training (feature ?m 7) (feature ?m 8) q1 = Inr t2"
      "shape t2 = (tn x, 128, 8 * a, 8 * b)"
    using stage_shape [of 7 8 ws _ 64 128 _ q1 "tn x" "8 * a" "8 * b" training n_channels n_classes fixed_vgg]
      q1(2) pos [of 8] ne [of 8 "tn x" "8 * b"] by (auto simp: vgg16_bn_features)
  obtain x2 where x2: "conv_bn_relu training (feature ?m 10) (feature ?m 11) t2 = Inr x2"
      "shape x2 = (tn x, 128, 8 * a, 8 * b)"
    using stage_shape [of 10 11 ws _ 128 128 _ t2 "tn x" "8 * a" "8 * b" training n_channels n_classes fixed_vgg]
      t2(2) pos [of 8] ne [of 8 "tn x" "8 * b"] by (auto simp: vgg16_bn_features)
  obtain q2 where q2: "MaxPool2d_forward (uv_maxpool ?m) x2 = Inr q2"
      "shape q2 = (tn x, 128, 4 * a, 4 * b)"
    using MaxPool2d_forward_shape [of x2] x2(2) pos [of 4] by (auto simp: shape_eq_iff fields)
  obtain t3 where t3: "conv_bn_relu training (feature ?m 14) (feature ?m 15) q2 = Inr t3"
      "shape t3 = (tn x, 256, 4 * a, 4 * b)"
    using stage_shape [of 14 15 ws _ 128 256 _ q2 "tn x" "4 * a" "4 * b" training n_channels n_classes fixed_vgg]
      q2(2) pos [of 4] ne [of 4 "tn x" "4 * b"] by (auto simp: vgg16_bn_features)
  obtain t4 where t4: "conv_bn_relu training (feature ?m 17) (feature ?m 18) t3 = Inr t4"
      "shape t4 = (tn x, 256, 4 * a, 4 * b)"
    using stage_shape [of 17 18 ws _ 256 256 _ t3 "tn x" "4 * a" "4 * b" training n_channels n_classes fixed_vgg]
      t3(2) pos [of 4] ne [of 4 "tn x" "4 * b"] by (auto simp: vgg16_bn_features)
  obtain x3 where x3: "conv_bn_relu training (feature ?m 20) (feature ?m 21) t4 = Inr x3"
      "shape x3 = (tn x, 256, 4 * a, 4 * b)"
    using stage_shape [of 20 21 ws _ 256 256 _ t4 "tn x" "4 * a" "4 * b" training n_channels n_classes fixed_vgg]
      t4(2) pos [of 4] ne [of 4 "tn x" "4 * b"] by (auto simp: vgg16_bn_features)
  obtain q3 where q3: "MaxPool2d_forward (uv_maxpool ?m) x3 = Inr q3"
      "shape q3 = (tn x, 256, 2 * a, 2 * b)"
    using MaxPool2d_forward_shape [of x3] x3(2) pos [of 2] by (auto simp: shape_eq_iff fields)
  obtain t5 where t5: "conv_bn_relu training (feature ?m 24) (feature ?m 25) q3 = Inr t5"
      "shape t5 = (tn x, 512, 2 * a, 2 * b)"
    using stage_shape [of 24 25 ws _ 256 512 _ q3 "tn x" "2 * a" "2 * b" training n_channels n_classes fixed_vgg]
      q3(2) pos [of 2] ne [of 2 "tn x" "2 * b"] by (auto simp: vgg16_bn_features)
  obtain t6 where t6: "conv_bn_relu training (feature ?m 27) (feature ?m 28) t5 = Inr t6"
      "shape t6 = (tn x, 512, 2 * a, 2 * b)"
    using stage_shape [of 27 28 ws _ 512 512 _ t5 "tn x" "2 * a" "2 * b" training n_channels n_classes fixed_vgg]
      t5(2) pos [of 2] ne [of 2 "tn x" "2 * b"] by (auto simp: vgg16_bn_features)
  obtain x4 where x4: "conv_bn_relu training (feature ?m 30) (feature ?m 31) t6 = Inr x4"
      "shape x4 = (tn x, 512, 2 * a, 2 * b)"
    using stage_shape [of 30 31 ws _ 512 512 _ t6 "tn x" "2 * a" "2 * b" training n_channels n_classes fixed_vgg]
      t6(2) pos [of 2] ne [of 2 "tn x" "2 * b"] by (auto simp: vgg16_bn_features)
  obtain q4 where q4: "MaxPool2d_forward (uv_maxpool ?m) x4 = Inr q4"
      "shape q4 = (tn x, 512, a, b)"
    using MaxPool2d_forward_shape [of x4] x4(2) pos [of 1] by (auto simp: shape_eq_iff fields)
  obtain t7 where t7: "conv_bn_relu training (feature ?m 34) (feature ?m 35) q4 = Inr t7"
      "shape t7 = (tn x, 512, a, b)"
    using stage_shape [of 34 35 ws _ 512 512 _ q4 "tn x" "a" "b" training n_channels n_classes fixed_vgg]
      q4(2)  assms(4-6) by (auto simp: vgg16_bn_features)
  obtain t8 where t8: "conv_bn_relu training (feature ?m 37) (feature ?m 38) t7 = Inr t8"
      "shape t8 = (tn x, 512, a, b)"
    using stage_shape [of 37 38 ws _ 512 512 _ t7 "tn x" "a" "b" training n_channels n_classes fixed_vgg]
      t7(2)  assms(4-6) by (auto simp: vgg16_bn_features)
  obtain x5 where x5: "conv_bn_relu training (feature ?m 40) (feature ?m 41) t8 = Inr x5"
      "shape x5 = (tn x, 512, a, b)"
    using stage_shape [of 40 41 ws _ 512 512 _ t8 "tn x" "a" "b" training n_channels n_classes fixed_vgg]
      t8(2)  assms(4-6) by (auto simp: vgg16_bn_features)
  obtain u1 where u1: "DeConvBlk_forward training (uv_deconv1 ?m) x5 x4 = Inr u1"
      "shape u1 = (tn x, 512, 2 * a, 2 * b)"
    using DeConvBlk_forward_shape [where ?x1.0 = x5 and ?x2.0 = x4 and n = "tn x" and cin = 512 and
        cout = 512 and h = "a" and w = "b" and training = training and
        ws = "sub ws (Attr ''deconv1'')" and r = "0.2"]
      x5(2) x4(2) assms(4,5) by (auto simp: shape_eq_iff fields)
  obtain u2 where u2: "DeConvBlk_forward training (uv_deconv2 ?m) u1 x3 = Inr u2"
      "shape u2 = (tn x, 256, 4 * a, 4 * b)"
    using DeConvBlk_forward_shape [where ?x1.0 = u1 and ?x2.0 = x3 and n = "tn x" and cin = 512 and
        cout = 256 and h = "2 * a" and w = "2 * b" and training = training and
        ws = "sub ws (Attr ''deconv2'')" and r = "0.2"]
      u1(2) x3(2) pos [of 2] by (auto simp: shape_eq_iff fields)
  obtain u3 where u3: "DeConvBlk_forward training (uv_deconv3 ?m) u2 x2 = Inr u3"
      "shape u3 = (tn x, 128, 8 * a, 8 * b)"
    using DeConvBlk_forward_shape [where ?x1.0 = u2 and ?x2.0 = x2 and n = "tn x" and cin = 256 and
        cout = 128 and h = "4 * a" and w = "4 * b" and training = training and
        ws = "sub ws (Attr ''deconv3'')" and r = "0.2"]
      u2(2) x2(2) pos [of 4] by (auto simp: shape_eq_iff fields)
  obtain u4 where u4: "DeConvBlk_forward training (uv_deconv4 ?m) u3 x1 = Inr u4"
      "shape u4 = (tn x, 64, 16 * a, 16 * b)"
    using DeConvBlk_forward_shape [where ?x1.0 = u3 and ?x2.0 = x1 and n = "tn x" and cin = 128 and
        cout = 64 and h = "8 * a" and w = "8 * b" and training = training and
        ws = "sub ws (Attr ''deconv4'')" and r = "0.2"]
      u3(2) x1(2) pos [of 8] by (auto simp: shape_eq_iff fields)
  obtain y where y: "outConv_forward (uv_outc ?m) u4 = Inr y"
      "shape y = (tn x, n_classes, 16 * a, 16 * b)"
    using Conv2d_1x1_shape [of u4 64 n_classes "sub (sub ws (Attr ''outc'')) (Attr ''conv'')"]
      u4(2) pos [of 16] assms(7)
    by (auto simp: shape_eq_iff fields outConv_forward_def outConv_init_def)
  have "UNetVgg16_forward training ?m x = Inr (F_sigmoid y)"
    by (simp only: UNetVgg16_forward_def and_then_simps
        t1(1) x1(1) q1(1) t2(1) x2(1) q2(1) t3(1) t4(1) x3(1) q3(1) t5(1) t6(1) x4(1) q4(1) t7(1) t8(1) x5(1) u1(1) u2(1) u3(1) u4(1) y(1))
  then show ?thesis
    using y(2) by (simp add: shape_F_sigmoid)
qed

section \<open>What the forward computations return when they return\<close>

lemma ensures_Inr: "P v \<Longrightarrow> ensures (Inr v) P"
  by (simp add: ensures_def)

lemma ensures_and_then:
  assumes "ensures r P" and "\<And>v. P v \<Longrightarrow> ensures (f v) Q"
  shows "ensures (and_then r f) Q"
  using assms by (cases r) (simp_all add: ensures_def and_then_simps)

lemma ensures_then:
  assumes "\<And>v. ensures (f v) Q"
  shows "ensures (and_then r f) Q"
  using assms by (cases r) (simp_all add: ensures_def and_then_simps)

lemma ensuresD: "ensures r P \<Longrightarrow> r = Inr v \<Longrightarrow> P v"
  by (simp add: ensures_def)

lemma ensures_weaken: "ensures r P \<Longrightarrow> (\<And>v. P v \<Longrightarrow> Q v) \<Longrightarrow> ensures r Q"
  by (cases r) (simp_all add: ensures_def)

text \<open>What a block returns when it returns: its output shape is fixed by its
  configuration and the shape of its input.\<close>

lemma DilatedConvBlock_ensures:
  assumes "1 \<le> cin"
  shows "ensures (DilatedConvBlock_forward training (DilatedConvBlock_init ws cin cout 3 r act dil) x)
     (\<lambda>y. shape y = (tn x, cout, th x, tw x))"
  using assms
  by (auto simp: ensures_def DilatedConvBlock_forward_def DilatedConvBlock_init_def
      Conv2d_forward_def Conv2d_init_def BatchNorm2d_forward_def BatchNorm2d_init_def
      Dropout2d_forward_def Dropout2d_init_def map_dat_def and_then_def shape_def Let_def
      split: sum.splits)

lemma ConvTranspose2d_ensures:
  "ensures (ConvTranspose2d_forward (ConvTranspose2d_init ws cin cout 2 2) x)
     (\<lambda>y. shape y = (tn x, cout, 2 * th x, 2 * tw x))"
proof -
  have e: "Suc (Suc ((h - Suc 0) * 2)) = 2 * h" if "0 < h" for h :: nat
    using that by (cases h) simp_all
  show ?thesis
    by (simp add: ensures_def ConvTranspose2d_forward_def ConvTranspose2d_init_def shape_def e)
qed

lemma torch_cat1_ensures:
  "ensures (torch_cat1 a b) (\<lambda>y. shape y = (tn a, tc a + tc b, th a, tw a))"
  by (simp add: ensures_def torch_cat1_def shape_def)

lemma ConvUpBlock_ensures:
  assumes "1 \<le> cin" "1 \<le> cout"
  shows "ensures (ConvUpBlock_forward training (ConvUpBlock_init ws cin cout r dil) x bridge)
     (\<lambda>y. shape y = (tn x, cout, 2 * th x, 2 * tw x))"
  unfolding ConvUpBlock_forward_def ConvUpBlock_init_def ConvUpBlock.select_convs
  apply (rule ensures_and_then [OF ConvTranspose2d_ensures])
  apply (rule ensures_and_then [OF torch_cat1_ensures])
  apply (rule ensures_and_then [OF DilatedConvBlock_ensures [OF assms(1)]])
  apply (rule ensures_weaken [OF DilatedConvBlock_ensures [OF assms(2)]])
  apply (simp add: shape_eq_iff)
  done

lemma branch_ensures:
  assumes "\<And>y. shape y = (tn x, 1, 16 * th x, 16 * tw x) \<Longrightarrow> ensures (K y) Q"
  shows "ensures
     (and_then (ConvUpBlock_forward training (ConvUpBlock_init w5 256 128 r 1) x c4) (\<lambda>v.
      and_then (ConvUpBlock_forward training (ConvUpBlock_init w6 128 64 r 1) v c3) (\<lambda>v.
      and_then (ConvUpBlock_forward training (ConvUpBlock_init w7 64 32 r 1) v c2) (\<lambda>v.
      and_then (ConvUpBlock_forward training (ConvUpBlock_init w8 32 16 r 1) v c1) (\<lambda>v.
      and_then (Conv2d_forward (Conv2d_init w9 16 1 1 0 1) v) K))))) Q"
proof -
  have ce: "ensures (Conv2d_forward (Conv2d_init w9 16 1 1 0 1) v)
      (\<lambda>y. shape y = (tn v, 1, th v, tw v))" for v
    by (simp add: ensures_def Conv2d_forward_def Conv2d_init_def shape_def)
  have u5: "ensures (ConvUpBlock_forward training (ConvUpBlock_init w5 256 128 r 1) v c)
      (\<lambda>y. shape y = (tn v, 128, 2 * th v, 2 * tw v))" for v c
    by (rule ConvUpBlock_ensures) simp_all
  have u6: "ensures (ConvUpBlock_forward training (ConvUpBlock_init w6 128 64 r 1) v c)
      (\<lambda>y. shape y = (tn v, 64, 2 * th v, 2 * tw v))" for v c
    by (rule ConvUpBlock_ensures) simp_all
  have u7: "ensures (ConvUpBlock_forward training (ConvUpBlock_init w7 64 32 r 1) v c)
      (\<lambda>y. shape y = (tn v, 32, 2 * th v, 2 * tw v))" for v c
    by (rule ConvUpBlock_ensures) simp_all
  have u8: "ensures (ConvUpBlock_forward training (ConvUpBlock_init w8 32 16 r 1) v c)
      (\<lambda>y. shape y = (tn v, 16, 2 * th v, 2 * tw v))" for v c
    by (rule ConvUpBlock_ensures) simp_all
  show ?thesis
    apply (rule ensures_and_then [OF u5])
    apply (rule ensures_and_then [OF u6])
    apply (rule ensures_and_then [OF u7])
    apply (rule ensures_and_then [OF u8])
    apply (rule ensures_and_then [OF ce])
    apply (rule assms)
    apply (simp add: shape_eq_iff)
    done
qed

lemma CAUNet_same_shape:
  "ensures (CAUNet_forward training (CAUNet_init ws) x) (\<lambda>(ys, yc). shape ys = shape yc)"
  unfolding CAUNet_forward_def CAUNet_init_def CAUNet.select_convs Let_def
  apply (rule ensures_then, clarify)+
  apply (rule branch_ensures)
  apply (rule branch_ensures)
  apply (rule ensures_Inr)
  apply (simp add: shape_F_sigmoid)
  done

lemma ensures_then_pair:
  assumes "\<And>a b. ensures (f a b) Q"
  shows "ensures (and_then r (\<lambda>(a, b). f a b)) Q"
  using assms by (cases r) (auto simp: ensures_def and_then_simps)

lemma CADUNet_same_shape:
  "ensures (CADUNet_forward training (CADUNet_init ws) x) (\<lambda>(ys, yc). shape ys = shape yc)"
  unfolding CADUNet_forward_def CADUNet_init_def CADUNet.select_convs Let_def
  apply (intro ensures_then_pair)
  apply (rule ensures_then, rule ensures_then, rule ensures_then, rule ensures_then)
  apply (rule branch_ensures)
  apply (rule branch_ensures)
  apply (rule ensures_Inr)
  apply (simp add: shape_F_sigmoid)
  done

lemma CAMUNet_same_shape:
  "ensures (CAMUNet_forward training (CAMUNet_init ws) x)
     (\<lambda>(ys, yc, ym). shape ys = shape yc \<and> shape yc = shape ym)"
  unfolding CAMUNet_forward_def CAMUNet_init_def CAMUNet.select_convs Let_def
  apply (intro ensures_then_pair)
  apply (rule branch_ensures)
  apply (rule branch_ensures)
  apply (rule branch_ensures)
  apply (rule ensures_Inr)
  apply (simp add: shape_F_sigmoid)
  done

lemma CAMDUNet_same_shape:
  "ensures (CAMDUNet_forward training (CAMDUNet_init ws) x)
     (\<lambda>(ys, yc, ym). shape ys = shape yc \<and> shape yc = shape ym)"
  unfolding CAMDUNet_forward_def CAMDUNet_init_def CAMDUNet.select_convs Let_def
  apply (intro ensures_then_pair)
  apply (rule ensures_then, rule ensures_then, rule ensures_then, rule ensures_then)
  apply (rule branch_ensures)
  apply (rule branch_ensures)
  apply (rule branch_ensures)
  apply (rule ensures_Inr)
  apply (simp add: shape_F_sigmoid)
  done

text \<open>Every output head ends in a sigmoid.\<close>

lemma sigmoid_range: "0 \<le> sigmoid v \<and> sigmoid v \<le> 1"
proof -
  have p: "0 < exp (- v)" by simp
  then have q: "0 < 1 + exp (- v)" by (simp add: add_pos_pos)
  have "1 / (1 + exp (- v)) \<le> 1" using p q by (simp add: field_simps)
  moreover have "0 \<le> 1 / (1 + exp (- v))" using q by simp
  ultimately show ?thesis by (simp add: sigmoid_def)
qed

lemma F_sigmoid_unit: "unit_valued (F_sigmoid x)"
  by (simp add: unit_valued_def F_sigmoid_def map_dat_def sigmoid_range)

lemma UNet_unit: "ensures (UNet_forward training m x) unit_valued"
  unfolding UNet_forward_def
  by (intro ensures_then_pair ensures_then ensures_Inr F_sigmoid_unit)

lemma DUNet_unit: "ensures (DUNet_forward training m x) unit_valued"
  unfolding DUNet_forward_def
  by (intro ensures_then_pair ensures_then ensures_Inr F_sigmoid_unit)

lemma CAUNet_unit:
  "ensures (CAUNet_forward training m x) (\<lambda>(ys, yc). unit_valued ys \<and> unit_valued yc)"
  unfolding CAUNet_forward_def Let_def
  by (intro ensures_then_pair ensures_then ensures_Inr) (simp add: F_sigmoid_unit)

lemma CADUNet_unit:
  "ensures (CADUNet_forward training m x) (\<lambda>(ys, yc). unit_valued ys \<and> unit_valued yc)"
  unfolding CADUNet_forward_def Let_def
  by (intro ensures_then_pair ensures_then ensures_Inr) (simp add: F_sigmoid_unit)

lemma CAMUNet_unit:
  "ensures (CAMUNet_forward training m x)
     (\<lambda>(ys, yc, ym). unit_valued ys \<and> unit_valued yc \<and> unit_valued ym)"
  unfolding CAMUNet_forward_def Let_def
  by (intro ensures_then_pair ensures_then ensures_Inr) (simp add: F_sigmoid_unit)

lemma CAMDUNet_unit:
  "ensures (CAMDUNet_forward training m x)
     (\<lambda>(ys, yc, ym). unit_valued ys \<and> unit_valued yc \<and> unit_valued ym)"
  unfolding CAMDUNet_forward_def Let_def
  by (intro ensures_then_pair ensures_then ensures_Inr) (simp add: F_sigmoid_unit)

lemma UNetVgg16_unit: "ensures (UNetVgg16_forward training m x) unit_valued"
  unfolding UNetVgg16_forward_def
  by (intro ensures_then_pair ensures_then ensures_Inr F_sigmoid_unit)

lemma DCAN_unit:
  "ensures (DCAN_forward training m x) (\<lambda>(ys, yc). unit_valued ys \<and> unit_valued yc)"
  unfolding DCAN_forward_def
  by (intro ensures_then_pair ensures_then ensures_Inr) (simp add: F_sigmoid_unit)

lemma forward_unit: "ensures (forward training m x) (list_all unit_valued)"
proof (cases m)
  case (UNetVgg16_model u)
  then show ?thesis
    using UNetVgg16_unit [of training u x]
    by (cases "UNetVgg16_forward training u x") (simp_all add: ensures_def and_then_simps)
next
  case (DCAN_model u)
  then show ?thesis
    using DCAN_unit [of training u x]
    by (cases "DCAN_forward training u x") (auto simp: ensures_def and_then_simps)
next
  case (CAUNet_model u)
  then show ?thesis
    using CAUNet_unit [of training u x]
    by (cases "CAUNet_forward training u x") (auto simp: ensures_def and_then_simps)
next
  case (CAMUNet_model u)
  then show ?thesis
    using CAMUNet_unit [of training u x]
    by (cases "CAMUNet_forward training u x") (auto simp: ensures_def and_then_simps)
next
  case (DUNet_model u)
  then show ?thesis
    using DUNet_unit [of training u x]
    by (cases "DUNet_forward training u x") (simp_all add: ensures_def and_then_simps)
next
  case (CADUNet_model u)
  then show ?thesis
    using CADUNet_unit [of training u x]
    by (cases "CADUNet_forward training u x") (auto simp: ensures_def and_then_simps)
next
  case (CAMDUNet_model u)
  then show ?thesis
    using CAMDUNet_unit [of training u x]
    by (cases "CAMDUNet_forward training u x") (auto simp: ensures_def and_then_simps)
next
  case (UNet_model u)
  then show ?thesis
    using UNet_unit [of training u x]
    by (cases "UNet_forward training u x") (simp_all add: ensures_def and_then_simps)
qed

lemma and_then_Inr_iff: "and_then r f = Inr y \<longleftrightarrow> (\<exists>v. r = Inr v \<and> f v = Inr y)"
  by (cases r) (simp_all add: and_then_simps)

lemma dcanConv_ensures:
  assumes "cin = 0 \<Longrightarrow> cout = 0"
  shows "ensures (dcanConv_forward training (dcanConv_init ws cin cout r) x)
     (\<lambda>y. shape y = (tn x, cout, th x, tw x) \<and> 1 \<le> th x \<and> 1 \<le> tw x)"
  using assms
  by (auto simp: ensures_def dcanConv_forward_def dcanConv_init_def Let_def
      Conv2d_forward_def Conv2d_init_def BatchNorm2d_forward_def BatchNorm2d_init_def
      Dropout2d_forward_def Dropout2d_init_def F_relu_def map_dat_def and_then_def shape_def
      split: sum.splits)

lemma dcanDeConv_ensures:
  assumes "1 \<le> k"
  shows "ensures (dcanDeConv_forward training (dcanDeConv_init ws cin cout k r) x)
     (\<lambda>y. shape y = (tn x, cout, k * th x, k * tw x) \<and> 1 \<le> th x \<and> 1 \<le> tw x)"
proof -
  have e: "(h - Suc 0) * k + k = k * h" if "0 < h" for h :: nat
    using that by (cases h) simp_all
  have up: "ensures (ConvTranspose2d_forward (ConvTranspose2d_init w cin cout k k) x)
     (\<lambda>y. shape y = (tn x, cout, k * th x, k * tw x) \<and> 1 \<le> th x \<and> 1 \<le> tw x)" for w
    using assms
    by (auto simp: ensures_def ConvTranspose2d_forward_def ConvTranspose2d_init_def shape_def e)
  show ?thesis
    unfolding dcanDeConv_forward_def dcanDeConv_init_def dcanDeConv.select_convs
    apply (rule ensures_and_then [OF up])
    apply (rule ensures_weaken [OF dcanConv_ensures])
     apply assumption
    apply (simp add: shape_eq_iff)
    done
qed

text \<open>Two tensors of one batch size and channel count whose heights and widths are not
  1 add only when they have one shape, and then entry by entry.\<close>

lemma tensor_add_no_broadcast:
  assumes "tensor_add a b = Inr y"
    and "tn a = tn b" "tc a = tc b"
    and "th a \<noteq> 1" "th b \<noteq> 1" "tw a \<noteq> 1" "tw b \<noteq> 1"
  shows "shape a = shape b \<and> shape y = shape a \<and>
         (\<forall>n < tn y. \<forall>c < tc y. \<forall>i < th y. \<forall>j < tw y.
            dat y n c i j = dat a n c i j + dat b n c i j)"
proof -
  have hw: "th a = th b" "tw a = tw b"
    using assms by (auto simp: tensor_add_def broadcast_dim_def split: if_splits)
  have y: "y = \<lparr>tn = tn a, tc = tc a, th = th a, tw = tw a,
      dat = (\<lambda>n c i j.
        dat a (bidx (tn a) n) (bidx (tc a) c) (bidx (th a) i) (bidx (tw a) j) +
        dat b (bidx (tn b) n) (bidx (tc b) c) (bidx (th b) i) (bidx (tw b) j))\<rparr>"
    using assms(1) hw assms(2,3) by (simp add: tensor_add_def broadcast_dim_def)
  have idx: "bidx s i = i" if "i < s" for s i
    using that by (auto simp: bidx_def)
  show ?thesis
    using hw assms(2,3) by (simp add: y shape_def idx)
qed

lemma MaxPool2d_ensures:
  "ensures (MaxPool2d_forward l x) (\<lambda>y. tn y = tn x \<and> tc y = tc x)"
  by (simp add: ensures_def MaxPool2d_forward_def Let_def)

section \<open>Every variant on the inputs it accepts\<close>

lemma factor_cases:
  assumes "f dvd th x" "f dvd tw x" "0 < th x" "0 < tw x" "0 < (f::nat)"
  obtains a b where "th x = f * a" "tw x = f * b" "1 \<le> a" "1 \<le> b"
    "th x div f = a" "tw x div f = b"
proof -
  from assms(1) obtain a where a: "th x = f * a" by (auto simp: dvd_def)
  from assms(2) obtain b where b: "tw x = f * b" by (auto simp: dvd_def)
  have "1 \<le> a" "1 \<le> b" using a b assms(3,4) by (auto simp: Suc_le_eq)
  moreover have "th x div f = a" "tw x div f = b" using a b assms(5) by simp_all
  ultimately show thesis using that a b by blast
qed

lemmas eval_defs =
  and_then_simps result_shape_def result_shapes_def shape_def torch_zeros_def zero_weights_def sub_def
  Conv2d_forward_def Conv2d_init_def BatchNorm2d_forward_def BatchNorm2d_init_def
  Dropout2d_forward_def Dropout2d_init_def MaxPool2d_forward_def MaxPool2d_init_def
  ConvTranspose2d_forward_def ConvTranspose2d_init_def torch_cat1_def map_dat_def
  F_sigmoid_def F_relu_def Let_def
  DilatedConvBlock_forward_def DilatedConvBlock_init_def ConvBlock_forward_def ConvBlock_init_def
  ConvUpBlock_forward_def ConvUpBlock_init_def

lemma forward_shapes:
  assumes "m \<in> set (variants ws fixed_vgg)" and "input_ok training m x"
  shows "\<exists>outs. forward training m x = Inr outs \<and> outs \<noteq> [] \<and>
            (\<forall>y \<in> set outs. shape y = (tn x, 1, th x, tw x))"
proof -
  consider
      (unet) "m = UNet_model (UNet_init ws)" | (dunet) "m = DUNet_model (DUNet_init ws)"
    | (caunet) "m = CAUNet_model (CAUNet_init ws)" | (cadunet) "m = CADUNet_model (CADUNet_init ws)"
    | (camunet) "m = CAMUNet_model (CAMUNet_init ws)"
    | (camdunet) "m = CAMDUNet_model (CAMDUNet_init ws)"
    | (vgg) "m = UNetVgg16_model (UNetVgg16_init ws 3 1 fixed_vgg)"
    | (dcan) "m = DCAN_model (DCAN_init ws 3 1)"
    using assms(1) by (auto simp: variants_def)
  then show ?thesis
  proof cases
    case unet
    with assms(2) have ok: "tc x = 3" "16 dvd th x" "16 dvd tw x" "32 \<le> th x" "32 \<le> tw x"
      by simp_all
    then obtain a b where ab: "th x = 16 * a" "tw x = 16 * b" "1 \<le> a" "1 \<le> b"
      "th x div 16 = a" "tw x div 16 = b"
      using factor_cases [of 16 x] by auto
    have "2 \<le> a" "2 \<le> b" using ab(1,2) ok(4,5) by simp_all
    from UNet_forward_shape [OF ok(1) ab(1,2) this, of training ws]
    show ?thesis using unet ab(1,2) by (auto simp: and_then_simps)
  next
    case caunet
    with assms(2) have ok: "tc x = 3" "16 dvd th x" "16 dvd tw x" "32 \<le> th x" "32 \<le> tw x"
      by simp_all
    then obtain a b where ab: "th x = 16 * a" "tw x = 16 * b" "1 \<le> a" "1 \<le> b"
      "th x div 16 = a" "tw x div 16 = b"
      using factor_cases [of 16 x] by auto
    have "2 \<le> a" "2 \<le> b" using ab(1,2) ok(4,5) by simp_all
    from CAUNet_forward_shape [OF ok(1) ab(1,2) this, of training ws]
    show ?thesis using caunet ab(1,2) by (auto simp: and_then_simps)
  next
    case camunet
    with assms(2) have ok: "tc x = 3" "16 dvd th x" "16 dvd tw x" "32 \<le> th x" "32 \<le> tw x"
      by simp_all
    then obtain a b where ab: "th x = 16 * a" "tw x = 16 * b" "1 \<le> a" "1 \<le> b"
      "th x div 16 = a" "tw x div 16 = b"
      using factor_cases [of 16 x] by auto
    have "2 \<le> a" "2 \<le> b" using ab(1,2) ok(4,5) by simp_all
    from CAMUNet_forward_shape [OF ok(1) ab(1,2) this, of training ws]
    show ?thesis using camunet ab(1,2) by (auto simp: and_then_simps)
  next
    case dunet
    with assms(2) have ok: "tc x = 3" "16 dvd th x" "16 dvd tw x" "0 < th x" "0 < tw x"
      "\<not> single_value training x 16"
      by simp_all
    then obtain a b where ab: "th x = 16 * a" "tw x = 16 * b" "1 \<le> a" "1 \<le> b"
      "th x div 16 = a" "tw x div 16 = b"
      using factor_cases [of 16 x] by auto
    have "training \<longrightarrow> tn x * a * b \<noteq> 1"
      using ok(6) ab(5,6) by (simp add: single_value_def)
    from DUNet_forward_shape [OF ok(1) ab(1-4) this, of ws]
    show ?thesis using dunet ab(1,2) by (auto simp: and_then_simps)
  next
    case cadunet
    with assms(2) have ok: "tc x = 3" "16 dvd th x" "16 dvd tw x" "0 < th x" "0 < tw x"
      "\<not> single_value training x 16"
      by simp_all
    then obtain a b where ab: "th x = 16 * a" "tw x = 16 * b" "1 \<le> a" "1 \<le> b"
      "th x div 16 = a" "tw x div 16 = b"
      using factor_cases [of 16 x] by auto
    have "training \<longrightarrow> tn x * a * b \<noteq> 1"
      using ok(6) ab(5,6) by (simp add: single_value_def)
    from CADUNet_forward_shape [OF ok(1) ab(1-4) this, of ws]
    show ?thesis using cadunet ab(1,2) by (auto simp: and_then_simps)
  next
    case camdunet
    with assms(2) have ok: "tc x = 3" "16 dvd th x" "16 dvd tw x" "0 < th x" "0 < tw x"
      "\<not> single_value training x 16"
      by simp_all
    then obtain a b where ab: "th x = 16 * a" "tw x = 16 * b" "1 \<le> a" "1 \<le> b"
      "th x div 16 = a" "tw x div 16 = b"
      using factor_cases [of 16 x] by auto
    have "training \<longrightarrow> tn x * a * b \<noteq> 1"
      using ok(6) ab(5,6) by (simp add: single_value_def)
    from CAMDUNet_forward_shape [OF ok(1) ab(1-4) this, of ws]
    show ?thesis using camdunet ab(1,2) by (auto simp: and_then_simps)
  next
    case vgg
    with assms(2) have ok: "tc x = 3" "32 dvd th x" "32 dvd tw x" "0 < th x" "0 < tw x"
      by simp_all
    then obtain a b where ab: "th x = 32 * a" "tw x = 32 * b" "1 \<le> a" "1 \<le> b"
      using factor_cases [of 32 x] by auto
    have ab': "th x = 16 * (2 * a)" "tw x = 16 * (2 * b)" "1 \<le> 2 * a" "1 \<le> 2 * b"
      using ab by simp_all
    have "2 \<le> 2 * a" using ab(3) by simp
    then have "training \<longrightarrow> tn x * (2 * a) * (2 * b) \<noteq> 1"
      using mult3_ne_1 [of "2 * a" "tn x" "2 * b"] by blast
    from UNetVgg16_forward_shape [OF ok(1) ab' this, where n_classes = 1 and ws = ws and
        n_channels = 3 and fixed_vgg = fixed_vgg]
    show ?thesis using vgg ab(1,2) by (auto simp: and_then_simps)
  next
    case dcan
    with assms(2) have ok: "tc x = 3" "32 dvd th x" "32 dvd tw x" "0 < th x" "0 < tw x"
      "\<not> single_value training x 32"
      by simp_all
    then obtain a b where ab: "th x = 32 * a" "tw x = 32 * b" "1 \<le> a" "1 \<le> b"
      "th x div 32 = a" "tw x div 32 = b"
      using factor_cases [of 32 x] by auto
    have "training \<longrightarrow> tn x * a * b \<noteq> 1"
      using ok(6) ab(5,6) by (simp add: single_value_def)
    from DCAN_forward_shape [OF ok(1) ab(1-4) this, where n_classes = 1 and ws = ws]
    show ?thesis using dcan ab(1,2) by (auto simp: and_then_simps)
  qed
qed

section \<open>The blocks and the variants\<close>

text \<open>
  Claim C6, as stated: for every configuration (every \<open>in_channels\<close>, \<open>out_channels\<close>,
  kernel size and dilation) and every input with \<open>in_channels\<close> channels,
  DilatedConvBlock returns \<open>out_channels\<close> channels at the input's height and width.
  The padding is the dilation whatever the kernel size, so a 1x1 kernel grows a 4x4
  input to 6x6 and a 5x5 kernel shrinks it to 2x2; in training mode a single value per
  channel is refused, and so is an input without rows. A dropout rate of 1.5 is refused
  by the constructor. Without output channels the convolution is refused, and without
  input channels the block returns a tensor without channels, not with \<open>out_channels\<close>.
\<close>

theorem DilatedConvBlock_same_size_counterexample:
  "(\<exists>m. DilatedConvBlock_new zero_weights 1 1 1 0.1 relu 1 = Inr m
      \<and> result_shape (DilatedConvBlock_forward False m (torch_zeros 1 1 4 4)) = Inr (1, 1, 6, 6))
   \<and> (\<exists>m. DilatedConvBlock_new zero_weights 1 1 5 0.1 relu 1 = Inr m
      \<and> result_shape (DilatedConvBlock_forward False m (torch_zeros 1 1 4 4)) = Inr (1, 1, 2, 2))
   \<and> (\<exists>m. DilatedConvBlock_new zero_weights 1 1 3 0.1 relu 1 = Inr m
      \<and> result_shape (DilatedConvBlock_forward True m (torch_zeros 1 1 1 1)) = Inl ValueError)
   \<and> (\<exists>m. DilatedConvBlock_new zero_weights 1 1 3 0.1 relu 1 = Inr m
      \<and> result_shape (DilatedConvBlock_forward False m (torch_zeros 1 1 0 0)) = Inl RuntimeError)
   \<and> DilatedConvBlock_new zero_weights 1 1 3 1.5 relu 1 = Inl ValueError
   \<and> (\<exists>m. DilatedConvBlock_new zero_weights 1 0 3 0.1 relu 1 = Inr m
      \<and> result_shape (DilatedConvBlock_forward False m (torch_zeros 1 1 4 4)) = Inl RuntimeError)
   \<and> (\<exists>m. DilatedConvBlock_new zero_weights 0 1 3 0.1 relu 1 = Inr m
      \<and> result_shape (DilatedConvBlock_forward False m (torch_zeros 1 0 4 4)) = Inr (1, 0, 4, 4))"
  by (simp add: DilatedConvBlock_new_eq eval_defs)

text \<open>
  Claim C6, amended: for \<open>in_channels\<close> and \<open>out_channels\<close> of at least 1, the 3x3
  kernel (the default, and the only one the file uses), a dilation of at least 1 and a
  dropout rate of at most 1, the constructor returns a block, and on an input with
  \<open>in_channels\<close> channels and at least one row and column and, in training mode, more
  than one value per channel, the block returns a tensor with \<open>out_channels\<close> channels
  and the input's batch size, height and width, whatever the activation.
\<close>

theorem DilatedConvBlock_same_size:
  assumes "1 \<le> in_size" "1 \<le> out_size" "dropout_rate \<le> 1"
    and "tc x = in_size" "1 \<le> dilation" "1 \<le> th x" "1 \<le> tw x"
    and "training \<longrightarrow> tn x * th x * tw x \<noteq> 1"
  shows "\<exists>m. DilatedConvBlock_new ws in_size out_size 3 dropout_rate activation dilation = Inr m
           \<and> result_shape (DilatedConvBlock_forward training m x) =
               Inr (tn x, out_size, th x, tw x)"
proof -
  have "DilatedConvBlock_new ws in_size out_size 3 dropout_rate activation dilation =
      Inr (DilatedConvBlock_init ws in_size out_size 3 dropout_rate activation dilation)"
    using assms(3) by (simp add: DilatedConvBlock_new_eq)
  moreover have "result_shape (DilatedConvBlock_forward training
      (DilatedConvBlock_init ws in_size out_size 3 dropout_rate activation dilation) x) =
      Inr (tn x, out_size, th x, tw x)"
    using DilatedConvBlock_forward_shape [OF assms(4-8) assms(1,2), of ws dropout_rate activation]
    by (auto simp: result_shape_def)
  ultimately show ?thesis
    by simp
qed

theorem DilatedConvBlock_same_size_witness:
  "\<exists>m. DilatedConvBlock_new zero_weights 128 256 3 0.1 relu 8 = Inr m
     \<and> result_shape (DilatedConvBlock_forward True m (torch_zeros 2 128 1 1)) = Inr (2, 256, 1, 1)"
  using DilatedConvBlock_same_size [of 128 256 "0.1" "torch_zeros 2 128 1 1" 8 True zero_weights relu]
  by (simp add: torch_zeros_def)

text \<open>
  Claim C7, as stated: for every \<open>in_channels\<close> and \<open>out_channels\<close> ConvUpBlock goes
  through on a skip tensor that fits. Its first DilatedConvBlock is built for
  \<open>in_channels\<close> channels and receives \<open>2 * out_channels\<close>, so with 3 and 1 channels
  the concatenation has 2 channels where 3 are expected, and with 16 and 16 channels it
  has 32 where 16 are expected; an input without rows is refused; and a dropout rate of
  1.5 is refused by the constructor.
\<close>

theorem ConvUpBlock_channels_counterexample:
  "(\<exists>m. ConvUpBlock_new zero_weights 3 1 0.2 1 = Inr m
      \<and> result_shape (ConvUpBlock_forward False m (torch_zeros 1 3 4 4) (torch_zeros 1 1 8 8)) =
          Inl RuntimeError)
   \<and> (\<exists>m. ConvUpBlock_new zero_weights 16 16 0.2 1 = Inr m
      \<and> result_shape (ConvUpBlock_forward False m (torch_zeros 1 16 4 4) (torch_zeros 1 16 8 8)) =
          Inl RuntimeError)
   \<and> (\<exists>m. ConvUpBlock_new zero_weights 2 1 0.2 1 = Inr m
      \<and> result_shape (ConvUpBlock_forward False m (torch_zeros 1 2 0 0) (torch_zeros 1 1 0 0)) =
          Inl RuntimeError)
   \<and> ConvUpBlock_new zero_weights 4 2 1.5 1 = Inl ValueError"
  by (simp add: ConvUpBlock_new_eq eval_defs)

text \<open>
  Claim C7, amended: for every \<open>out_channels\<close> of at least 1,
  \<open>in_channels = 2 * out_channels\<close> (as in every use in the file), a dilation of at
  least 1 and a dropout rate of at most 1, the constructor returns a block, and on a
  tensor with \<open>in_channels\<close> channels and at least one row and column and a skip tensor
  with \<open>out_channels\<close> channels, the same batch size and twice the height and width,
  the block returns a tensor with \<open>out_channels\<close> channels at the skip tensor's size:
  the upsampling gives \<open>out_channels\<close> channels, the concatenation
  \<open>2 * out_channels\<close>, and the two DilatedConvBlocks \<open>out_channels\<close> again.
\<close>

theorem ConvUpBlock_channels:
  assumes "1 \<le> out_size" "dropout_rate \<le> 1"
    and "tc x = 2 * out_size" "1 \<le> dilation" "1 \<le> th x" "1 \<le> tw x"
    and "shape bridge = (tn x, out_size, 2 * th x, 2 * tw x)"
  shows "\<exists>m. ConvUpBlock_new ws (2 * out_size) out_size dropout_rate dilation = Inr m
       \<and> result_shape (ConvTranspose2d_forward (cub_up m) x) =
           Inr (tn x, out_size, 2 * th x, 2 * tw x)
       \<and> (\<forall>u. shape u = (tn x, out_size, 2 * th x, 2 * tw x) \<longrightarrow>
             result_shape (torch_cat1 u bridge) = Inr (tn x, 2 * out_size, 2 * th x, 2 * tw x))
       \<and> result_shape (ConvUpBlock_forward training m x bridge) =
           Inr (tn x, out_size, 2 * th x, 2 * tw x)"
proof -
  let ?m = "ConvUpBlock_init ws (2 * out_size) out_size dropout_rate dilation"
  have new: "ConvUpBlock_new ws (2 * out_size) out_size dropout_rate dilation = Inr ?m"
    using assms(2) by (simp add: ConvUpBlock_new_eq)
  have up: "result_shape (ConvTranspose2d_forward (cub_up ?m) x) =
      Inr (tn x, out_size, 2 * th x, 2 * tw x)"
    using ConvTranspose2d_forward_shape [of x "2 * out_size" 2 "sub ws (Attr ''up'')" out_size]
      assms(3,5,6)
    by (auto simp: result_shape_def ConvUpBlock_init_def)
  have cat: "result_shape (torch_cat1 u bridge) = Inr (tn x, 2 * out_size, 2 * th x, 2 * tw x)"
    if "shape u = (tn x, out_size, 2 * th x, 2 * tw x)" for u
    using torch_cat1_shape [of u bridge] assms(7) that
    by (auto simp: result_shape_def shape_eq_iff)
  have fwd: "result_shape (ConvUpBlock_forward training ?m x bridge) =
      Inr (tn x, out_size, 2 * th x, 2 * tw x)"
    using ConvUpBlock_forward_shape [OF assms(3-7) assms(1), of training ws dropout_rate]
    by (auto simp: result_shape_def)
  show ?thesis
    using new up cat fwd by simp
qed

theorem ConvUpBlock_channels_witness:
  "\<exists>m. ConvUpBlock_new zero_weights 256 128 0.2 1 = Inr m
     \<and> result_shape (ConvUpBlock_forward True m (torch_zeros 1 256 2 2) (torch_zeros 1 128 4 4)) =
         Inr (1, 128, 4, 4)"
proof -
  have "\<exists>m. ConvUpBlock_new zero_weights (2 * 128) 128 0.2 1 = Inr m
     \<and> result_shape (ConvUpBlock_forward True m (torch_zeros 1 256 2 2) (torch_zeros 1 128 4 4)) =
      Inr (tn (torch_zeros 1 256 2 2), 128, 2 * th (torch_zeros 1 256 2 2), 2 * tw (torch_zeros 1 256 2 2))"
    using ConvUpBlock_channels [of 128 "0.2" "torch_zeros 1 256 2 2" 1 "torch_zeros 1 128 4 4"
        zero_weights True]
    by (auto simp: torch_zeros_def shape_def)
  then show ?thesis by (simp add: torch_zeros_def)
qed

text \<open>
  Claim C2, as stated: every variant returns tensors of shape \<open>(N, 1, H, W)\<close> on every
  input \<open>(N, 3, H, W)\<close> with \<open>H\<close> and \<open>W\<close> divisible by 16 (U-Net family) or 32. On a
  16x16 image the plain \<open>UNet\<close> raises instead: its bottom ConvBlock pools the 1x1
  activation although the pooled tensor is dropped. In training mode the dilated \<open>DUNet\<close>
  raises on a single 16x16 image and \<open>DCAN\<close> on a single 32x32 image, because batch
  normalisation sees one value per channel. And 0 is divisible by 16: an input without
  rows is refused by the first convolution.
\<close>

theorem output_shape_counterexample:
  "result_shapes (forward False (UNet_model (UNet_init zero_weights)) (torch_zeros 1 3 16 16)) =
     Inl RuntimeError
   \<and> result_shapes (forward True (DUNet_model (DUNet_init zero_weights)) (torch_zeros 1 3 16 16)) =
     Inl ValueError
   \<and> result_shapes (forward True (DCAN_model (DCAN_init zero_weights 3 1)) (torch_zeros 1 3 32 32)) =
     Inl ValueError
   \<and> result_shapes (forward False (DUNet_model (DUNet_init zero_weights)) (torch_zeros 1 3 0 0)) =
     Inl RuntimeError"
  by (simp add: eval_defs UNet_forward_def UNet_init_def DUNet_forward_def DUNet_init_def
      DCAN_forward_def DCAN_logits_def DCAN_init_def dcanConv_forward_def dcanConv_init_def
      dcanDeConv_forward_def dcanDeConv_init_def)

text \<open>
  Claim C2, amended: for every variant and every input \<open>(N, 3, H, W)\<close> with \<open>H\<close> and
  \<open>W\<close> positive multiples of the variant's downsampling factor (16 for the U-Net
  family, 32 for \<open>DCAN\<close> and \<open>UNetVgg16\<close>), the forward computation returns, and every
  tensor it returns has shape \<open>(N, 1, H, W)\<close>, provided that \<open>H\<close> and \<open>W\<close> are at least
  32 for \<open>UNet\<close>, \<open>CAUNet\<close> and \<open>CAMUNet\<close>, and that in training mode
  \<open>N * (H / f) * (W / f)\<close> is not 1 for \<open>DUNet\<close>, \<open>CADUNet\<close>, \<open>CAMDUNet\<close> (\<open>f = 16\<close>)
  and \<open>DCAN\<close> (\<open>f = 32\<close>). These conditions are \<open>input_ok\<close>.
\<close>

theorem output_shape:
  assumes "m \<in> set (variants ws fixed_vgg)" and "input_ok training m x"
  shows "\<exists>outs. forward training m x = Inr outs \<and> outs \<noteq> [] \<and>
            (\<forall>y \<in> set outs. shape y = (tn x, 1, th x, tw x))"
  using assms by (rule forward_shapes)

theorem output_shape_witness:
  "(\<exists>outs. forward True (UNet_model (UNet_init zero_weights)) (torch_zeros 1 3 128 128) = Inr outs
      \<and> outs \<noteq> [] \<and> (\<forall>y \<in> set outs. shape y = (1, 1, 128, 128)))
   \<and> (\<exists>outs. forward True (DCAN_model (DCAN_init zero_weights 3 1)) (torch_zeros 1 3 128 128) = Inr outs
      \<and> outs \<noteq> [] \<and> (\<forall>y \<in> set outs. shape y = (1, 1, 128, 128)))"
proof (rule conjI)
  show "\<exists>outs. forward True (UNet_model (UNet_init zero_weights)) (torch_zeros 1 3 128 128) = Inr outs
      \<and> outs \<noteq> [] \<and> (\<forall>y \<in> set outs. shape y = (1, 1, 128, 128))"
    using output_shape [of "UNet_model (UNet_init zero_weights)" zero_weights True True
        "torch_zeros 1 3 128 128"]
    by (simp add: variants_def torch_zeros_def)
  show "\<exists>outs. forward True (DCAN_model (DCAN_init zero_weights 3 1)) (torch_zeros 1 3 128 128) = Inr outs
      \<and> outs \<noteq> [] \<and> (\<forall>y \<in> set outs. shape y = (1, 1, 128, 128))"
    using output_shape [of "DCAN_model (DCAN_init zero_weights 3 1)" zero_weights True True
        "torch_zeros 1 3 128 128"]
    by (simp add: variants_def torch_zeros_def single_value_def)
qed

text \<open>
  Claim C3 speaks of the values the program computes, which are 32-bit floating-point
  numbers: there a finite input can overflow to an infinity inside a convolution, batch
  normalisation then subtracts infinities, and the sigmoid of the resulting NaN is NaN,
  which lies in no interval. Overflow, infinities and NaN have no counterpart among the
  real numbers that stand for tensor entries here, so the claim is not stated in this
  theory. What can be said is its structural half: each output is the sigmoid of a
  tensor, and the sigmoid of a real number lies between 0 and 1.
\<close>

lemma real_sigmoid_outputs:
  assumes "forward training m x = Inr outs" and "y \<in> set outs"
    and "n < tn y" "c < tc y" "i < th y" "j < tw y"
  shows "0 \<le> dat y n c i j \<and> dat y n c i j \<le> 1"
proof -
  have "list_all unit_valued outs"
    using ensuresD [OF forward_unit assms(1)] .
  then have "unit_valued y"
    using assms(2) by (simp add: list_all_iff)
  then show ?thesis
    by (simp add: unit_valued_def)
qed

text \<open>
  Claim C4. On an input it accepts, the forward computation of \<open>UNet\<close> and \<open>DUNet\<close>
  returns one tensor, that of \<open>CAUNet\<close> and \<open>CADUNet\<close> two and that of \<open>CAMUNet\<close> and
  \<open>CAMDUNet\<close> three; and whenever the forward computation of one of these classes
  returns at all, it returns that many tensors, all of one shape.
\<close>

theorem output_count:
  "(m = UNet_model (UNet_init ws) \<or> m = DUNet_model (DUNet_init ws) \<longrightarrow>
      (input_ok training m x \<longrightarrow> (\<exists>y. forward training m x = Inr [y])) \<and>
      (\<forall>outs. forward training m x = Inr outs \<longrightarrow> length outs = 1))
   \<and> (m = CAUNet_model (CAUNet_init ws) \<or> m = CADUNet_model (CADUNet_init ws) \<longrightarrow>
      (input_ok training m x \<longrightarrow> (\<exists>ys yc. forward training m x = Inr [ys, yc])) \<and>
      (\<forall>outs. forward training m x = Inr outs \<longrightarrow>
         (\<exists>ys yc. outs = [ys, yc] \<and> shape ys = shape yc)))
   \<and> (m = CAMUNet_model (CAMUNet_init ws) \<or> m = CAMDUNet_model (CAMDUNet_init ws) \<longrightarrow>
      (input_ok training m x \<longrightarrow> (\<exists>ys yc ym. forward training m x = Inr [ys, yc, ym])) \<and>
      (\<forall>outs. forward training m x = Inr outs \<longrightarrow>
         (\<exists>ys yc ym. outs = [ys, yc, ym] \<and> shape ys = shape yc \<and> shape yc = shape ym)))"
proof -
  have ret: "\<exists>outs. forward training m x = Inr outs" if "m \<in> set (variants ws True)" "input_ok training m x"
    using forward_shapes [OF that] by blast
  have one: "\<exists>y. outs = [y]" if "forward training m x = Inr outs"
    "m = UNet_model (UNet_init ws) \<or> m = DUNet_model (DUNet_init ws)" for outs
    using that
    by (cases "UNet_forward training (UNet_init ws) x"; cases "DUNet_forward training (DUNet_init ws) x")
       (auto simp: and_then_simps)
  have two: "\<exists>ys yc. outs = [ys, yc] \<and> shape ys = shape yc" if "forward training m x = Inr outs"
    "m = CAUNet_model (CAUNet_init ws) \<or> m = CADUNet_model (CADUNet_init ws)" for outs
    using that CAUNet_same_shape [of training ws x] CADUNet_same_shape [of training ws x]
    by (cases "CAUNet_forward training (CAUNet_init ws) x";
        cases "CADUNet_forward training (CADUNet_init ws) x")
       (auto simp: and_then_simps ensures_def)
  have three: "\<exists>ys yc ym. outs = [ys, yc, ym] \<and> shape ys = shape yc \<and> shape yc = shape ym"
    if "forward training m x = Inr outs"
    "m = CAMUNet_model (CAMUNet_init ws) \<or> m = CAMDUNet_model (CAMDUNet_init ws)" for outs
    using that CAMUNet_same_shape [of training ws x] CAMDUNet_same_shape [of training ws x]
    by (cases "CAMUNet_forward training (CAMUNet_init ws) x";
        cases "CAMDUNet_forward training (CAMDUNet_init ws) x")
       (auto simp: and_then_simps ensures_def)
  show ?thesis
  proof (intro conjI impI allI)
    assume m: "m = UNet_model (UNet_init ws) \<or> m = DUNet_model (DUNet_init ws)"
    {
      assume "input_ok training m x"
      with m ret obtain outs where "forward training m x = Inr outs"
        by (auto simp: variants_def)
      with one [OF _ m] show "\<exists>y. forward training m x = Inr [y]" by auto
    }
    {
      fix outs assume "forward training m x = Inr outs"
      with one [OF _ m] show "length outs = 1" by auto
    }
  next
    assume m: "m = CAUNet_model (CAUNet_init ws) \<or> m = CADUNet_model (CADUNet_init ws)"
    {
      assume "input_ok training m x"
      with m ret obtain outs where "forward training m x = Inr outs"
        by (auto simp: variants_def)
      with two [OF _ m] show "\<exists>ys yc. forward training m x = Inr [ys, yc]" by auto
    }
    {
      fix outs assume "forward training m x = Inr outs"
      with two [OF _ m] show "\<exists>ys yc. outs = [ys, yc] \<and> shape ys = shape yc" by auto
    }
  next
    assume m: "m = CAMUNet_model (CAMUNet_init ws) \<or> m = CAMDUNet_model (CAMDUNet_init ws)"
    {
      assume "input_ok training m x"
      with m ret obtain outs where "forward training m x = Inr outs"
        by (auto simp: variants_def)
      with three [OF _ m] show "\<exists>ys yc ym. forward training m x = Inr [ys, yc, ym]" by auto
    }
    {
      fix outs assume "forward training m x = Inr outs"
      with three [OF _ m]
      show "\<exists>ys yc ym. outs = [ys, yc, ym] \<and> shape ys = shape yc \<and> shape yc = shape ym" by auto
    }
  qed
qed

text \<open>\<open>CAMUNet\<close> on a 128x128 image, in training mode.\<close>

theorem output_count_witness:
  "\<exists>ys yc ym. forward True (CAMUNet_model (CAMUNet_init zero_weights)) (torch_zeros 1 3 128 128) =
       Inr [ys, yc, ym]
     \<and> shape ys = shape yc \<and> shape yc = shape ym"
proof -
  let ?m = "CAMUNet_model (CAMUNet_init zero_weights)"
  let ?x = "torch_zeros 1 3 128 128"
  note r = output_count [of ?m zero_weights True ?x]
  have ok: "input_ok True ?m ?x"
    by (simp add: torch_zeros_def)
  from r have "\<exists>ys yc ym. forward True ?m ?x = Inr [ys, yc, ym]"
    and "\<forall>outs. forward True ?m ?x = Inr outs \<longrightarrow>
         (\<exists>ys yc ym. outs = [ys, yc, ym] \<and> shape ys = shape yc \<and> shape yc = shape ym)"
    using ok by simp_all
  then show ?thesis
    by blast
qed

text \<open>
  Claim C8. In \<open>DCAN\<close>'s forward computation the tensor passed to the segmentation
  sigmoid is, entry by entry, the sum of the outputs of the three segmentation heads,
  each applied on its own to its stage activation (\<open>deconv1s\<close> to \<open>c6\<close>, \<open>deconv2s\<close> to
  \<open>c5\<close>, \<open>deconv3s\<close> to \<open>c4\<close>); the three outputs have one shape, so nothing is
  broadcast, and the sum is not divided. The same holds for the three contour heads.
  The entries are real numbers; a layer's numeric action is that of the pass at hand.
\<close>

theorem DCAN_logits_are_sums:
  assumes "DCAN_logits training (DCAN_init ws n_channels n_classes) x = Inr (s, c)"
  shows "\<exists>c4 c5 c6 u1s u2s u3s u1c u2c u3c.
      DCAN_stages training (DCAN_init ws n_channels n_classes) x = Inr (c4, c5, c6)
    \<and> dcanDeConv_forward training (dcan_deconv1s (DCAN_init ws n_channels n_classes)) c6 = Inr u1s
    \<and> dcanDeConv_forward training (dcan_deconv2s (DCAN_init ws n_channels n_classes)) c5 = Inr u2s
    \<and> dcanDeConv_forward training (dcan_deconv3s (DCAN_init ws n_channels n_classes)) c4 = Inr u3s
    \<and> dcanDeConv_forward training (dcan_deconv1c (DCAN_init ws n_channels n_classes)) c6 = Inr u1c
    \<and> dcanDeConv_forward training (dcan_deconv2c (DCAN_init ws n_channels n_classes)) c5 = Inr u2c
    \<and> dcanDeConv_forward training (dcan_deconv3c (DCAN_init ws n_channels n_classes)) c4 = Inr u3c
    \<and> shape u1s = shape s \<and> shape u2s = shape s \<and> shape u3s = shape s
    \<and> shape u1c = shape c \<and> shape u2c = shape c \<and> shape u3c = shape c
    \<and> (\<forall>n < tn s. \<forall>ch < tc s. \<forall>i < th s. \<forall>j < tw s.
          dat s n ch i j = dat u1s n ch i j + dat u2s n ch i j + dat u3s n ch i j)
    \<and> (\<forall>n < tn c. \<forall>ch < tc c. \<forall>i < th c. \<forall>j < tw c.
          dat c n ch i j = dat u1c n ch i j + dat u2c n ch i j + dat u3c n ch i j)
    \<and> DCAN_forward training (DCAN_init ws n_channels n_classes) x = Inr (F_sigmoid s, F_sigmoid c)"
proof -
  let ?m = "DCAN_init ws n_channels n_classes"
  from assms obtain c1 p1 c2 p2 c3 p3 c4 u3s u3c p4 c5 u2s u2c p5 c6 u1s u1c s1 t1 where
    st: "dcanConv_forward training (dcan_conv1 ?m) x = Inr c1"
      "MaxPool2d_forward (dcan_maxpool ?m) c1 = Inr p1"
      "dcanConv_forward training (dcan_conv2 ?m) p1 = Inr c2"
      "MaxPool2d_forward (dcan_maxpool ?m) c2 = Inr p2"
      "dcanConv_forward training (dcan_conv3 ?m) p2 = Inr c3"
      "MaxPool2d_forward (dcan_maxpool ?m) c3 = Inr p3"
      "dcanConv_forward training (dcan_conv4 ?m) p3 = Inr c4"
      "MaxPool2d_forward (dcan_maxpool ?m) c4 = Inr p4"
      "dcanConv_forward training (dcan_conv5 ?m) p4 = Inr c5"
      "MaxPool2d_forward (dcan_maxpool ?m) c5 = Inr p5"
      "dcanConv_forward training (dcan_conv6 ?m) p5 = Inr c6"
    and hd: "dcanDeConv_forward training (dcan_deconv3s ?m) c4 = Inr u3s"
      "dcanDeConv_forward training (dcan_deconv3c ?m) c4 = Inr u3c"
      "dcanDeConv_forward training (dcan_deconv2s ?m) c5 = Inr u2s"
      "dcanDeConv_forward training (dcan_deconv2c ?m) c5 = Inr u2c"
      "dcanDeConv_forward training (dcan_deconv1s ?m) c6 = Inr u1s"
      "dcanDeConv_forward training (dcan_deconv1c ?m) c6 = Inr u1c"
    and ad: "tensor_add u1s u2s = Inr s1" "tensor_add s1 u3s = Inr s"
      "tensor_add u1c u2c = Inr t1" "tensor_add t1 u3c = Inr c"
    unfolding DCAN_logits_def and_then_Inr_iff by blast
  have stages: "DCAN_stages training ?m x = Inr (c4, c5, c6)"
    by (simp only: DCAN_stages_def st and_then_simps)
  have fwd: "DCAN_forward training ?m x = Inr (F_sigmoid s, F_sigmoid c)"
    by (simp add: DCAN_forward_def assms and_then_simps)
  have fields:
    "dcan_conv5 ?m = dcanConv_init (sub ws (Attr ''conv5'')) 512 512 0.2"
    "dcan_conv6 ?m = dcanConv_init (sub ws (Attr ''conv6'')) 512 1024 0.2"
    "dcan_deconv3s ?m = dcanDeConv_init (sub ws (Attr ''deconv3s'')) 512 n_classes 8 0.2"
    "dcan_deconv3c ?m = dcanDeConv_init (sub ws (Attr ''deconv3c'')) 512 n_classes 8 0.2"
    "dcan_deconv2s ?m = dcanDeConv_init (sub ws (Attr ''deconv2s'')) 512 n_classes 16 0.2"
    "dcan_deconv2c ?m = dcanDeConv_init (sub ws (Attr ''deconv2c'')) 512 n_classes 16 0.2"
    "dcan_deconv1s ?m = dcanDeConv_init (sub ws (Attr ''deconv1s'')) 1024 n_classes 32 0.2"
    "dcan_deconv1c ?m = dcanDeConv_init (sub ws (Attr ''deconv1c'')) 1024 n_classes 32 0.2"
    by (simp_all add: DCAN_init_def)
  text \<open>The batch size is that of \<open>c4\<close> at every later stage.\<close>
  have n4: "tn p4 = tn c4" using ensuresD [OF MaxPool2d_ensures st(8)] by simp
  have n5: "tn c5 = tn c4"
    using ensuresD [OF dcanConv_ensures st(9) [unfolded fields]] n4 by (simp add: shape_eq_iff)
  have n5': "tn p5 = tn c4" using ensuresD [OF MaxPool2d_ensures st(10)] n5 by simp
  have n6: "tn c6 = tn c4"
    using ensuresD [OF dcanConv_ensures st(11) [unfolded fields]] n5' by (simp add: shape_eq_iff)
  text \<open>Each head multiplies the height and width of its stage by its factor.\<close>
  have big: "k * h \<noteq> 1" if "2 \<le> k" for k h :: nat
    using that by (cases h) auto
  have head: "tn u = tn c4 \<and> tc u = n_classes \<and> th u \<noteq> 1 \<and> tw u \<noteq> 1"
    if "dcanDeConv_forward training (dcanDeConv_init w cin n_classes k r) z = Inr u"
      "2 \<le> k" "tn z = tn c4" for u w cin k r z
  proof -
    have "1 \<le> k" using that(2) by simp
    from ensuresD [OF dcanDeConv_ensures [OF this] that(1)]
    show ?thesis using that(2,3) big by (simp add: shape_eq_iff)
  qed
  have h3s: "tn u3s = tn c4 \<and> tc u3s = n_classes \<and> th u3s \<noteq> 1 \<and> tw u3s \<noteq> 1"
    using head [OF hd(1) [unfolded fields]] by simp
  have h3c: "tn u3c = tn c4 \<and> tc u3c = n_classes \<and> th u3c \<noteq> 1 \<and> tw u3c \<noteq> 1"
    using head [OF hd(2) [unfolded fields]] by simp
  have h2s: "tn u2s = tn c4 \<and> tc u2s = n_classes \<and> th u2s \<noteq> 1 \<and> tw u2s \<noteq> 1"
    using head [OF hd(3) [unfolded fields]] n5 by simp
  have h2c: "tn u2c = tn c4 \<and> tc u2c = n_classes \<and> th u2c \<noteq> 1 \<and> tw u2c \<noteq> 1"
    using head [OF hd(4) [unfolded fields]] n5 by simp
  have h1s: "tn u1s = tn c4 \<and> tc u1s = n_classes \<and> th u1s \<noteq> 1 \<and> tw u1s \<noteq> 1"
    using head [OF hd(5) [unfolded fields]] n6 by simp
  have h1c: "tn u1c = tn c4 \<and> tc u1c = n_classes \<and> th u1c \<noteq> 1 \<and> tw u1c \<noteq> 1"
    using head [OF hd(6) [unfolded fields]] n6 by simp
  have sum3: "shape a1 = shape r \<and> shape a2 = shape r \<and> shape a3 = shape r \<and>
      (\<forall>n < tn r. \<forall>ch < tc r. \<forall>i < th r. \<forall>j < tw r.
          dat r n ch i j = dat a1 n ch i j + dat a2 n ch i j + dat a3 n ch i j)"
    if "tensor_add a1 a2 = Inr q" "tensor_add q a3 = Inr r"
      "tn a1 = tn c4 \<and> tc a1 = n_classes \<and> th a1 \<noteq> 1 \<and> tw a1 \<noteq> 1"
      "tn a2 = tn c4 \<and> tc a2 = n_classes \<and> th a2 \<noteq> 1 \<and> tw a2 \<noteq> 1"
      "tn a3 = tn c4 \<and> tc a3 = n_classes \<and> th a3 \<noteq> 1 \<and> tw a3 \<noteq> 1"
    for a1 a2 a3 q r
  proof -
    have 1: "shape a1 = shape a2" "shape q = shape a1"
      "\<forall>n < tn q. \<forall>ch < tc q. \<forall>i < th q. \<forall>j < tw q.
          dat q n ch i j = dat a1 n ch i j + dat a2 n ch i j"
      using tensor_add_no_broadcast [OF that(1)] that(3,4) by simp_all
    have q: "tn q = tn c4" "tc q = n_classes" "th q \<noteq> 1" "tw q \<noteq> 1"
      using 1(2) that(3) by (simp_all add: shape_def)
    have 2: "shape q = shape a3" "shape r = shape q"
      "\<forall>n < tn r. \<forall>ch < tc r. \<forall>i < th r. \<forall>j < tw r.
          dat r n ch i j = dat q n ch i j + dat a3 n ch i j"
      using tensor_add_no_broadcast [OF that(2)] q that(5) by simp_all
    have rq: "tn r = tn q" "tc r = tc q" "th r = th q" "tw r = tw q"
      using 2(2) by (simp_all add: shape_def)
    show ?thesis
      using 1 2 by (simp add: rq)
  qed
  show ?thesis
    using stages hd fwd sum3 [OF ad(1,2) h1s h2s h3s] sum3 [OF ad(3,4) h1c h2c h3c]
    by blast
qed

text \<open>\<open>DCAN\<close> on a 32x32 image in inference mode returns, so the sums exist.\<close>

theorem DCAN_logits_are_sums_witness:
  "\<exists>s c. DCAN_logits False (DCAN_init zero_weights 3 1) (torch_zeros 1 3 32 32) = Inr (s, c)
    \<and> shape s = (1, 1, 32, 32)
    \<and> (\<exists>c4 c5 c6 u1s u2s u3s.
          DCAN_stages False (DCAN_init zero_weights 3 1) (torch_zeros 1 3 32 32) = Inr (c4, c5, c6)
        \<and> dcanDeConv_forward False (dcan_deconv1s (DCAN_init zero_weights 3 1)) c6 = Inr u1s
        \<and> dcanDeConv_forward False (dcan_deconv2s (DCAN_init zero_weights 3 1)) c5 = Inr u2s
        \<and> dcanDeConv_forward False (dcan_deconv3s (DCAN_init zero_weights 3 1)) c4 = Inr u3s
        \<and> dat s 0 0 31 31 = dat u1s 0 0 31 31 + dat u2s 0 0 31 31 + dat u3s 0 0 31 31)
    \<and> DCAN_forward False (DCAN_init zero_weights 3 1) (torch_zeros 1 3 32 32) =
        Inr (F_sigmoid s, F_sigmoid c)"
proof -
  let ?m = "DCAN_init zero_weights 3 1"
  let ?x = "torch_zeros 1 3 32 32"
  obtain s c where l: "DCAN_logits False ?m ?x = Inr (s, c)" "shape s = (1, 1, 32, 32)"
    using DCAN_logits_shape [of ?x 3 1 1 False 1 zero_weights]
    by (auto simp: torch_zeros_def)
  from DCAN_logits_are_sums [OF l(1)] obtain c4 c5 c6 u1s u2s u3s where r:
    "DCAN_stages False ?m ?x = Inr (c4, c5, c6)"
    "dcanDeConv_forward False (dcan_deconv1s ?m) c6 = Inr u1s"
    "dcanDeConv_forward False (dcan_deconv2s ?m) c5 = Inr u2s"
    "dcanDeConv_forward False (dcan_deconv3s ?m) c4 = Inr u3s"
    "\<forall>n < tn s. \<forall>ch < tc s. \<forall>i < th s. \<forall>j < tw s.
          dat s n ch i j = dat u1s n ch i j + dat u2s n ch i j + dat u3s n ch i j"
    "DCAN_forward False ?m ?x = Inr (F_sigmoid s, F_sigmoid c)"
    by blast
  have "dat s 0 0 31 31 = dat u1s 0 0 31 31 + dat u2s 0 0 31 31 + dat u3s 0 0 31 31"
    using r(5) l(2) by (simp add: shape_eq_iff)
  with l r(1-4,6) show ?thesis
    by blast
qed

section \<open>The factory and the parameter count\<close>

text \<open>
  Claim C1. For every recognised name, \<^verbatim>\<open>build_model\<close> returns an instance of the
  class bearing that name. The code does so for seven of the eight names; for
  \<^verbatim>\<open>'cadunet'\<close> it constructs \<open>CAMDUNet\<close>, the three-branch class, although the class
  \<open>CADUNet\<close> exists. The theorem evaluates the factory at every recognised name.
\<close>

theorem build_model_names:
  "class_name (build_model ws ''unet'') = ''UNet'' \<and>
   class_name (build_model ws ''unet_vgg16'') = ''UNetVgg16'' \<and>
   class_name (build_model ws ''dcan'') = ''DCAN'' \<and>
   class_name (build_model ws ''caunet'') = ''CAUNet'' \<and>
   class_name (build_model ws ''camunet'') = ''CAMUNet'' \<and>
   class_name (build_model ws ''dunet'') = ''DUNet'' \<and>
   class_name (build_model ws ''camdunet'') = ''CAMDUNet'' \<and>
   build_model ws ''cadunet'' = CAMDUNet_model (CAMDUNet_init ws) \<and>
   class_name (build_model ws ''cadunet'') = ''CAMDUNet'' \<and>
   class_name (build_model ws ''cadunet'') \<noteq> ''CADUNet''"
  by (simp add: build_model_def)

text \<open>
  Claim C5. For every name outside the seven names the factory tests for, it returns the
  plain \<open>UNet\<close>, the same class as for \<^verbatim>\<open>'unet'\<close>. The factory is a total function: no
  name makes it fail.
\<close>

theorem build_model_default:
  assumes "name \<notin> {''unet_vgg16'', ''dcan'', ''caunet'', ''camunet'', ''dunet'', ''cadunet'', ''camdunet''}"
  shows "build_model ws name = UNet_model (UNet_init ws)
       \<and> build_model ws name = build_model ws ''unet''
       \<and> class_name (build_model ws name) = class_name (build_model ws ''unet'')
       \<and> class_name (build_model ws name) = ''UNet''"
  using assms by (simp add: build_model_def)

text \<open>The name \<^verbatim>\<open>'unknown_name'\<close> is such a name.\<close>

theorem build_model_default_witness:
  "''unknown_name'' \<notin> {''unet_vgg16'', ''dcan'', ''caunet'', ''camunet'', ''dunet'', ''cadunet'', ''camdunet''}
   \<and> build_model zero_weights ''unknown_name'' = build_model zero_weights ''unet''
   \<and> class_name (build_model zero_weights ''unknown_name'') = ''UNet''"
proof -
  have h: "''unknown_name'' \<notin> {''unet_vgg16'', ''dcan'', ''caunet'', ''camunet'', ''dunet'', ''cadunet'', ''camdunet''}"
    by simp
  note r = build_model_default [OF h, of zero_weights]
  from r have a: "build_model zero_weights ''unknown_name'' = build_model zero_weights ''unet''"
    by (elim conjE)
  from r have b: "class_name (build_model zero_weights ''unknown_name'') = ''UNet''"
    by (elim conjE)
  show ?thesis
    by (intro conjI h a b)
qed

text \<open>Freezing the backbone leaves none of its parameters trainable.\<close>

lemma Sequential_parameters_freeze:
  "filter requires_grad (Sequential_parameters (map layer_freeze ls)) = []"
proof (induction ls)
  case Nil
  show ?case by (simp add: Sequential_parameters_def)
next
  case (Cons l ls)
  have "filter requires_grad (layer_parameters (layer_freeze l)) = []"
    by (cases l) (simp_all add: Conv2d_parameters_def BatchNorm2d_parameters_def freeze_def)
  with Cons show ?case by (simp add: Sequential_parameters_def)
qed

lemma VGG_parameters_freeze:
  "filter requires_grad (VGG_parameters (VGG_freeze v)) = []"
  by (simp add: VGG_parameters_def VGG_freeze_def Sequential_parameters_freeze freeze_def
      filter_empty_conv)

text \<open>
  Claim C10. \<^verbatim>\<open>build_model('unet_vgg16')\<close> constructs \<open>UNetVgg16\<close> with
  \<open>n_channels = 3\<close>, \<open>n_classes = 1\<close> and \<open>fixed_vgg = True\<close>, and whatever name
  yields a \<open>UNetVgg16\<close> through the factory yields that one: no parameter of its
  backbone requires gradients.
\<close>

theorem factory_backbone_frozen:
  "build_model ws ''unet_vgg16'' = UNetVgg16_model (UNetVgg16_init ws 3 1 True) \<and>
   (\<forall>name m. build_model ws name = UNetVgg16_model m \<longrightarrow>
      m = UNetVgg16_init ws 3 1 True \<and>
      filter requires_grad (VGG_parameters (uv_vgg16 m)) = [])"
  by (auto simp: build_model_def UNetVgg16_init_def Let_def VGG_parameters_freeze)

text \<open>The name \<^verbatim>\<open>'unet_vgg16'\<close> does yield a \<open>UNetVgg16\<close>.\<close>

theorem factory_backbone_frozen_witness:
  "build_model zero_weights ''unet_vgg16'' = UNetVgg16_model (UNetVgg16_init zero_weights 3 1 True)
   \<and> filter requires_grad
         (VGG_parameters (uv_vgg16 (UNetVgg16_init zero_weights 3 1 True))) = []"
proof -
  note r = factory_backbone_frozen [of zero_weights]
  from r have a: "build_model zero_weights ''unet_vgg16'' =
      UNetVgg16_model (UNetVgg16_init zero_weights 3 1 True)"
    by (rule conjunct1)
  from r have q: "\<forall>name m. build_model zero_weights name = UNetVgg16_model m \<longrightarrow>
      m = UNetVgg16_init zero_weights 3 1 True \<and>
      filter requires_grad (VGG_parameters (uv_vgg16 m)) = []"
    by (rule conjunct2)
  from q [rule_format, OF a] have b: "filter requires_grad
      (VGG_parameters (uv_vgg16 (UNetVgg16_init zero_weights 3 1 True))) = []"
    by (rule conjunct2)
  show ?thesis
    by (intro conjI a b)
qed

lemma count_filter:
  "sum_list (map numel (filter requires_grad ps)) = (\<Sum>p\<leftarrow>ps. if requires_grad p then numel p else 0)"
  by (induction ps) simp_all

lemma filter_all_trainable: "list_all requires_grad ps \<Longrightarrow> filter requires_grad ps = ps"
  by (induction ps) simp_all

lemma make_layers_trainable:
  "list_all requires_grad (Sequential_parameters (make_layers ws i c cfg))"
  by (induction ws i c cfg rule: make_layers.induct)
     (simp_all add: Sequential_parameters_def Conv2d_parameters_def BatchNorm2d_parameters_def
        Conv2d_init_def BatchNorm2d_init_def Parameter_def)

lemma vgg16_bn_trainable: "list_all requires_grad (VGG_parameters (vgg16_bn ws))"
  using make_layers_trainable [of "sub ws (Attr ''features'')" 0 3 cfg_D]
  by (simp add: VGG_parameters_def vgg16_bn_def Linear_parameters_def Parameter_def)

lemma DeConvBlk_trainable:
  "list_all requires_grad (DeConvBlk_parameters (DeConvBlk_init ws i out r))"
  by (simp add: DeConvBlk_parameters_def DeConvBlk_init_def Let_def Sequential_parameters_def
      ConvTranspose2d_parameters_def ConvTranspose2d_init_def Conv2d_parameters_def
      BatchNorm2d_parameters_def Conv2d_init_def BatchNorm2d_init_def Parameter_def)

lemma decoder_trainable:
  "list_all requires_grad (UNetVgg16_decoder_parameters (UNetVgg16_init ws n_channels n_classes fixed))"
  by (simp add: UNetVgg16_decoder_parameters_def UNetVgg16_init_def Let_def DeConvBlk_trainable
      outConv_parameters_def outConv_init_def Conv2d_parameters_def Conv2d_init_def Parameter_def)

lemma decoder_fixed_irrelevant:
  "UNetVgg16_decoder_parameters (UNetVgg16_init ws n_channels n_classes fixed) =
   UNetVgg16_decoder_parameters (UNetVgg16_init ws n_channels n_classes True)"
  by (simp add: UNetVgg16_decoder_parameters_def UNetVgg16_init_def Let_def)

text \<open>
  Claim C9. For every model, \<^verbatim>\<open>count_parameters\<close> is the sum of the element counts
  of the parameters that require gradients: a parameter that does not adds 0. So in a
  \<open>UNetVgg16\<close> built with \<open>fixed_vgg = True\<close> the backbone's parameters add 0 and the
  count is that of the decoder, and the same network built with \<open>fixed_vgg = False\<close>
  counts the whole backbone on top of that.
\<close>

theorem count_parameters_trainable:
  "count_parameters model = (\<Sum>p\<leftarrow>parameters model. if requires_grad p then numel p else 0)
   \<and> (\<Sum>p\<leftarrow>VGG_parameters (uv_vgg16 (UNetVgg16_init ws n_channels n_classes True)).
         if requires_grad p then numel p else 0) = 0
   \<and> count_parameters (UNetVgg16_model (UNetVgg16_init ws n_channels n_classes True)) =
       sum_list (map numel (UNetVgg16_decoder_parameters (UNetVgg16_init ws n_channels n_classes True)))
   \<and> count_parameters (UNetVgg16_model (UNetVgg16_init ws n_channels n_classes False)) =
       sum_list (map numel (VGG_parameters (vgg16_bn (sub ws (Attr ''vgg16''))))) +
       count_parameters (UNetVgg16_model (UNetVgg16_init ws n_channels n_classes True))"
proof (intro conjI)
  show "count_parameters model = (\<Sum>p\<leftarrow>parameters model. if requires_grad p then numel p else 0)"
    by (simp add: count_parameters_def count_filter)
  have frozen: "filter requires_grad
      (VGG_parameters (uv_vgg16 (UNetVgg16_init ws n_channels n_classes True))) = []"
    by (simp add: UNetVgg16_init_def Let_def VGG_parameters_freeze)
  show "(\<Sum>p\<leftarrow>VGG_parameters (uv_vgg16 (UNetVgg16_init ws n_channels n_classes True)).
         if requires_grad p then numel p else 0) = 0"
    using count_filter [of "VGG_parameters (uv_vgg16 (UNetVgg16_init ws n_channels n_classes True))"]
    by (simp add: frozen)
  show t: "count_parameters (UNetVgg16_model (UNetVgg16_init ws n_channels n_classes True)) =
      sum_list (map numel (UNetVgg16_decoder_parameters (UNetVgg16_init ws n_channels n_classes True)))"
    by (simp add: count_parameters_def UNetVgg16_parameters_def frozen
        filter_all_trainable [OF decoder_trainable])
  have unfrozen: "uv_vgg16 (UNetVgg16_init ws n_channels n_classes False) =
      vgg16_bn (sub ws (Attr ''vgg16''))"
    by (simp add: UNetVgg16_init_def Let_def)
  show "count_parameters (UNetVgg16_model (UNetVgg16_init ws n_channels n_classes False)) =
      sum_list (map numel (VGG_parameters (vgg16_bn (sub ws (Attr ''vgg16''))))) +
      count_parameters (UNetVgg16_model (UNetVgg16_init ws n_channels n_classes True))"
    unfolding t
    by (simp add: count_parameters_def UNetVgg16_parameters_def unfrozen
        filter_all_trainable [OF vgg16_bn_trainable] filter_all_trainable [OF decoder_trainable]
        decoder_fixed_irrelevant [of ws n_channels n_classes False])
qed

text \<open>
  The backbone as modelled has the 138365992 parameter elements of the library's
  \<^verbatim>\<open>vgg16_bn\<close>, in 44 feature layers.
\<close>

lemma vgg16_bn_numel:
  "sum_list (map numel (VGG_parameters (vgg16_bn ws))) = 138365992"
  by (simp add: VGG_parameters_def vgg16_bn_def cfg_D_def Sequential_parameters_def
      Linear_parameters_def Conv2d_parameters_def BatchNorm2d_parameters_def
      Conv2d_init_def BatchNorm2d_init_def Parameter_def)

end
